(* ===== verification/Prelude.thy ===== *)
theory Prelude
  imports Complex_Main
begin

text \<open>
  Shared vocabulary of the development.
  \<^item> \<open>js_error\<close>: a JavaScript \<^verbatim>\<open>Error\<close> object, reduced to its \<^verbatim>\<open>message\<close>,
    or a Node.js system error, which also carries its \<^verbatim>\<open>code\<close> (\<^verbatim>\<open>ENOENT\<close>, ...);
  \<^item> \<open>('s, 'a) exc\<close>: an asynchronous JavaScript function over a state \<open>'s\<close>
    that either resolves with an \<open>'a\<close> (\<open>Inr\<close>) or rejects with an error
    (\<open>Inl\<close>), returning the state it leaves behind in both cases.  Each
    \<^verbatim>\<open>await\<close> of the source is one \<open>bindE\<close>, each \<^verbatim>\<open>try\<close>/\<^verbatim>\<open>catch\<close>
    a \<open>catchE\<close>, each \<^verbatim>\<open>throw\<close> a \<open>throwE\<close>;
  \<^item> \<open>show_nat\<close>, \<open>show_int\<close>: JavaScript's decimal rendering of an
    integral number inside a template literal;
  \<^item> the named collections \<open>exc_simps\<close> (how the monad runs) and
    \<open>model_defs\<close> (the definitions of the model, unfolded by the component
    proofs).
\<close>

named_theorems exc_simps "running the exception-state monad"
named_theorems model_defs "definitions of the operations of the model"

section \<open>Errors\<close>

datatype js_error = Error string | SysError string string

fun err_msg :: "js_error \<Rightarrow> string" where
  "err_msg (Error m) = m"
| "err_msg (SysError c m) = m"

text \<open>\<^verbatim>\<open>error.code\<close>: \<open>None\<close> is \<^verbatim>\<open>undefined\<close>.\<close>

fun err_code :: "js_error \<Rightarrow> string option" where
  "err_code (Error m) = None"
| "err_code (SysError c m) = Some c"

section \<open>The exception-state monad\<close>

type_synonym ('s, 'a) exc = "'s \<Rightarrow> (js_error + 'a) \<times> 's"

definition returnE :: "'a \<Rightarrow> ('s, 'a) exc" where
  "returnE x = (\<lambda>s. (Inr x, s))"

definition throwE :: "js_error \<Rightarrow> ('s, 'a) exc" where
  "throwE e = (\<lambda>s. (Inl e, s))"

definition bindE :: "('s, 'a) exc \<Rightarrow> ('a \<Rightarrow> ('s, 'b) exc) \<Rightarrow> ('s, 'b) exc" where
  "bindE m f = (\<lambda>s. case m s of (Inl e, s') \<Rightarrow> (Inl e, s') | (Inr x, s') \<Rightarrow> f x s')"

definition catchE :: "('s, 'a) exc \<Rightarrow> (js_error \<Rightarrow> ('s, 'a) exc) \<Rightarrow> ('s, 'a) exc" where
  "catchE m h = (\<lambda>s. case m s of (Inl e, s') \<Rightarrow> h e s' | (Inr x, s') \<Rightarrow> (Inr x, s'))"

definition getsE :: "('s \<Rightarrow> 'a) \<Rightarrow> ('s, 'a) exc" where
  "getsE f = (\<lambda>s. (Inr (f s), s))"

definition modifyE :: "('s \<Rightarrow> 's) \<Rightarrow> ('s, unit) exc" where
  "modifyE f = (\<lambda>s. (Inr (), f s))"

text \<open>The result and the final state of a run, and whether it resolved.\<close>

definition resolved :: "(js_error + 'a) \<times> 's \<Rightarrow> bool" where
  "resolved r \<longleftrightarrow> \<not> isl (fst r)"

section \<open>Decimal rendering of integral numbers\<close>

text \<open>\<^verbatim>\<open>`${n}`\<close> for an integral JavaScript number.\<close>

definition digit_chars :: string where
  "digit_chars = ''0123456789''"

fun show_nat :: "nat \<Rightarrow> string" where
  "show_nat n =
     (if n < 10 then [digit_chars ! n]
      else show_nat (n div 10) @ [digit_chars ! (n mod 10)])"

declare show_nat.simps [simp del]

definition show_int :: "int \<Rightarrow> string" where
  "show_int i = (if i < 0 then CHR ''-'' # show_nat (nat (- i)) else show_nat (nat i))"

section \<open>Facts about the monad and the rendering\<close>

lemma returnE_run [simp, exc_simps]: "returnE x s = (Inr x, s)"
  by (simp add: returnE_def)

lemma throwE_run [simp, exc_simps]: "throwE e s = (Inl e, s)"
  by (simp add: throwE_def)

lemma getsE_run [simp, exc_simps]: "getsE f s = (Inr (f s), s)"
  by (simp add: getsE_def)

lemma modifyE_run [simp, exc_simps]: "modifyE f s = (Inr (), f s)"
  by (simp add: modifyE_def)

lemma bindE_run [simp, exc_simps]:
  "bindE m f s = (case m s of (Inl e, s') \<Rightarrow> (Inl e, s') | (Inr x, s') \<Rightarrow> f x s')"
  by (simp add: bindE_def)

lemma catchE_run [simp, exc_simps]:
  "catchE m h s = (case m s of (Inl e, s') \<Rightarrow> h e s' | (Inr x, s') \<Rightarrow> (Inr x, s'))"
  by (simp add: catchE_def)

text \<open>The monad laws, and how a handler meets a value that does not reject.\<close>

lemma bindE_returnE_left: "bindE (returnE x) f = f x"
  by (rule ext) simp

lemma bindE_returnE_right: "bindE m returnE = m"
  by (rule ext) (simp split: prod.splits sum.splits)

lemma bindE_assoc: "bindE (bindE m f) g = bindE m (\<lambda>x. bindE (f x) g)"
  by (rule ext) (simp split: prod.splits sum.splits)

lemma catchE_returnE: "catchE (returnE x) h = returnE x"
  by (rule ext) simp

lemma catchE_throwE: "catchE (throwE e) h = h e"
  by (rule ext) simp

lemma bindE_Inl [simp]: "m s = (Inl e, s') \<Longrightarrow> bindE m f s = (Inl e, s')"
  by simp

lemma bindE_Inr [simp]: "m s = (Inr x, s') \<Longrightarrow> bindE m f s = f x s'"
  by simp

lemma catchE_Inl [simp]: "m s = (Inl e, s') \<Longrightarrow> catchE m h s = h e s'"
  by simp

lemma catchE_Inr [simp]: "m s = (Inr x, s') \<Longrightarrow> catchE m h s = (Inr x, s')"
  by simp

lemma resolved_iff [simp]: "resolved (r, s) \<longleftrightarrow> \<not> isl r"
  by (simp add: resolved_def)

text \<open>
  A handler that always resolves makes the whole \<^verbatim>\<open>try\<close>/\<^verbatim>\<open>catch\<close> resolve:
  the shape of the read-only operations of the bridge.
\<close>

lemma catchE_resolves:
  assumes "\<And>e s'. \<not> isl (fst (h e s'))"
  shows "\<not> isl (fst (catchE m h s))"
  using assms by (simp split: prod.splits sum.splits)

text \<open>A rejection that passes through a handler which re-throws with a prefix.\<close>

lemma catchE_rethrow_prefix:
  assumes "fst (catchE m (\<lambda>e. throwE (Error (pre @ err_msg e))) s) = Inl e'"
  shows "\<exists>m'. e' = Error (pre @ m')"
  using assms by (auto split: prod.splits sum.splits)

lemma show_nat_nonempty: "show_nat n \<noteq> []"
  by (subst show_nat.simps) simp

lemma show_int_1280: "show_int 1280 = ''1280''"
  by (simp add: show_int_def show_nat.simps digit_chars_def)

end
