(* ===== verification/World.thy ===== *)
theory World
  imports Prelude
begin

text \<open>
  The environment the program drives: the Chromium processes and pages that
  Puppeteer controls, and the DOM of the page served at the target URL.  None of
  this is code of the repository (it is the \<^verbatim>\<open>puppeteer\<close> library and the
  remote site \<^verbatim>\<open>strudel.cc\<close>), so it is modelled from Puppeteer's documented
  behaviour, at the level of detail the program depends on:
  \<^item> a browser process is open or closed; a page belongs to one browser and is
    usable only while it is attached (not crashed) and its browser is open;
  \<^item> every call on an unusable page rejects, as Puppeteer's
    \<^verbatim>\<open>Protocol error: Target closed\<close> does;
  \<^item> navigation reaches \<^verbatim>\<open>networkidle2\<close> within its timeout only while the
    site is reachable (\<open>w_online\<close>), and then installs the site's DOM;
  \<^item> \<^verbatim>\<open>page.evaluate(fn)\<close> runs \<open>fn\<close> on the page's DOM; \<open>fn\<close> is a
    parameter, so the page functions of the source are modelled where the source
    has them (Session, Bridge);
  \<^item> \<^verbatim>\<open>page.waitForTimeout\<close> is a plain timer and never rejects;
  \<^item> \<^verbatim>\<open>browser.close()\<close> never rejects and detaches all pages of the browser.
  Every remote action that succeeds is appended to \<open>w_trace\<close> with the handle
  it acted on, so that the order of the program's actions is observable.
  Handles are natural numbers drawn from the counter \<open>w_next\<close>.
\<close>

section \<open>The DOM of a page\<close>

text \<open>
  Only the parts of the DOM the page functions of the source read or write:
  the \<^verbatim>\<open>.cm-editor\<close> element, its CodeMirror view (\<^verbatim>\<open>cmView.view\<close>) with the
  document text, the first \<^verbatim>\<open>textarea\<close> with its value, an element with
  \<^verbatim>\<open>data-playing="true"\<close>, the page global \<^verbatim>\<open>setcps\<close> and the tempo it sets.
\<close>

record dom =
  d_editor :: bool
  d_view :: "string option"
  d_textarea :: "string option"
  d_playing :: bool
  d_has_setcps :: bool
  d_cps :: "real option"

definition blank_dom :: dom where
  "blank_dom = \<lparr>d_editor = False, d_view = None, d_textarea = None, d_playing = False,
                d_has_setcps = False, d_cps = None\<rparr>"

text \<open>The values a page function returns to the program.\<close>

datatype jsval = JUndefined | JBool bool | JString string

type_synonym page_fn = "dom \<Rightarrow> (js_error + jsval) \<times> dom"

section \<open>Browsers, pages and the action trace\<close>

datatype headless_mode = HeadlessNew | Headful

record launch_opts =
  lo_headless :: headless_mode
  lo_args :: "string list"
  lo_viewport :: "int \<times> int"

datatype action =
    Launched launch_opts
  | NewPage
  | UserAgent string
  | Goto string nat
  | SelectorFound string nat
  | Evaluated
  | KeyDown string
  | KeyPress string
  | KeyUp string
  | Waited nat
  | Closed

record page_st =
  pg_owner :: nat
  pg_alive :: bool
  pg_url :: string
  pg_agent :: string
  pg_dom :: dom

record world =
  w_browsers :: "nat list"
  w_pages :: "nat \<rightharpoonup> page_st"
  w_next :: nat
  w_chrome :: bool
  w_online :: bool
  w_site :: dom
  w_trace :: "(nat \<times> action) list"

definition page_live :: "world \<Rightarrow> nat \<Rightarrow> bool" where
  "page_live w p =
     (case w_pages w p of
        None \<Rightarrow> False
      | Some pg \<Rightarrow> pg_alive pg \<and> pg_owner pg \<in> set (w_browsers w))"

definition page_dom :: "world \<Rightarrow> nat \<Rightarrow> dom" where
  "page_dom w p = (case w_pages w p of None \<Rightarrow> blank_dom | Some pg \<Rightarrow> pg_dom pg)"

definition logged :: "nat \<Rightarrow> action \<Rightarrow> world \<Rightarrow> world" where
  "logged h a w = w\<lparr>w_trace := w_trace w @ [(h, a)]\<rparr>"

definition upd_page :: "nat \<Rightarrow> (page_st \<Rightarrow> page_st) \<Rightarrow> world \<Rightarrow> world" where
  "upd_page p f w = w\<lparr>w_pages := (w_pages w)(p := map_option f (w_pages w p))\<rparr>"

definition target_closed :: js_error where
  "target_closed = Error ''Protocol error: Target closed''"

section \<open>Puppeteer's operations\<close>

definition pup_launch :: "launch_opts \<Rightarrow> world \<Rightarrow> (js_error + nat) \<times> world" where
  "pup_launch opts w =
     (if w_chrome w then
        (let b = w_next w in
         (Inr b, logged b (Launched opts) (w\<lparr>w_browsers := w_browsers w @ [b], w_next := Suc b\<rparr>)))
      else (Inl (Error ''Failed to launch the browser process!''), w))"

definition pup_new_page :: "nat \<Rightarrow> world \<Rightarrow> (js_error + nat) \<times> world" where
  "pup_new_page b w =
     (if b \<in> set (w_browsers w) then
        (let p = w_next w;
             pg = \<lparr>pg_owner = b, pg_alive = True, pg_url = ''about:blank'', pg_agent = [],
                   pg_dom = blank_dom\<rparr>
         in (Inr p, logged p NewPage (w\<lparr>w_pages := (w_pages w)(p \<mapsto> pg), w_next := Suc p\<rparr>)))
      else (Inl (Error ''Protocol error: Connection closed.''), w))"

text \<open>A page call that only records an action and updates the page.\<close>

definition page_act :: "nat \<Rightarrow> action \<Rightarrow> (page_st \<Rightarrow> page_st) \<Rightarrow> world \<Rightarrow> (js_error + unit) \<times> world" where
  "page_act p a f w =
     (if page_live w p then (Inr (), logged p a (upd_page p f w)) else (Inl target_closed, w))"

definition pup_set_user_agent :: "nat \<Rightarrow> string \<Rightarrow> world \<Rightarrow> (js_error + unit) \<times> world" where
  "pup_set_user_agent p ua = page_act p (UserAgent ua) (\<lambda>pg. pg\<lparr>pg_agent := ua\<rparr>)"

definition pup_goto :: "nat \<Rightarrow> string \<Rightarrow> nat \<Rightarrow> world \<Rightarrow> (js_error + unit) \<times> world" where
  "pup_goto p url timeout w =
     (if \<not> page_live w p then (Inl target_closed, w)
      else if \<not> w_online w then
        (Inl (Error (''Navigation timeout of '' @ show_nat timeout @ '' ms exceeded'')), w)
      else (Inr (), logged p (Goto url timeout)
                      (upd_page p (\<lambda>pg. pg\<lparr>pg_url := url, pg_dom := w_site w\<rparr>) w)))"

definition pup_wait_for_selector :: "nat \<Rightarrow> string \<Rightarrow> nat \<Rightarrow> world \<Rightarrow> (js_error + unit) \<times> world" where
  "pup_wait_for_selector p sel timeout w =
     (if \<not> page_live w p then (Inl target_closed, w)
      else if sel = ''.cm-editor'' \<and> d_editor (page_dom w p) then
        (Inr (), logged p (SelectorFound sel timeout) w)
      else (Inl (Error (''Waiting for selector `'' @ sel @ ''` failed: timeout '' @
                        show_nat timeout @ ''ms exceeded'')), w))"

definition pup_evaluate :: "nat \<Rightarrow> page_fn \<Rightarrow> world \<Rightarrow> (js_error + jsval) \<times> world" where
  "pup_evaluate p fn w =
     (if page_live w p then
        (case fn (page_dom w p) of
           (r, d) \<Rightarrow> (r, logged p Evaluated (upd_page p (\<lambda>pg. pg\<lparr>pg_dom := d\<rparr>) w)))
      else (Inl target_closed, w))"

definition pup_key_down :: "nat \<Rightarrow> string \<Rightarrow> world \<Rightarrow> (js_error + unit) \<times> world" where
  "pup_key_down p k = page_act p (KeyDown k) id"

definition pup_key_press :: "nat \<Rightarrow> string \<Rightarrow> world \<Rightarrow> (js_error + unit) \<times> world" where
  "pup_key_press p k = page_act p (KeyPress k) id"

definition pup_key_up :: "nat \<Rightarrow> string \<Rightarrow> world \<Rightarrow> (js_error + unit) \<times> world" where
  "pup_key_up p k = page_act p (KeyUp k) id"

definition pup_wait :: "nat \<Rightarrow> nat \<Rightarrow> world \<Rightarrow> (js_error + unit) \<times> world" where
  "pup_wait p ms w = (Inr (), logged p (Waited ms) w)"

definition pup_close :: "nat \<Rightarrow> world \<Rightarrow> (js_error + unit) \<times> world" where
  "pup_close b w = (Inr (), logged b Closed (w\<lparr>w_browsers := removeAll b (w_browsers w)\<rparr>))"

section \<open>Events of the environment\<close>

text \<open>
  What can happen to the environment between two calls of the program: a page
  crashes or is navigated away (it detaches), a browser process dies, the site
  becomes reachable or unreachable, Chromium becomes startable or not, the
  site starts serving another DOM.
\<close>

datatype env_event =
    PageCrash nat
  | BrowserDies nat
  | SetOnline bool
  | SetChrome bool
  | SetSite dom

fun env_step :: "env_event \<Rightarrow> world \<Rightarrow> world" where
  "env_step (PageCrash p) w = upd_page p (\<lambda>pg. pg\<lparr>pg_alive := False\<rparr>) w"
| "env_step (BrowserDies b) w = w\<lparr>w_browsers := removeAll b (w_browsers w)\<rparr>"
| "env_step (SetOnline b) w = w\<lparr>w_online := b\<rparr>"
| "env_step (SetChrome b) w = w\<lparr>w_chrome := b\<rparr>"
| "env_step (SetSite d) w = w\<lparr>w_site := d\<rparr>"

lemmas world_defs [model_defs] = page_act_def pup_set_user_agent_def pup_key_down_def
  pup_key_press_def pup_key_up_def pup_wait_def pup_close_def pup_goto_def
  pup_wait_for_selector_def pup_evaluate_def pup_launch_def pup_new_page_def

section \<open>Facts about the environment\<close>

text \<open>Updating a page keeps which pages exist and who owns them.\<close>

lemma upd_page_pages_dom [simp]: "dom (w_pages (upd_page p f w)) = dom (w_pages w)"
  by (auto simp: upd_page_def)

lemma w_pages_logged [simp]: "w_pages (logged h a w) = w_pages w"
  by (simp add: logged_def)

lemma w_browsers_logged [simp]: "w_browsers (logged h a w) = w_browsers w"
  by (simp add: logged_def)

lemma w_trace_logged [simp]: "w_trace (logged h a w) = w_trace w @ [(h, a)]"
  by (simp add: logged_def)

lemma page_live_logged [simp]: "page_live (logged h a w) p = page_live w p"
  by (simp add: page_live_def split: option.splits)

lemma page_dom_logged [simp]: "page_dom (logged h a w) p = page_dom w p"
  by (simp add: page_dom_def)


lemma logged_env [simp]:
  "w_next (logged h a w) = w_next w" "w_chrome (logged h a w) = w_chrome w"
  "w_online (logged h a w) = w_online w" "w_site (logged h a w) = w_site w"
  by (simp_all add: logged_def)

lemma upd_page_env [simp]:
  "w_next (upd_page p f w) = w_next w" "w_chrome (upd_page p f w) = w_chrome w"
  "w_online (upd_page p f w) = w_online w" "w_site (upd_page p f w) = w_site w"
  by (simp_all add: upd_page_def)

lemma w_browsers_upd_page [simp]: "w_browsers (upd_page p f w) = w_browsers w"
  by (simp add: upd_page_def)

lemma w_trace_upd_page [simp]: "w_trace (upd_page p f w) = w_trace w"
  by (simp add: upd_page_def)

lemma w_pages_upd_page:
  "w_pages (upd_page p f w) q = (if q = p then map_option f (w_pages w p) else w_pages w q)"
  by (simp add: upd_page_def)

text \<open>An update that keeps a page attached keeps it live, and vice versa.\<close>

lemma page_live_upd_page [simp]:
  assumes "\<And>pg. pg_alive (f pg) = pg_alive pg" "\<And>pg. pg_owner (f pg) = pg_owner pg"
  shows "page_live (upd_page p f w) q = page_live w q"
  using assms by (auto simp: page_live_def w_pages_upd_page split: option.splits)

lemma page_dom_upd_page_dom [simp]:
  "page_live w p \<Longrightarrow> page_dom (upd_page p (\<lambda>pg. pg\<lparr>pg_dom := d\<rparr>) w) p = d"
  by (auto simp: page_dom_def page_live_def w_pages_upd_page split: option.splits)

lemma page_dom_upd_page_other [simp]:
  "q \<noteq> p \<Longrightarrow> page_dom (upd_page p f w) q = page_dom w q"
  by (simp add: page_dom_def w_pages_upd_page)

lemma page_live_owner:
  "page_live w p \<Longrightarrow> \<exists>pg. w_pages w p = Some pg \<and> pg_alive pg \<and> pg_owner pg \<in> set (w_browsers w)"
  by (auto simp: page_live_def split: option.splits)

end
