(* ===== verification/Session.thy ===== *)
theory Session
  imports World
begin

text \<open>
  The session manager, \<^verbatim>\<open>src/src/browser.js\<close>.  Its module state, the two
  singletons \<^verbatim>\<open>browser\<close> and \<^verbatim>\<open>page\<close> (\<^verbatim>\<open>null\<close> or a handle), is the record
  \<open>sys\<close> together with the world they point into.  The resolved configuration
  (lines 22--28) is the record \<open>config\<close>, passed to the operations that read it.
  Each exported function is one definition: \<open>launchBrowser\<close> (with its
  \<^verbatim>\<open>try\<close> block \<open>launch_fresh\<close>), \<open>getPage\<close>, \<open>closeBrowser\<close>,
  \<open>restartBrowser\<close>, \<open>isBrowserAlive\<close>.  Debug logging to stderr has no
  effect on the state and is left out.
\<close>

record config =
  c_url :: string
  c_headless :: bool
  c_width :: int
  c_height :: int
  c_debug :: bool

record sys =
  s_browser :: "nat option"
  s_page :: "nat option"
  s_world :: world

definition init_sys :: "world \<Rightarrow> sys" where
  "init_sys w = \<lparr>s_browser = None, s_page = None, s_world = w\<rparr>"

text \<open>A call into Puppeteer, run on the world the session points into.\<close>

definition remote :: "(world \<Rightarrow> (js_error + 'a) \<times> world) \<Rightarrow> (sys, 'a) exc" where
  "remote f = (\<lambda>s. case f (s_world s) of (r, w) \<Rightarrow> (r, s\<lparr>s_world := w\<rparr>))"

section \<open>Launching\<close>

definition user_agent :: string where
  "user_agent = ''Mozilla/5.0 (Macintosh; Intel Mac OS X 10_15_7) AppleWebKit/537.36 (KHTML, like Gecko) Chrome/120.0.0.0 Safari/537.36''"

definition launch_options :: "config \<Rightarrow> launch_opts" where
  "launch_options cfg =
     \<lparr>lo_headless = (if c_headless cfg then HeadlessNew else Headful),
      lo_args = [''--no-sandbox'',
                 ''--disable-setuid-sandbox'',
                 ''--autoplay-policy=no-user-gesture-required'',
                 ''--enable-features=WebAudioBypassOutputBuffering'',
                 ''--disable-features=AudioServiceOutOfProcess'',
                 ''--window-size='' @ show_int (c_width cfg) @ '','' @ show_int (c_height cfg)],
      lo_viewport = (c_width cfg, c_height cfg)\<rparr>"

text \<open>The liveness probe \<^verbatim>\<open>() => true\<close>, evaluated in the page.\<close>

definition probe_fn :: page_fn where
  "probe_fn d = (Inr (JBool True), d)"

text \<open>
  The \<^verbatim>\<open>try\<close> block of \<^verbatim>\<open>launchBrowser\<close> with its \<^verbatim>\<open>catch\<close>.  The module
  variables are assigned as soon as each \<^verbatim>\<open>await\<close> resolves, so a later failure
  leaves them set.
\<close>

definition launch_fresh :: "config \<Rightarrow> (sys, nat \<times> nat) exc" where
  "launch_fresh cfg =
     catchE
       (bindE (remote (pup_launch (launch_options cfg))) (\<lambda>b.
        bindE (modifyE (\<lambda>s. s\<lparr>s_browser := Some b\<rparr>)) (\<lambda>_.
        bindE (remote (pup_new_page b)) (\<lambda>p.
        bindE (modifyE (\<lambda>s. s\<lparr>s_page := Some p\<rparr>)) (\<lambda>_.
        bindE (remote (pup_set_user_agent p user_agent)) (\<lambda>_.
        bindE (remote (pup_goto p (c_url cfg) 30000)) (\<lambda>_.
        bindE (remote (pup_wait_for_selector p ''.cm-editor'' 10000)) (\<lambda>_.
        returnE (b, p)))))))))
       (\<lambda>e. throwE (Error (''Browser launch failed: '' @ err_msg e)))"

definition launchBrowser :: "config \<Rightarrow> (sys, nat \<times> nat) exc" where
  "launchBrowser cfg =
     (\<lambda>s. case (s_browser s, s_page s) of
            (Some b, Some p) \<Rightarrow>
              (case remote (pup_evaluate p probe_fn) s of
                 (Inr _, s') \<Rightarrow> (Inr (b, p), s')
               | (Inl _, s') \<Rightarrow> launch_fresh cfg (s'\<lparr>s_browser := None, s_page := None\<rparr>))
          | _ \<Rightarrow> launch_fresh cfg s)"

section \<open>The other operations\<close>

definition getPage :: "config \<Rightarrow> (sys, nat) exc" where
  "getPage cfg =
     bindE (getsE s_page) (\<lambda>po.
       case po of
         None \<Rightarrow> bindE (launchBrowser cfg) (\<lambda>r. returnE (snd r))
       | Some p \<Rightarrow> returnE p)"

definition closeBrowser :: "(sys, unit) exc" where
  "closeBrowser =
     bindE (getsE s_browser) (\<lambda>bo.
       case bo of
         None \<Rightarrow> returnE ()
       | Some b \<Rightarrow>
           bindE (remote (pup_close b)) (\<lambda>_.
           modifyE (\<lambda>s. s\<lparr>s_browser := None, s_page := None\<rparr>)))"

definition restartBrowser :: "config \<Rightarrow> (sys, nat \<times> nat) exc" where
  "restartBrowser cfg = bindE closeBrowser (\<lambda>_. launchBrowser cfg)"

definition isBrowserAlive :: "(sys, bool) exc" where
  "isBrowserAlive =
     (\<lambda>s. case (s_browser s, s_page s) of
            (Some b, Some p) \<Rightarrow>
              catchE (bindE (remote (pup_evaluate p probe_fn)) (\<lambda>_. returnE True))
                     (\<lambda>_. returnE False) s
          | _ \<Rightarrow> (Inr False, s))"

lemmas session_defs [model_defs] = launch_fresh_def launchBrowser_def getPage_def
  closeBrowser_def restartBrowser_def isBrowserAlive_def

section \<open>The session invariant\<close>

text \<open>
  What the code keeps true of its two module variables: a page is only held
  together with the browser that created it, and both are handles the world
  has handed out.  (The specification's stronger "both set or both
  \<^verbatim>\<open>null\<close>" is not kept: see the root theory.)
\<close>

definition sess_wf :: "sys \<Rightarrow> bool" where
  "sess_wf s =
     ((case s_browser s of None \<Rightarrow> True | Some b \<Rightarrow> b < w_next (s_world s)) \<and>
      (case (s_browser s, s_page s) of
         (_, None) \<Rightarrow> True
       | (None, Some p) \<Rightarrow> False
       | (Some b, Some p) \<Rightarrow> map_option pg_owner (w_pages (s_world s) p) = Some b))"

section \<open>Facts about the primitives, lifted to the session\<close>

lemma remote_run [simp, exc_simps]:
  "remote f s = (case f (s_world s) of (r, w) \<Rightarrow> (r, s\<lparr>s_world := w\<rparr>))"
  by (simp add: remote_def)

lemma pup_evaluate_live:
  "pup_evaluate p fn w = (Inr v, w') \<Longrightarrow> page_live w p"
  by (auto simp: pup_evaluate_def split: if_splits prod.splits)

lemma pup_evaluate_keeps_live:
  "pup_evaluate p fn w = (r, w') \<Longrightarrow> page_live w' q = page_live w q"
  by (auto simp: pup_evaluate_def split: if_splits prod.splits)

lemma pup_evaluate_pages_owner:
  "pup_evaluate p fn w = (r, w') \<Longrightarrow> map_option pg_owner (w_pages w' q) = map_option pg_owner (w_pages w q)"
  by (auto simp: pup_evaluate_def upd_page_def option.map_comp o_def split: if_splits prod.splits)

lemma pup_evaluate_next:
  "pup_evaluate p fn w = (r, w') \<Longrightarrow> w_next w' = w_next w"
  by (auto simp: pup_evaluate_def upd_page_def logged_def split: if_splits prod.splits)

lemma pup_evaluate_browsers:
  "pup_evaluate p fn w = (r, w') \<Longrightarrow> w_browsers w' = w_browsers w"
  by (auto simp: pup_evaluate_def split: if_splits prod.splits)

lemma pup_evaluate_env:
  "pup_evaluate p fn w = (r, w') \<Longrightarrow>
     w_chrome w' = w_chrome w \<and> w_online w' = w_online w \<and> w_site w' = w_site w"
  by (auto simp: pup_evaluate_def upd_page_def logged_def split: if_splits prod.splits)

section \<open>The fresh launch path\<close>

lemma launch_fresh_Inr:
  "launch_fresh cfg s = (Inr (b, p), s') \<Longrightarrow>
     page_live (s_world s') p \<and> s_browser s' = Some b \<and> s_page s' = Some p \<and>
     map_option pg_owner (w_pages (s_world s') p) = Some b"
  unfolding launch_fresh_def
  by (auto simp: world_defs Let_def page_live_def w_pages_upd_page split: if_splits prod.splits sum.splits option.splits)

lemma launch_fresh_healthy:
  assumes "w_chrome (s_world s)" "w_online (s_world s)" "d_editor (w_site (s_world s))"
  shows "\<exists>s'. launch_fresh cfg s = (Inr (w_next (s_world s), Suc (w_next (s_world s))), s')"
  using assms unfolding launch_fresh_def
  by (simp add: world_defs Let_def page_live_def page_dom_def w_pages_upd_page)

lemma launch_fresh_wf:
  assumes "s_page s = None" "case s_browser s of None \<Rightarrow> True | Some b \<Rightarrow> b < w_next (s_world s)"
  shows "sess_wf (snd (launch_fresh cfg s))"
  using assms unfolding launch_fresh_def sess_wf_def
  by (auto simp: world_defs Let_def w_pages_upd_page split: if_splits prod.splits sum.splits option.splits)

section \<open>Properties of the session manager\<close>

lemma probe_then_state:
  "remote (pup_evaluate p probe_fn) s = (r, s') \<Longrightarrow>
     s_browser s' = s_browser s \<and> s_page s' = s_page s \<and>
     (\<forall>q. page_live (s_world s') q = page_live (s_world s) q) \<and>
     (\<forall>q. map_option pg_owner (w_pages (s_world s') q) = map_option pg_owner (w_pages (s_world s) q)) \<and>
     w_next (s_world s') = w_next (s_world s) \<and> w_chrome (s_world s') = w_chrome (s_world s) \<and>
     w_online (s_world s') = w_online (s_world s) \<and> w_site (s_world s') = w_site (s_world s) \<and>
     (r = Inr (JBool True) \<longleftrightarrow> page_live (s_world s) p) \<and> (isl r \<longleftrightarrow> \<not> page_live (s_world s) p)"
  by (auto simp: pup_evaluate_def probe_fn_def upd_page_def page_live_def option.map_comp o_def
           split: if_splits prod.splits option.splits)

lemma sess_wf_frame:
  assumes "s_browser s' = s_browser s" "s_page s' = s_page s"
    "\<And>q. map_option pg_owner (w_pages (s_world s') q) = map_option pg_owner (w_pages (s_world s) q)"
    "w_next (s_world s') = w_next (s_world s)"
  shows "sess_wf s' = sess_wf s"
  using assms by (simp add: sess_wf_def split: option.splits)

lemma sess_wf_no_browser: "sess_wf s \<Longrightarrow> s_browser s = None \<Longrightarrow> s_page s = None"
  by (auto simp: sess_wf_def split: option.splits)

lemma launchBrowser_Inr:
  assumes "launchBrowser cfg s = (Inr (b, p), s')"
  shows "page_live (s_world s') p \<and> s_browser s' = Some b \<and> s_page s' = Some p"
proof (cases "\<exists>b0 p0. s_browser s = Some b0 \<and> s_page s = Some p0")
  case True
  then obtain b0 p0 where bp: "s_browser s = Some b0" "s_page s = Some p0" by blast
  obtain r s1 where ev: "remote (pup_evaluate p0 probe_fn) s = (r, s1)" by fastforce
  show ?thesis
  proof (cases r)
    case (Inl e)
    with assms bp ev have "launch_fresh cfg (s1\<lparr>s_browser := None, s_page := None\<rparr>) = (Inr (b, p), s')"
      by (simp add: launchBrowser_def)
    then show ?thesis using launch_fresh_Inr by blast
  next
    case (Inr v)
    with assms bp ev have "b = b0" "p = p0" "s' = s1" by (simp_all add: launchBrowser_def)
    with ev Inr bp probe_then_state [OF ev] show ?thesis by auto
  qed
next
  case False
  with assms have "launch_fresh cfg s = (Inr (b, p), s')"
    by (auto simp: launchBrowser_def split: option.splits)
  then show ?thesis using launch_fresh_Inr by blast
qed

text \<open>
  C2 (self-healing launch).  Whenever \<^verbatim>\<open>launchBrowser\<close> resolves with a browser and a
  page, the page is live in the world it leaves behind (a liveness probe on it would
  succeed) and the module variables hold exactly the pair it returned; this holds on
  the reuse path (the probe succeeded) and on the fresh path (navigation and the
  editor wait succeeded).
\<close>

theorem launchBrowser_returns_live:
  assumes "launchBrowser cfg s = (Inr (b, p), s')"
  shows "page_live (s_world s') p \<and> s_browser s' = Some b \<and> s_page s' = Some p"
  using launchBrowser_Inr [OF assms] .

text \<open>
  C23 (a resolved launch is reused).  Once \<^verbatim>\<open>launchBrowser\<close> has resolved with a
  browser and a page, calling it again resolves with the same pair after the liveness
  probe, launches no browser and opens no page, and the module variables still hold
  the pair.
\<close>

theorem launchBrowser_idempotent:
  assumes "launchBrowser cfg s = (Inr (b, p), s1)"
  shows "\<exists>s2. launchBrowser cfg s1 = (Inr (b, p), s2) \<and> s_browser s2 = Some b \<and> s_page s2 = Some p \<and>
           w_browsers (s_world s2) = w_browsers (s_world s1) \<and> w_next (s_world s2) = w_next (s_world s1)"
proof -
  have h: "page_live (s_world s1) p" "s_browser s1 = Some b" "s_page s1 = Some p"
    using launchBrowser_Inr [OF assms] by simp_all
  obtain r s2 where ev: "remote (pup_evaluate p probe_fn) s1 = (r, s2)" by fastforce
  note st = probe_then_state [OF ev]
  have "w_browsers (s_world s2) = w_browsers (s_world s1)"
    using ev pup_evaluate_browsers [of p probe_fn "s_world s1"] by (auto split: prod.splits)
  then show ?thesis using h ev st by (auto simp: launchBrowser_def)
qed

text \<open>
  C3 (recovery).  From any session state, live, stale or empty, \<^verbatim>\<open>launchBrowser\<close>
  resolves whenever the environment allows a launch at all: Chromium starts, the
  site answers and serves the editor.  A failed probe never reaches the caller.
\<close>

theorem launchBrowser_heals:
  assumes "w_chrome (s_world s)" "w_online (s_world s)" "d_editor (w_site (s_world s))"
  shows "\<exists>b p s'. launchBrowser cfg s = (Inr (b, p), s')"
proof (cases "\<exists>b0 p0. s_browser s = Some b0 \<and> s_page s = Some p0")
  case True
  then obtain b0 p0 where bp: "s_browser s = Some b0" "s_page s = Some p0" by blast
  obtain r s1 where ev: "remote (pup_evaluate p0 probe_fn) s = (r, s1)" by fastforce
  note st = probe_then_state [OF ev]
  show ?thesis
  proof (cases r)
    case (Inl e)
    have "\<exists>s'. launch_fresh cfg (s1\<lparr>s_browser := None, s_page := None\<rparr>) =
            (Inr (w_next (s_world s1), Suc (w_next (s_world s1))), s')"
      using launch_fresh_healthy [of "s1\<lparr>s_browser := None, s_page := None\<rparr>" cfg] assms st
      by simp
    with Inl bp ev show ?thesis by (auto simp: launchBrowser_def)
  next
    case (Inr v)
    with bp ev show ?thesis by (auto simp: launchBrowser_def)
  qed
next
  case False
  then have "launchBrowser cfg s = launch_fresh cfg s"
    by (auto simp: launchBrowser_def split: option.splits)
  moreover obtain s' where
    "launch_fresh cfg s = (Inr (w_next (s_world s), Suc (w_next (s_world s))), s')"
    using launch_fresh_healthy [OF assms] by blast
  ultimately show ?thesis by auto
qed

text \<open>
  C7 (liveness probe).  \<^verbatim>\<open>isBrowserAlive\<close> never rejects; it answers \<open>False\<close>
  when either module variable is \<^verbatim>\<open>null\<close>, and otherwise exactly whether the
  held page is live (the probe \<^verbatim>\<open>page.evaluate(() => true)\<close> succeeds).
\<close>

theorem isBrowserAlive_result:
  "fst (isBrowserAlive s) =
     Inr (case (s_browser s, s_page s) of
            (Some b, Some p) \<Rightarrow> page_live (s_world s) p
          | _ \<Rightarrow> False)"
proof (cases "\<exists>b0 p0. s_browser s = Some b0 \<and> s_page s = Some p0")
  case True
  then obtain b0 p0 where bp: "s_browser s = Some b0" "s_page s = Some p0" by blast
  obtain r s1 where ev: "remote (pup_evaluate p0 probe_fn) s = (r, s1)" by fastforce
  note st = probe_then_state [OF ev]
  show ?thesis
    using bp ev st by (cases r) (auto simp: isBrowserAlive_def)
next
  case False
  then show ?thesis by (auto simp: isBrowserAlive_def split: option.splits)
qed

lemma isBrowserAlive_keeps:
  "isBrowserAlive s = (r, s') \<Longrightarrow> s_browser s' = s_browser s \<and> s_page s' = s_page s \<and>
     (\<forall>q. map_option pg_owner (w_pages (s_world s') q) = map_option pg_owner (w_pages (s_world s) q)) \<and>
     w_next (s_world s') = w_next (s_world s)"
  by (auto simp: isBrowserAlive_def dest: pup_evaluate_pages_owner pup_evaluate_next
           split: option.splits prod.splits sum.splits)

text \<open>
  C8 (idempotent close).  On a well-formed session \<^verbatim>\<open>closeBrowser\<close> never rejects
  and leaves both module variables \<^verbatim>\<open>null\<close>; calling it again is a no-op that
  changes nothing at all.
\<close>

theorem closeBrowser_idempotent:
  assumes "sess_wf s" "closeBrowser s = (r, s1)"
  shows "r = Inr () \<and> s_browser s1 = None \<and> s_page s1 = None \<and> closeBrowser s1 = (Inr (), s1)"
  using assms sess_wf_no_browser [OF assms(1)]
  by (auto simp: closeBrowser_def pup_close_def split: option.splits)

lemma launchBrowser_wf:
  assumes "sess_wf s"
  shows "sess_wf (snd (launchBrowser cfg s))"
proof (cases "\<exists>b0 p0. s_browser s = Some b0 \<and> s_page s = Some p0")
  case True
  then obtain b0 p0 where bp: "s_browser s = Some b0" "s_page s = Some p0" by blast
  obtain r s1 where ev: "remote (pup_evaluate p0 probe_fn) s = (r, s1)" by fastforce
  note st = probe_then_state [OF ev]
  show ?thesis
  proof (cases r)
    case (Inl e)
    have "sess_wf (snd (launch_fresh cfg (s1\<lparr>s_browser := None, s_page := None\<rparr>)))"
      by (rule launch_fresh_wf) simp_all
    with Inl bp ev show ?thesis by (simp add: launchBrowser_def)
  next
    case (Inr v)
    have "sess_wf s1" using assms st by (subst sess_wf_frame) simp_all
    with Inr bp ev show ?thesis by (simp add: launchBrowser_def)
  qed
next
  case False
  with assms have "s_page s = None" "case s_browser s of None \<Rightarrow> True | Some b \<Rightarrow> b < w_next (s_world s)"
    by (auto simp: sess_wf_def split: option.splits)
  moreover from False have "launchBrowser cfg s = launch_fresh cfg s"
    by (auto simp: launchBrowser_def split: option.splits)
  ultimately show ?thesis using launch_fresh_wf by simp
qed

lemma closeBrowser_wf: "sess_wf s \<Longrightarrow> sess_wf (snd (closeBrowser s))"
  by (simp add: closeBrowser_def pup_close_def sess_wf_def split: option.splits)

lemma getPage_wf: "sess_wf s \<Longrightarrow> sess_wf (snd (getPage cfg s))"
  using launchBrowser_wf [of s cfg]
  by (auto simp: getPage_def split: option.splits prod.splits sum.splits)

lemma restartBrowser_wf: "sess_wf s \<Longrightarrow> sess_wf (snd (restartBrowser cfg s))"
  using closeBrowser_wf [of s] launchBrowser_wf
  by (auto simp: restartBrowser_def split: prod.splits sum.splits)

lemma isBrowserAlive_wf: "sess_wf s \<Longrightarrow> sess_wf (snd (isBrowserAlive s))"
proof (cases "isBrowserAlive s")
  case (Pair r s')
  assume "sess_wf s"
  moreover from isBrowserAlive_keeps [OF Pair] have "sess_wf s' = sess_wf s"
    by (intro sess_wf_frame) auto
  ultimately show ?thesis by (simp add: Pair)
qed

end
