(* ===== verification/Bridge.thy ===== *)
theory Bridge
  imports Session
begin

text \<open>
  The command bridge, \<^verbatim>\<open>src/src/strudel.js\<close>.  Every operation obtains the page
  from the session manager (\<open>getPage\<close>), drives it through Puppeteer and waits a
  fixed settle delay; the three commands wrap every rejection with a fixed message
  prefix, the two read-only queries turn every rejection into an empty answer.
  The functions the source evaluates inside the page are definitions of their own
  (\<open>set_code_fn\<close>, \<open>get_code_fn\<close>, \<open>playing_fn\<close>, \<open>setcps_fn\<close>); the
  CodeMirror transaction they dispatch is \<open>cm_replace\<close>.
\<close>

section \<open>Results\<close>

text \<open>The three shapes of object the commands resolve with.\<close>

datatype command_result =
    PatternResult bool string bool
  | PlaybackResult bool bool
  | TempoResult bool real real

section \<open>Functions evaluated in the page\<close>

text \<open>
  A CodeMirror change \<^verbatim>\<open>{from, to, insert}\<close> applied to the document: the text
  between the two offsets is replaced by the inserted text.
\<close>

definition cm_replace :: "nat \<Rightarrow> nat \<Rightarrow> string \<Rightarrow> string \<Rightarrow> string" where
  "cm_replace from to ins doc = take from doc @ ins @ drop to doc"

definition set_code_fn :: "string \<Rightarrow> page_fn" where
  "set_code_fn code d =
     (if \<not> d_editor d then (Inl (Error ''Editor not found''), d)
      else case d_view d of
             Some doc \<Rightarrow> (Inr JUndefined, d\<lparr>d_view := Some (cm_replace 0 (length doc) code doc)\<rparr>)
           | None \<Rightarrow>
               (case d_textarea d of
                  Some _ \<Rightarrow> (Inr JUndefined, d\<lparr>d_textarea := Some code\<rparr>)
                | None \<Rightarrow> (Inr JUndefined, d)))"

definition get_code_fn :: page_fn where
  "get_code_fn d =
     (if \<not> d_editor d then (Inr (JString []), d)
      else case d_view d of
             Some doc \<Rightarrow> (Inr (JString doc), d)
           | None \<Rightarrow> (Inr (JString (case d_textarea d of Some v \<Rightarrow> v | None \<Rightarrow> [])), d))"

definition playing_fn :: page_fn where
  "playing_fn d = (Inr (JBool (d_playing d)), d)"

definition setcps_fn :: "real \<Rightarrow> page_fn" where
  "setcps_fn cycles d =
     (if d_has_setcps d then (Inr JUndefined, d\<lparr>d_cps := Some cycles\<rparr>)
      else (Inr JUndefined, d))"

text \<open>What the program reads out of the value a page function returned.\<close>

fun jstring :: "jsval \<Rightarrow> string" where
  "jstring (JString s) = s"
| "jstring _ = []"

fun jbool :: "jsval \<Rightarrow> bool" where
  "jbool (JBool b) = b"
| "jbool _ = False"

text \<open>
  The editor text as the page shows it: the abstraction under which
  \<open>getCurrentCode\<close> is a read of the page and \<open>executePattern\<close> a write.
\<close>

definition editor_text :: "dom \<Rightarrow> string" where
  "editor_text d =
     (if \<not> d_editor d then []
      else case d_view d of
             Some doc \<Rightarrow> doc
           | None \<Rightarrow> (case d_textarea d of Some v \<Rightarrow> v | None \<Rightarrow> []))"

section \<open>The operations\<close>

definition executePattern :: "config \<Rightarrow> string \<Rightarrow> (sys, command_result) exc" where
  "executePattern cfg code =
     catchE
       (bindE (getPage cfg) (\<lambda>p.
        bindE (remote (pup_evaluate p (set_code_fn code))) (\<lambda>_.
        bindE (remote (pup_wait p 200)) (\<lambda>_.
        bindE (remote (pup_key_down p ''Control'')) (\<lambda>_.
        bindE (remote (pup_key_press p ''Enter'')) (\<lambda>_.
        bindE (remote (pup_key_up p ''Control'')) (\<lambda>_.
        bindE (remote (pup_wait p 500)) (\<lambda>_.
        returnE (PatternResult True code True)))))))))
       (\<lambda>e. throwE (Error (''Failed to execute pattern: '' @ err_msg e)))"

definition stopPlayback :: "config \<Rightarrow> (sys, command_result) exc" where
  "stopPlayback cfg =
     catchE
       (bindE (getPage cfg) (\<lambda>p.
        bindE (remote (pup_key_down p ''Control'')) (\<lambda>_.
        bindE (remote (pup_key_press p ''Period'')) (\<lambda>_.
        bindE (remote (pup_key_up p ''Control'')) (\<lambda>_.
        bindE (remote (pup_wait p 200)) (\<lambda>_.
        returnE (PlaybackResult True False)))))))
       (\<lambda>e. throwE (Error (''Failed to stop playback: '' @ err_msg e)))"

definition startPlayback :: "config \<Rightarrow> (sys, command_result) exc" where
  "startPlayback cfg =
     catchE
       (bindE (getPage cfg) (\<lambda>p.
        bindE (remote (pup_key_down p ''Control'')) (\<lambda>_.
        bindE (remote (pup_key_press p ''Enter'')) (\<lambda>_.
        bindE (remote (pup_key_up p ''Control'')) (\<lambda>_.
        bindE (remote (pup_wait p 500)) (\<lambda>_.
        returnE (PlaybackResult True True)))))))
       (\<lambda>e. throwE (Error (''Failed to start playback: '' @ err_msg e)))"

definition getCurrentCode :: "config \<Rightarrow> (sys, string) exc" where
  "getCurrentCode cfg =
     catchE
       (bindE (getPage cfg) (\<lambda>p.
        bindE (remote (pup_evaluate p get_code_fn)) (\<lambda>v.
        returnE (jstring v))))
       (\<lambda>_. returnE [])"

definition isPlaying :: "config \<Rightarrow> (sys, bool) exc" where
  "isPlaying cfg =
     catchE
       (bindE (getPage cfg) (\<lambda>p.
        bindE (remote (pup_evaluate p playing_fn)) (\<lambda>v.
        returnE (jbool v))))
       (\<lambda>_. returnE False)"

definition setTempo :: "config \<Rightarrow> real \<Rightarrow> (sys, command_result) exc" where
  "setTempo cfg bpm =
     catchE
       (bindE (getPage cfg) (\<lambda>p.
        let cps = bpm / 60 / 4 in
        bindE (remote (pup_evaluate p (setcps_fn cps))) (\<lambda>_.
        bindE (remote (pup_wait p 200)) (\<lambda>_.
        returnE (TempoResult True bpm cps)))))
       (\<lambda>e. throwE (Error (''Failed to set tempo: '' @ err_msg e)))"

text \<open>
  A computation that changes neither the module variables, nor which browser owns
  which page, nor the handle counter.
\<close>

definition keeps_frame :: "(sys, 'a) exc \<Rightarrow> bool" where
  "keeps_frame m \<longleftrightarrow> (\<forall>s r s'. m s = (r, s') \<longrightarrow>
     s_browser s' = s_browser s \<and> s_page s' = s_page s \<and> w_next (s_world s') = w_next (s_world s) \<and>
     (\<forall>q. map_option pg_owner (w_pages (s_world s') q) = map_option pg_owner (w_pages (s_world s) q)))"

named_theorems frame_intros "intro rules for keeps_frame"

lemmas bridge_defs [model_defs] = executePattern_def stopPlayback_def startPlayback_def
  getCurrentCode_def isPlaying_def setTempo_def

section \<open>Facts the proofs share\<close>

lemma getPage_held: "s_page s = Some p \<Longrightarrow> getPage cfg s = (Inr p, s)"
  by (simp add: getPage_def)

lemma cm_replace_whole: "cm_replace 0 (length doc) code doc = code"
  by (simp add: cm_replace_def)

lemma upd_page_id [simp]: "upd_page p id w = w"
  by (simp add: upd_page_def option.map_id)

lemma page_live_set_dom [simp]:
  "page_live (upd_page p (\<lambda>pg. pg\<lparr>pg_dom := d\<rparr>) w) q = page_live w q"
  by (rule page_live_upd_page) simp_all

lemma executePattern_held_run:
  assumes "s_page s = Some p" "page_live (s_world s) p" "d_editor (page_dom (s_world s) p)"
  shows "\<exists>s'. executePattern cfg code s = (Inr (PatternResult True code True), s') \<and>
     s_browser s' = s_browser s \<and> s_page s' = s_page s \<and> page_live (s_world s') p \<and>
     page_dom (s_world s') p = snd (set_code_fn code (page_dom (s_world s) p)) \<and>
     w_trace (s_world s') = w_trace (s_world s) @
       map (Pair p) [Evaluated, Waited 200, KeyDown ''Control'', KeyPress ''Enter'', KeyUp ''Control'', Waited 500]"
  using assms
  by (simp add: executePattern_def getPage_held world_defs set_code_fn_def split: option.splits)

lemma getCurrentCode_held:
  "s_page s = Some p \<Longrightarrow>
     fst (getCurrentCode cfg s) = Inr (if page_live (s_world s) p then editor_text (page_dom (s_world s) p) else [])"
  by (simp add: getCurrentCode_def getPage_held pup_evaluate_def get_code_fn_def editor_text_def split: option.splits)

section \<open>The bridge keeps the session invariant\<close>

text \<open>
  After \<open>getPage\<close>, every operation of the bridge only evaluates, types and
  waits on the page it got: it changes neither the module variables, nor which
  browser owns which page, nor the handle counter.  \<open>keeps_frame\<close> says so of a
  computation; its introduction rules (\<open>frame_intros\<close>) follow the monad.
\<close>

lemma keeps_frame_returnE [frame_intros]: "keeps_frame (returnE x)"
  by (simp add: keeps_frame_def)

lemma keeps_frame_throwE [frame_intros]: "keeps_frame (throwE e)"
  by (simp add: keeps_frame_def)

lemma keeps_frame_bindE [frame_intros]:
  "keeps_frame m \<Longrightarrow> (\<And>x. keeps_frame (f x)) \<Longrightarrow> keeps_frame (bindE m f)"
  unfolding keeps_frame_def by (auto split: prod.splits sum.splits)

lemma keeps_frame_evaluate [frame_intros]: "keeps_frame (remote (pup_evaluate p fn))"
  by (auto simp: keeps_frame_def dest: pup_evaluate_pages_owner pup_evaluate_next split: prod.splits)

lemma keeps_frame_page_act [frame_intros]: "keeps_frame (remote (page_act p a id))"
  by (auto simp: keeps_frame_def page_act_def split: if_splits)

lemma keeps_frame_wait [frame_intros]: "keeps_frame (remote (pup_wait p ms))"
  by (simp add: keeps_frame_def pup_wait_def)

lemma keeps_frame_keys [frame_intros]:
  "keeps_frame (remote (pup_key_down p k))" "keeps_frame (remote (pup_key_press p k))"
  "keeps_frame (remote (pup_key_up p k))"
  by (simp_all add: pup_key_down_def pup_key_press_def pup_key_up_def keeps_frame_page_act)

lemma keeps_frame_wf: "keeps_frame m \<Longrightarrow> m s = (r, s') \<Longrightarrow> sess_wf s' = sess_wf s"
  unfolding keeps_frame_def by (rule sess_wf_frame) blast+

lemma bridge_op_wf:
  assumes "sess_wf s" "\<And>p. keeps_frame (k p)" "\<And>e. keeps_frame (h e)"
  shows "sess_wf (snd (catchE (bindE (getPage cfg) k) h s))"
proof -
  obtain r1 s1 where gp: "getPage cfg s = (r1, s1)" by fastforce
  have wf1: "sess_wf s1" using getPage_wf [OF assms(1), of cfg] gp by simp
  show ?thesis
  proof (cases r1)
    case (Inl e)
    obtain r2 s2 where "h e s1 = (r2, s2)" by fastforce
    with keeps_frame_wf [OF assms(3)] wf1 gp Inl show ?thesis by simp
  next
    case (Inr p)
    obtain r2 s2 where k: "k p s1 = (r2, s2)" by fastforce
    with keeps_frame_wf [OF assms(2)] wf1 have wf2: "sess_wf s2" by simp
    show ?thesis
    proof (cases r2)
      case (Inl e)
      obtain r3 s3 where "h e s2 = (r3, s3)" by fastforce
      with keeps_frame_wf [OF assms(3)] wf2 gp Inr k Inl show ?thesis by simp
    next
      case (Inr x)
      with gp k wf2 \<open>r1 = Inr p\<close> show ?thesis by simp
    qed
  qed
qed

lemma bridge_ops_wf:
  assumes "sess_wf s"
  shows "sess_wf (snd (executePattern cfg code s))" "sess_wf (snd (stopPlayback cfg s))"
    "sess_wf (snd (startPlayback cfg s))" "sess_wf (snd (getCurrentCode cfg s))"
    "sess_wf (snd (isPlaying cfg s))" "sess_wf (snd (setTempo cfg bpm s))"
  unfolding bridge_defs Let_def
  by (rule bridge_op_wf [OF assms]; intro frame_intros)+

section \<open>Properties of the bridge\<close>

text \<open>
  C4 (full-document replace).  On a held, live page whose editor exposes its
  CodeMirror view with any prior document, \<^verbatim>\<open>executePattern(code)\<close> resolves with
  \<^verbatim>\<open>{success: true, code, playing: true}\<close>, the view's document becomes exactly
  \<open>code\<close> (not the old text with \<open>code\<close> added), and the page receives exactly this
  sequence of actions: the evaluation, the 200 ms settle delay, Control down, Enter,
  Control up, the 500 ms delay.
\<close>

theorem executePattern_replaces_document:
  assumes "s_page s = Some p" "page_live (s_world s) p"
    "d_editor (page_dom (s_world s) p)" "d_view (page_dom (s_world s) p) = Some old"
  shows "\<exists>s'. executePattern cfg code s = (Inr (PatternResult True code True), s') \<and>
     d_view (page_dom (s_world s') p) = Some code \<and>
     w_trace (s_world s') = w_trace (s_world s) @
       map (Pair p) [Evaluated, Waited 200, KeyDown ''Control'', KeyPress ''Enter'', KeyUp ''Control'', Waited 500]"
  using executePattern_held_run [OF assms(1-3), of cfg code] assms(3,4)
  by (auto simp: set_code_fn_def cm_replace_whole)

text \<open>
  C5 (write then read).  On a held, live page with an editor surface (the view or
  the fallback textarea), \<^verbatim>\<open>getCurrentCode\<close> right after \<^verbatim>\<open>executePattern(code)\<close>
  returns exactly \<open>code\<close>, whatever the editor held before.
\<close>

theorem execute_then_read_back:
  assumes "s_page s = Some p" "page_live (s_world s) p" "d_editor (page_dom (s_world s) p)"
    "d_view (page_dom (s_world s) p) \<noteq> None \<or> d_textarea (page_dom (s_world s) p) \<noteq> None"
    "executePattern cfg code s = (r, s1)"
  shows "fst (getCurrentCode cfg s1) = Inr code"
proof -
  obtain s' where run: "executePattern cfg code s = (Inr (PatternResult True code True), s')"
    and st: "s_page s' = s_page s" "page_live (s_world s') p"
      "page_dom (s_world s') p = snd (set_code_fn code (page_dom (s_world s) p))"
    using executePattern_held_run [OF assms(1-3), of cfg code] by blast
  from run assms(5) have "s1 = s'" by simp
  moreover have "editor_text (snd (set_code_fn code (page_dom (s_world s) p))) = code"
    using assms(3,4) by (auto simp: set_code_fn_def editor_text_def cm_replace_whole split: option.splits)
  ultimately show ?thesis using getCurrentCode_held [of s1 p cfg] st assms(1) by simp
qed

text \<open>
  C6 (outcome on every branch).  On a held page, \<^verbatim>\<open>executePattern\<close> rejects with
  the stable prefix \<^verbatim>\<open>Failed to execute pattern: \<close> followed by the cause when the
  page is dead or the editor element is missing, and resolves otherwise.
\<close>

theorem executePattern_outcome:
  assumes "s_page s = Some p"
  shows "fst (executePattern cfg code s) =
    (if \<not> page_live (s_world s) p
     then Inl (Error (''Failed to execute pattern: Protocol error: Target closed''))
     else if \<not> d_editor (page_dom (s_world s) p)
     then Inl (Error ''Failed to execute pattern: Editor not found'')
     else Inr (PatternResult True code True))"
  using assms
  by (simp add: executePattern_def getPage_held world_defs set_code_fn_def target_closed_def
           split: option.splits)

text \<open>
  C9 (non-fatal introspection).  \<^verbatim>\<open>getCurrentCode\<close> and \<^verbatim>\<open>isPlaying\<close> never
  reject, in any state, and a failure degrades to the empty answer: on a held page that
  has died, and with no page when Chromium cannot be started, \<^verbatim>\<open>getCurrentCode\<close>
  returns \<^verbatim>\<open>''\<close> and \<^verbatim>\<open>isPlaying\<close> returns \<^verbatim>\<open>false\<close>.
\<close>

theorem read_ops_never_reject:
  "\<not> isl (fst (getCurrentCode cfg s)) \<and> \<not> isl (fst (isPlaying cfg s)) \<and>
   (s_page s = Some p \<and> \<not> page_live (s_world s) p \<longrightarrow>
      fst (getCurrentCode cfg s) = Inr [] \<and> fst (isPlaying cfg s) = Inr False) \<and>
   (s_page s = None \<and> \<not> w_chrome (s_world s) \<longrightarrow>
      fst (getCurrentCode cfg s) = Inr [] \<and> fst (isPlaying cfg s) = Inr False)"
proof (intro conjI impI)
  show "\<not> isl (fst (getCurrentCode cfg s))" "\<not> isl (fst (isPlaying cfg s))"
    unfolding getCurrentCode_def isPlaying_def by (rule catchE_resolves, simp)+
next
  assume "s_page s = Some p \<and> \<not> page_live (s_world s) p"
  then show "fst (getCurrentCode cfg s) = Inr []" "fst (isPlaying cfg s) = Inr False"
    by (simp_all add: getCurrentCode_def isPlaying_def getPage_held world_defs)
next
  assume "s_page s = None \<and> \<not> w_chrome (s_world s)"
  then show "fst (getCurrentCode cfg s) = Inr []" "fst (isPlaying cfg s) = Inr False"
    by (simp_all add: getCurrentCode_def isPlaying_def getPage_def launchBrowser_def launch_fresh_def
                      world_defs split: option.splits prod.splits)
qed
text \<open>
  C10 (tempo).  On a held, live page \<^verbatim>\<open>setTempo(bpm)\<close> resolves with
  \<open>cps = bpm / 60 / 4\<close>; the page's tempo becomes that value when the page defines
  \<^verbatim>\<open>setcps\<close>, and a missing \<^verbatim>\<open>setcps\<close> is swallowed inside the page, not reported.
\<close>

theorem setTempo_held:
  assumes "s_page s = Some p" "page_live (s_world s) p"
  shows "\<exists>s'. setTempo cfg bpm s = (Inr (TempoResult True bpm (bpm / 60 / 4)), s') \<and>
     d_cps (page_dom (s_world s') p) =
       (if d_has_setcps (page_dom (s_world s) p) then Some (bpm / 60 / 4)
        else d_cps (page_dom (s_world s) p))"
  using assms
  by (simp add: setTempo_def getPage_held world_defs setcps_fn_def Let_def)

text \<open>
  C11 (stop and start).  On a held, live page \<^verbatim>\<open>stopPlayback\<close> resolves with
  \<^verbatim>\<open>{success: true, playing: false}\<close> after sending exactly Control down, Period,
  Control up and waiting 200 ms, and \<^verbatim>\<open>startPlayback\<close> resolves with
  \<^verbatim>\<open>{success: true, playing: true}\<close> after sending the playback trigger of
  \<^verbatim>\<open>executePattern\<close> (Control down, Enter, Control up) and waiting 500 ms; neither
  touches the DOM.
\<close>

theorem playback_commands_held:
  assumes "s_page s = Some p" "page_live (s_world s) p"
  shows "(\<exists>s'. stopPlayback cfg s = (Inr (PlaybackResult True False), s') \<and>
     page_dom (s_world s') p = page_dom (s_world s) p \<and>
     w_trace (s_world s') = w_trace (s_world s) @
       map (Pair p) [KeyDown ''Control'', KeyPress ''Period'', KeyUp ''Control'', Waited 200]) \<and>
   (\<exists>s'. startPlayback cfg s = (Inr (PlaybackResult True True), s') \<and>
     page_dom (s_world s') p = page_dom (s_world s) p \<and>
     w_trace (s_world s') = w_trace (s_world s) @
       map (Pair p) [KeyDown ''Control'', KeyPress ''Enter'', KeyUp ''Control'', Waited 500])"
  using assms
  by (simp add: stopPlayback_def startPlayback_def getPage_held world_defs page_dom_def)

text \<open>
  C17 (silent no-op).  When the page has the \<^verbatim>\<open>.cm-editor\<close> element but neither a
  CodeMirror view nor a textarea, \<^verbatim>\<open>executePattern\<close> still resolves with
  \<^verbatim>\<open>{success: true, playing: true}\<close>, although nothing was written: reading the
  code back gives the empty string.
\<close>

theorem executePattern_silent_noop:
  assumes "s_page s = Some p" "page_live (s_world s) p" "d_editor (page_dom (s_world s) p)"
    "d_view (page_dom (s_world s) p) = None" "d_textarea (page_dom (s_world s) p) = None"
    "executePattern cfg code s = (r, s1)"
  shows "r = Inr (PatternResult True code True) \<and> fst (getCurrentCode cfg s1) = Inr []"
proof -
  obtain s' where run: "executePattern cfg code s = (Inr (PatternResult True code True), s')"
    and st: "s_page s' = s_page s" "page_live (s_world s') p"
      "page_dom (s_world s') p = snd (set_code_fn code (page_dom (s_world s) p))"
    using executePattern_held_run [OF assms(1-3), of cfg code] by blast
  from run assms(6) have "r = Inr (PatternResult True code True)" "s1 = s'" by simp_all
  moreover have "editor_text (snd (set_code_fn code (page_dom (s_world s) p))) = []"
    using assms(3-5) by (simp add: set_code_fn_def editor_text_def)
  ultimately show ?thesis using getCurrentCode_held [of s1 p cfg] st assms(1) by simp
qed

end
