(* ===== verification/Lifecycle.thy ===== *)
theory Lifecycle
  imports Bridge
begin

text \<open>
  The session lifecycle as a state machine.  A step is either one call of an
  exported function of \<^verbatim>\<open>browser.js\<close> or \<^verbatim>\<open>strudel.js\<close>, run to completion
  (the process is single-threaded and the callers await each call), or one event of
  the environment (a page crash, a dying browser, the site or Chromium becoming
  available or not).  Reachable states are those a run from an empty session can
  reach; the session invariant \<open>sess_wf\<close> holds in all of them.
\<close>

section \<open>Operations and runs\<close>

datatype op =
    OpLaunch
  | OpGetPage
  | OpClose
  | OpRestart
  | OpIsAlive
  | OpExecute string
  | OpStop
  | OpStart
  | OpGetCode
  | OpIsPlaying
  | OpSetTempo real

fun run_op :: "config \<Rightarrow> op \<Rightarrow> sys \<Rightarrow> sys" where
  "run_op cfg OpLaunch s = snd (launchBrowser cfg s)"
| "run_op cfg OpGetPage s = snd (getPage cfg s)"
| "run_op cfg OpClose s = snd (closeBrowser s)"
| "run_op cfg OpRestart s = snd (restartBrowser cfg s)"
| "run_op cfg OpIsAlive s = snd (isBrowserAlive s)"
| "run_op cfg (OpExecute c) s = snd (executePattern cfg c s)"
| "run_op cfg OpStop s = snd (stopPlayback cfg s)"
| "run_op cfg OpStart s = snd (startPlayback cfg s)"
| "run_op cfg OpGetCode s = snd (getCurrentCode cfg s)"
| "run_op cfg OpIsPlaying s = snd (isPlaying cfg s)"
| "run_op cfg (OpSetTempo bpm) s = snd (setTempo cfg bpm s)"

fun run_ops :: "config \<Rightarrow> op list \<Rightarrow> sys \<Rightarrow> sys" where
  "run_ops cfg [] s = s"
| "run_ops cfg (a # os) s = run_ops cfg os (run_op cfg a s)"

definition env_sys :: "env_event \<Rightarrow> sys \<Rightarrow> sys" where
  "env_sys e s = s\<lparr>s_world := env_step e (s_world s)\<rparr>"

inductive sys_step :: "config \<Rightarrow> sys \<Rightarrow> sys \<Rightarrow> bool" for cfg where
  call: "sys_step cfg s (run_op cfg a s)"
| env: "sys_step cfg s (env_sys e s)"

inductive reachable :: "config \<Rightarrow> world \<Rightarrow> sys \<Rightarrow> bool" for cfg w0 where
  start: "reachable cfg w0 (init_sys w0)"
| step: "reachable cfg w0 s \<Longrightarrow> sys_step cfg s t \<Longrightarrow> reachable cfg w0 t"

inductive_cases sys_stepE: "sys_step cfg s t"

lemma reachable_run_ops: "reachable cfg w0 s \<Longrightarrow> reachable cfg w0 (run_ops cfg os s)"
  by (induction os arbitrary: s) (auto intro: reachable.step sys_step.call)

lemma reachable_env: "reachable cfg w0 s \<Longrightarrow> reachable cfg w0 (env_sys e s)"
  using reachable.step sys_step.env by blast

section \<open>The invariant holds in every reachable state\<close>

lemma env_sys_wf: "sess_wf (env_sys e s) = sess_wf s"
proof (rule sess_wf_frame)
  show "\<And>q. map_option pg_owner (w_pages (s_world (env_sys e s)) q) =
             map_option pg_owner (w_pages (s_world s) q)"
    by (cases e) (simp_all add: env_sys_def w_pages_upd_page option.map_comp o_def)
  show "w_next (s_world (env_sys e s)) = w_next (s_world s)"
    by (cases e) (simp_all add: env_sys_def)
qed (simp_all add: env_sys_def)

lemma run_op_wf: "sess_wf s \<Longrightarrow> sess_wf (run_op cfg a s)"
  by (cases a)
     (simp_all add: launchBrowser_wf getPage_wf closeBrowser_wf restartBrowser_wf
                    isBrowserAlive_wf bridge_ops_wf)

lemma sys_step_wf: "sys_step cfg s t \<Longrightarrow> sess_wf s \<Longrightarrow> sess_wf t"
  by (induction rule: sys_step.induct) (simp_all add: run_op_wf env_sys_wf)

lemma init_sys_wf: "sess_wf (init_sys w)"
  by (simp add: sess_wf_def init_sys_def)

text \<open>
  C1 (session invariant).  In every state reachable from an empty session, by any
  interleaving of calls and environment events, a held page is held together with
  the browser that created it, and the held browser is a handle the world has
  handed out.
\<close>

theorem reachable_sess_wf: "reachable cfg w0 s \<Longrightarrow> sess_wf s"
proof (induction rule: reachable.induct)
  case start
  show ?case by (rule init_sys_wf)
next
  case (step s t)
  then show ?case using sys_step_wf by blast
qed

end
