(* ===== verification/JsString.thy ===== *)
theory JsString
  imports Prelude "HOL-Library.Sublist"
begin

text \<open>
  The JavaScript string built-ins the helpers of the program call, on strings as
  lists of code units: \<^verbatim>\<open>toLowerCase\<close> (on ASCII letters; the program only
  compares with ASCII keywords), \<^verbatim>\<open>startsWith\<close>, \<^verbatim>\<open>endsWith\<close>,
  \<^verbatim>\<open>includes\<close>, \<^verbatim>\<open>trim\<close> (white space and line terminators, among
  8-bit characters), \<^verbatim>\<open>split\<close> on one
  character, \<^verbatim>\<open>Array.prototype.join\<close>.  Each is executable, and each is
  related to its counterpart in the HOL library (\<open>prefix\<close>, \<open>suffix\<close>,
  \<open>sublist\<close>) or to its inverse (\<open>split_on\<close> and \<open>join\<close>).
\<close>

definition lower_char :: "char \<Rightarrow> char" where
  "lower_char c =
     (case map_of (zip ''ABCDEFGHIJKLMNOPQRSTUVWXYZ'' ''abcdefghijklmnopqrstuvwxyz'') c of
        Some d \<Rightarrow> d
      | None \<Rightarrow> c)"

definition to_lower :: "string \<Rightarrow> string" where
  "to_lower s = map lower_char s"

fun starts_with :: "string \<Rightarrow> string \<Rightarrow> bool" where
  "starts_with s [] = True"
| "starts_with [] (c # cs) = False"
| "starts_with (x # xs) (c # cs) = (x = c \<and> starts_with xs cs)"

definition ends_with :: "string \<Rightarrow> string \<Rightarrow> bool" where
  "ends_with s t = starts_with (rev s) (rev t)"

fun str_includes :: "string \<Rightarrow> string \<Rightarrow> bool" where
  "str_includes [] t = (t = [])"
| "str_includes (x # xs) t = (starts_with (x # xs) t \<or> str_includes xs t)"

definition is_ws :: "char \<Rightarrow> bool" where
  "is_ws c \<longleftrightarrow> c \<in> set [CHR '' '', CHR 0x09, CHR 0x0A, CHR 0x0B, CHR 0x0C, CHR 0x0D, CHR 0xA0]"

definition trim :: "string \<Rightarrow> string" where
  "trim s = rev (dropWhile is_ws (rev (dropWhile is_ws s)))"

fun split_on :: "char \<Rightarrow> string \<Rightarrow> string list" where
  "split_on c [] = [[]]"
| "split_on c (x # xs) =
     (if x = c then [] # split_on c xs
      else (case split_on c xs of w # ws \<Rightarrow> (x # w) # ws | [] \<Rightarrow> [[x]]))"

fun join :: "string \<Rightarrow> string list \<Rightarrow> string" where
  "join sep [] = []"
| "join sep [x] = x"
| "join sep (x # y # zs) = x @ sep @ join sep (y # zs)"

text \<open>A string \<^verbatim>\<open>trim\<close> leaves alone: empty, or neither end is white space.\<close>

definition trimmed :: "string \<Rightarrow> bool" where
  "trimmed s \<longleftrightarrow> s = [] \<or> (\<not> is_ws (hd s) \<and> \<not> is_ws (last s))"

abbreviation nl :: char where
  "nl \<equiv> CHR 0x0A"

abbreviation dq :: char where
  "dq \<equiv> CHR 0x22"

text \<open>\<^verbatim>\<open>s.replace(pat, rep)\<close> with a string pattern: the first occurrence only.\<close>

fun replace_first :: "string \<Rightarrow> string \<Rightarrow> string \<Rightarrow> string" where
  "replace_first pat rep [] = (if pat = [] then rep else [])"
| "replace_first pat rep (c # cs) =
     (if starts_with (c # cs) pat then rep @ drop (length pat) (c # cs)
      else c # replace_first pat rep cs)"

text \<open>
  \<^verbatim>\<open>parseInt(s)\<close> with the default radix: leading white space, an optional sign,
  a \<^verbatim>\<open>0x\<close>/\<^verbatim>\<open>0X\<close> prefix selecting radix 16, then the longest run of digits
  of the radix; \<open>None\<close> is \<^verbatim>\<open>NaN\<close> (no digit).
\<close>

definition digit_of :: "nat \<Rightarrow> char \<Rightarrow> nat option" where
  "digit_of radix c =
     (if radix = 16 then map_of (zip ''0123456789abcdefABCDEF'' ([0..<16] @ [10..<16])) c
      else map_of (zip digit_chars [0..<10]) c)"

definition digits_value :: "nat \<Rightarrow> string \<Rightarrow> nat" where
  "digits_value radix ds =
     foldl (\<lambda>acc c. case digit_of radix c of Some d \<Rightarrow> acc * radix + d | None \<Rightarrow> acc) 0 ds"

definition parse_sign :: "string \<Rightarrow> bool \<times> string" where
  "parse_sign t =
     (case t of
        c # r \<Rightarrow> if c = CHR ''-'' then (True, r) else if c = CHR ''+'' then (False, r) else (False, t)
      | [] \<Rightarrow> (False, []))"

definition parse_radix :: "string \<Rightarrow> nat \<times> string" where
  "parse_radix u = (if take 2 u = ''0x'' \<or> take 2 u = ''0X'' then (16, drop 2 u) else (10, u))"

definition parseInt :: "string \<Rightarrow> int option" where
  "parseInt s =
     (let (neg, u) = parse_sign (dropWhile is_ws s);
          (radix, v) = parse_radix u;
          ds = takeWhile (\<lambda>c. digit_of radix c \<noteq> None) v
      in if ds = [] then None
         else Some ((if neg then -1 else 1) * int (digits_value radix ds)))"

section \<open>Relations to the library\<close>

lemma starts_with_prefix [simp]: "starts_with s t \<longleftrightarrow> prefix t s"
  by (induction s t rule: starts_with.induct) auto

lemma ends_with_suffix: "ends_with s t \<longleftrightarrow> suffix t s"
  by (simp add: ends_with_def suffix_to_prefix)

lemma includes_sublist: "str_includes s t \<longleftrightarrow> sublist t s"
  by (induction s) (auto simp: sublist_Cons_right)

lemma split_on_nonempty [simp]: "split_on c s \<noteq> []"
  by (induction s) (auto split: list.splits)

lemma join_split_on: "join [c] (split_on c s) = s"
proof (induction s)
  case Nil
  then show ?case by simp
next
  case (Cons x xs)
  obtain w ws where sp: "split_on c xs = w # ws"
    by (cases "split_on c xs") auto
  with Cons.IH have ih: "join [c] (w # ws) = xs" by simp
  show ?case
  proof (cases "x = c")
    case True
    with sp ih show ?thesis by simp
  next
    case False
    with sp ih show ?thesis by (cases ws) auto
  qed
qed

lemma split_on_no_sep: "c \<notin> set s \<Longrightarrow> split_on c s = [s]"
  by (induction s) auto

lemma split_on_append_sep:
  "split_on c (xs @ c # ys) = split_on c xs @ split_on c ys"
proof (induction xs)
  case Nil
  then show ?case by simp
next
  case (Cons x xs)
  obtain w ws where "split_on c xs = w # ws"
    by (cases "split_on c xs") auto
  with Cons show ?case by simp
qed

lemma trim_no_ws:
  assumes "s = [] \<or> (\<not> is_ws (hd s) \<and> \<not> is_ws (last s))"
  shows "trim s = s"
proof (cases s rule: rev_cases)
  case Nil
  then show ?thesis by (simp add: trim_def)
next
  case (snoc ys y)
  with assms have "\<not> is_ws (hd s)" "\<not> is_ws y" by auto
  then have "dropWhile is_ws s = s" by (cases s) auto
  with snoc \<open>\<not> is_ws y\<close> show ?thesis by (simp add: trim_def)
qed

lemma digit_of_10_nth: "k < 10 \<Longrightarrow> digit_of 10 (digit_chars ! k) = Some k"
  using map_of_zip_nth [of digit_chars "[0..<10]" k] by (simp add: digit_of_def digit_chars_def)

lemma digit_chars_nth: "k < 10 \<Longrightarrow> digit_chars ! k \<in> set digit_chars"
  by (rule nth_mem) (simp add: digit_chars_def)

lemma digit_of_10_None: "c \<notin> set digit_chars \<Longrightarrow> digit_of 10 c = None"
  by (simp add: digit_of_def digit_chars_def)

lemma show_nat_digits: "set (show_nat n) \<subseteq> set digit_chars"
proof (induction n rule: show_nat.induct)
  case (1 n)
  with digit_chars_nth show ?case by (subst show_nat.simps) auto
qed

lemma digits_value_snoc:
  "k < 10 \<Longrightarrow> digits_value 10 (ds @ [digit_chars ! k]) = digits_value 10 ds * 10 + k"
  by (simp add: digits_value_def digit_of_10_nth)

lemma digits_value_show_nat: "digits_value 10 (show_nat n) = n"
proof (induction n rule: show_nat.induct)
  case (1 n)
  show ?case
  proof (cases "n < 10")
    case True
    then show ?thesis
      using digits_value_snoc [of n "[]"] by (subst show_nat.simps) (simp add: digits_value_def)
  next
    case False
    then have "digits_value 10 (show_nat (n div 10)) = n div 10" using 1 by simp
    with False show ?thesis by (subst show_nat.simps) (simp add: digits_value_snoc)
  qed
qed

lemma show_nat_hd: "\<exists>c cs. show_nat n = c # cs \<and> c \<in> set digit_chars"
  using show_nat_nonempty [of n] show_nat_digits [of n] by (cases "show_nat n") auto

text \<open>
  The defaulting idioms of the program on an environment variable (\<open>None\<close> when
  unset): \<^verbatim>\<open>parseInt(v) || d\<close>, where \<^verbatim>\<open>NaN\<close> and \<open>0\<close> are falsy, and
  \<^verbatim>\<open>v || d\<close>, where the empty string is falsy.
\<close>

definition int_or :: "string option \<Rightarrow> int \<Rightarrow> int" where
  "int_or v d =
     (case v of
        None \<Rightarrow> d
      | Some s \<Rightarrow> (case parseInt s of Some i \<Rightarrow> if i = 0 then d else i | None \<Rightarrow> d))"

definition str_or :: "string option \<Rightarrow> string \<Rightarrow> string" where
  "str_or v d = (case v of Some s \<Rightarrow> if s = [] then d else s | None \<Rightarrow> d)"

text \<open>A run of decimal digits, then text that neither continues it nor makes it a hex prefix.\<close>

definition digits_end :: "string \<Rightarrow> bool" where
  "digits_end rest \<longleftrightarrow> rest = [] \<or> hd rest \<notin> set (''xX'' @ digit_chars)"

lemma takeWhile_digits:
  assumes "set ds \<subseteq> set digit_chars" "digits_end rest"
  shows "takeWhile (\<lambda>c. digit_of 10 c \<noteq> None) (ds @ rest) = ds"
proof -
  have "digit_of 10 c \<noteq> None" if "c \<in> set digit_chars" for c
    using that by (auto simp: digit_of_def digit_chars_def)
  with assms(1) have "takeWhile (\<lambda>c. digit_of 10 c \<noteq> None) ds = ds"
    by (simp add: takeWhile_eq_all_conv subset_iff)
  moreover have "takeWhile (\<lambda>c. digit_of 10 c \<noteq> None) rest = []"
    using assms(2) digit_of_10_None [of "hd rest"] by (cases rest) (simp_all add: digits_end_def)
  ultimately show ?thesis using assms(1) by (simp add: takeWhile_append subset_iff)
qed

lemma no_hex_prefix:
  assumes "set ds \<subseteq> set digit_chars" "digits_end rest"
  shows "take 2 (ds @ rest) \<noteq> ''0x'' \<and> take 2 (ds @ rest) \<noteq> ''0X''"
proof (cases ds)
  case (Cons a r)
  with assms show ?thesis by (cases r; cases rest) (auto simp: digit_chars_def digits_end_def)
qed (use assms in \<open>cases rest, auto simp: digits_end_def digit_chars_def\<close>)

lemma parseInt_digits:
  assumes "set ds \<subseteq> set digit_chars" "ds \<noteq> []" "digits_end rest"
  shows "parseInt (ds @ rest) = Some (int (digits_value 10 ds)) \<and>
         parseInt (CHR ''-'' # ds @ rest) = Some (- int (digits_value 10 ds))"
proof -
  obtain c cs where d: "ds = c # cs" using assms(2) by (cases ds) auto
  have c: "c \<in> set digit_chars" using assms(1) d by auto
  then have "\<not> is_ws c" "c \<noteq> CHR ''-''" "c \<noteq> CHR ''+''"
    by (auto simp: is_ws_def digit_chars_def)
  then have ws: "dropWhile is_ws (ds @ rest) = ds @ rest" and sg: "parse_sign (ds @ rest) = (False, ds @ rest)"
    by (simp_all add: d parse_sign_def)
  have rx: "parse_radix (ds @ rest) = (10, ds @ rest)"
    using no_hex_prefix [OF assms(1,3)] by (simp add: parse_radix_def)
  note tw = takeWhile_digits [OF assms(1,3)]
  have "parseInt (ds @ rest) = Some (int (digits_value 10 ds))"
    unfolding parseInt_def ws sg Let_def by (simp add: rx tw assms(2) del: not_None_eq)
  moreover have "parseInt (CHR ''-'' # ds @ rest) = Some (- int (digits_value 10 ds))"
    unfolding parseInt_def by (simp add: is_ws_def parse_sign_def rx tw assms(2) del: not_None_eq)
  ultimately show ?thesis ..
qed

text \<open>An integer printed in decimal and followed by text that ends its digits parses back.\<close>

lemma parseInt_show_int_append: "digits_end rest \<Longrightarrow> parseInt (show_int i @ rest) = Some i"
  using parseInt_digits [OF show_nat_digits show_nat_nonempty, of rest "nat \<bar>i\<bar>"]
  by (cases "i < 0") (simp_all add: show_int_def digits_value_show_nat)

lemma parseInt_show_int: "parseInt (show_int i) = Some i"
  using parseInt_show_int_append [of "[]" i] by (simp add: digits_end_def)

lemma trim_ws_Cons: "is_ws c \<Longrightarrow> trim (c # s) = trim s"
  by (simp add: trim_def)

lemma split_on_Cons_other:
  "x \<noteq> c \<Longrightarrow> split_on c (x # s) = (case split_on c s of w # ws \<Rightarrow> (x # w) # ws | [] \<Rightarrow> [[x]])"
  by simp

lemma hd_join: "xs \<noteq> [] \<Longrightarrow> hd xs \<noteq> [] \<Longrightarrow> hd (join sep xs) = hd (hd xs)"
  by (induction sep xs rule: join.induct) auto

lemma join_nonempty_last: "xs \<noteq> [] \<Longrightarrow> last xs \<noteq> [] \<Longrightarrow> join sep xs \<noteq> []"
  by (induction sep xs rule: join.induct) auto

lemma last_join: "xs \<noteq> [] \<Longrightarrow> last xs \<noteq> [] \<Longrightarrow> last (join sep xs) = last (last xs)"
  by (induction sep xs rule: join.induct) (auto simp: join_nonempty_last)

lemma join_nonempty: "xs \<noteq> [] \<Longrightarrow> hd xs \<noteq> [] \<Longrightarrow> join sep xs \<noteq> []"
  by (induction sep xs rule: join.induct) auto

text \<open>\<^verbatim>\<open>tags.join(', ')\<close> split again at the commas.\<close>

lemma split_on_join_sep:
  assumes "xs \<noteq> []" "\<forall>t \<in> set xs. c \<notin> set t" "d \<noteq> c"
  shows "split_on c (join [c, d] xs) = hd xs # map (Cons d) (tl xs)"
  using assms
proof (induction "[c, d]" xs rule: join.induct)
  case (3 x y zs)
  have ih: "split_on c (join [c, d] (y # zs)) = y # map (Cons d) zs" using 3 by simp
  have "join [c, d] (x # y # zs) = x @ c # d # join [c, d] (y # zs)" by simp
  then show ?case using 3(2-) ih by (simp add: split_on_append_sep split_on_no_sep)
qed (simp_all add: split_on_no_sep)

lemma trim_trimmed: "trimmed s \<Longrightarrow> trim s = s"
  by (rule trim_no_ws) (simp add: trimmed_def)

lemma trimmed_no_ws: "\<forall>c \<in> set s. \<not> is_ws c \<Longrightarrow> trimmed s"
  unfolding trimmed_def using hd_in_set [of s] last_in_set [of s] by blast

lemma set_join: "set (join sep xs) \<subseteq> set sep \<union> \<Union> (set (map set xs))"
  by (induction sep xs rule: join.induct) auto

lemma show_nat_no_ws: "c \<in> set (show_nat n) \<Longrightarrow> \<not> is_ws c \<and> c \<noteq> nl"
  using show_nat_digits [of n] by (auto simp: digit_chars_def is_ws_def)

lemma show_int_no_ws:
  assumes "c \<in> set (show_int i)"
  shows "\<not> is_ws c \<and> c \<noteq> nl"
proof -
  have "c = CHR ''-'' \<or> c \<in> set (show_nat (nat \<bar>i\<bar>))"
    using assms by (simp add: show_int_def split: if_splits)
  then show ?thesis
  proof
    assume "c = CHR ''-''"
    then show ?thesis by (simp add: is_ws_def)
  next
    assume "c \<in> set (show_nat (nat \<bar>i\<bar>))"
    then show ?thesis by (rule show_nat_no_ws)
  qed
qed

lemma int_or_nonzero: "d \<noteq> 0 \<Longrightarrow> int_or v d \<noteq> 0"
  by (simp add: int_or_def split: option.splits)

lemma int_or_show_int: "i \<noteq> 0 \<Longrightarrow> int_or (Some (show_int i)) d = i"
  by (simp add: int_or_def parseInt_show_int)

end
