(* ===== verification/Config.thy ===== *)
theory Config
  imports Session JsString
begin

text \<open>
  The configuration object of \<^verbatim>\<open>src/src/browser.js\<close> (lines 22--28), resolved once
  from the process environment, here a function from variable names to their values
  (\<open>None\<close> when unset).
\<close>

definition resolve_config :: "(string \<Rightarrow> string option) \<Rightarrow> config" where
  "resolve_config env =
     \<lparr>c_url = str_or (env ''STRUDEL_URL'') ''https://strudel.cc'',
      c_headless = (env ''HEADLESS'' \<noteq> Some ''false''),
      c_width = int_or (env ''WINDOW_WIDTH'') 1280,
      c_height = int_or (env ''WINDOW_HEIGHT'') 720,
      c_debug = (env ''DEBUG'' = Some ''true'')\<rparr>"

text \<open>\<^verbatim>\<open>getConfig()\<close>: the copy \<^verbatim>\<open>{...config}\<close>.\<close>

definition getConfig :: "config \<Rightarrow> config" where
  "getConfig cfg = cfg"

text \<open>
  The viewport is never zero: \<open>0\<close>, like a value \<^verbatim>\<open>parseInt\<close> cannot read, falls back
  to the default.  Negative sizes pass through.
\<close>

lemma resolve_config_nonzero:
  "c_width (resolve_config env) \<noteq> 0 \<and> c_height (resolve_config env) \<noteq> 0"
  by (simp add: resolve_config_def int_or_nonzero)

lemma resolve_config_width:
  "i \<noteq> 0 \<Longrightarrow> env ''WINDOW_WIDTH'' = Some (show_int i) \<Longrightarrow> c_width (resolve_config env) = i"
  by (simp add: resolve_config_def int_or_show_int)

end
