(* ===== verification/Scenarios.thy ===== *)
theory Scenarios
  imports Lifecycle Config
begin

text \<open>
  Concrete inputs at which the theorems of the development are applied: the
  default configuration of \<^verbatim>\<open>browser.js\<close> (lines 22--28 with no environment
  variables set), a healthy world serving the editor, and the session states reached
  from it by a cold start (\<open>s_ready\<close>), by a page crash after it
  (\<open>s_crashed\<close>), by a cold start while the site is unreachable
  (\<open>s_stuck\<close>) and by a cold start on a page whose editor element has neither a
  CodeMirror view nor a textarea (\<open>s_bare\<close>).  Each is computed by the model, and
  the facts below are evaluated by the simplifier.
\<close>

definition cfg0 :: config where
  "cfg0 = \<lparr>c_url = ''https://strudel.cc'', c_headless = True, c_width = 1280, c_height = 720,
           c_debug = False\<rparr>"

definition site_dom :: dom where
  "site_dom = \<lparr>d_editor = True, d_view = Some ''// welcome'', d_textarea = None, d_playing = False,
               d_has_setcps = True, d_cps = None\<rparr>"

definition w_ok :: world where
  "w_ok = \<lparr>w_browsers = [], w_pages = Map.empty, w_next = 0, w_chrome = True, w_online = True,
           w_site = site_dom, w_trace = []\<rparr>"

definition s_ready :: sys where
  "s_ready = run_op cfg0 OpLaunch (init_sys w_ok)"

definition s_crashed :: sys where
  "s_crashed = env_sys (PageCrash 1) s_ready"

definition s_stuck :: sys where
  "s_stuck = run_op cfg0 OpLaunch (init_sys (w_ok\<lparr>w_online := False\<rparr>))"

definition s_bare :: sys where
  "s_bare = run_op cfg0 OpLaunch (init_sys (w_ok\<lparr>w_site := site_dom\<lparr>d_view := None\<rparr>\<rparr>))"

lemmas scenario_defs = cfg0_def site_dom_def w_ok_def s_ready_def s_crashed_def s_stuck_def s_bare_def

lemmas launch_eval = init_sys_def launchBrowser_def launch_fresh_def world_defs
  Let_def page_live_def page_dom_def w_pages_upd_page

lemma cfg0_default: "resolve_config (\<lambda>_. None) = cfg0"
  by (simp add: resolve_config_def cfg0_def int_or_def str_or_def)

lemma s_ready_facts:
  "s_browser s_ready = Some 0" "s_page s_ready = Some 1" "page_live (s_world s_ready) 1"
  "page_dom (s_world s_ready) 1 = site_dom" "w_browsers (s_world s_ready) = [0]"
  "w_next (s_world s_ready) = 2" "w_chrome (s_world s_ready)" "w_online (s_world s_ready)"
  "w_site (s_world s_ready) = site_dom"
  "map_option pg_owner (w_pages (s_world s_ready) 1) = Some 0"
  by (simp_all add: s_ready_def w_ok_def launch_eval site_dom_def)

lemma s_ready_launch: "launchBrowser cfg0 (init_sys w_ok) = (Inr (0, 1), s_ready)"
proof -
  have "fst (launchBrowser cfg0 (init_sys w_ok)) = Inr (0, 1)"
    by (simp add: w_ok_def launch_eval site_dom_def)
  then show ?thesis by (simp add: s_ready_def prod_eq_iff)
qed

lemma s_crashed_facts:
  "s_browser s_crashed = Some 0" "s_page s_crashed = Some 1" "\<not> page_live (s_world s_crashed) 1"
  "w_browsers (s_world s_crashed) = [0]" "w_next (s_world s_crashed) = 2"
  "w_chrome (s_world s_crashed)" "w_online (s_world s_crashed)" "w_site (s_world s_crashed) = site_dom"
  "map_option pg_owner (w_pages (s_world s_crashed) 1) = Some 0"
  using s_ready_facts
  by (auto simp: s_crashed_def env_sys_def page_live_def w_pages_upd_page split: option.splits)

lemma s_stuck_facts:
  "s_browser s_stuck = Some 0" "s_page s_stuck = Some 1" "page_live (s_world s_stuck) 1"
  "page_dom (s_world s_stuck) 1 = blank_dom" "w_next (s_world s_stuck) = 2"
  "map_option pg_owner (w_pages (s_world s_stuck) 1) = Some 0"
  by (simp_all add: s_stuck_def w_ok_def launch_eval)

lemma s_bare_facts:
  "s_page s_bare = Some 1" "page_live (s_world s_bare) 1"
  "page_dom (s_world s_bare) 1 = site_dom\<lparr>d_view := None\<rparr>"
  by (simp_all add: s_bare_def w_ok_def launch_eval site_dom_def)

end
