(* ===== verification/Utils.thy ===== *)
theory Utils
  imports JsString
begin

text \<open>
  The pure helpers of \<^verbatim>\<open>src/src/utils.js\<close>: the tempo conversions, the
  syntax check \<^verbatim>\<open>validateCode\<close>, the keyword generator
  \<^verbatim>\<open>generateCodeFromDescription\<close>, the keyword rewriter \<^verbatim>\<open>modifyCode\<close> and
  \<^verbatim>\<open>stackPatterns\<close>.  The check is related to a reference definition of
  balanced parentheses (\<open>balanced\<close>); the text helpers are then judged by it.
\<close>

section \<open>Tempo\<close>

definition bpmToCps :: "real \<Rightarrow> real" where
  "bpmToCps bpm = bpm / 60 / 4"

definition cpsToBpm :: "real \<Rightarrow> real" where
  "cpsToBpm cps = cps * 60 * 4"

section \<open>validateCode\<close>

record validation =
  v_valid :: bool
  v_errors :: "string list"

text \<open>
  The \<^verbatim>\<open>for (const char of code)\<close> loop: the counter and whether the loop left by
  \<^verbatim>\<open>break\<close>.
\<close>

fun paren_scan :: "int \<Rightarrow> string \<Rightarrow> bool \<times> int" where
  "paren_scan n [] = (False, n)"
| "paren_scan n (c # cs) =
     (let n1 = (if c = CHR ''('' then n + 1 else n);
          n2 = (if c = CHR '')'' then n1 - 1 else n1)
      in if n2 < 0 then (True, n2) else paren_scan n2 cs)"

definition validateCode :: "string \<Rightarrow> validation" where
  \<open>validateCode code =
     (let (broke, cnt) = paren_scan 0 code;
          e1 = (if broke then [''Unbalanced parentheses''] else []);
          e2 = (if cnt > 0 then [''Unclosed parentheses''] else []);
          sq = count_list code (CHR 0x27);
          dq = count_list code (CHR 0x22);
          e3 = (if odd sq then [''Unclosed single quotes''] else []);
          e4 = (if odd dq then [''Unclosed double quotes''] else []);
          errs = e1 @ e2 @ e3 @ e4
      in \<lparr>v_valid = (errs = []), v_errors = errs\<rparr>)\<close>

text \<open>The reference: parentheses nest properly.\<close>

definition depth :: "string \<Rightarrow> int" where
  "depth s = int (count_list s (CHR ''('')) - int (count_list s (CHR '')''))"

definition balanced :: "string \<Rightarrow> bool" where
  "balanced s \<longleftrightarrow> depth s = 0 \<and> (\<forall>k \<le> length s. 0 \<le> depth (take k s))"

section \<open>Generating and rewriting pattern code\<close>

definition generateCodeFromDescription :: "string \<Rightarrow> string" where
  \<open>generateCodeFromDescription description =
     (let d = to_lower description in
      if str_includes d ''kick'' \<and> str_includes d ''4 on the floor'' then ''s("bd bd bd bd")''
      else if str_includes d ''kick'' \<and> str_includes d ''every beat'' then ''s("bd bd bd bd")''
      else if str_includes d ''snare'' \<and> (str_includes d ''2 and 4'' \<or> str_includes d ''backbeat'')
        then ''s("~ sd ~ sd")''
      else if str_includes d ''hi-hat'' \<and> str_includes d ''fast'' then ''s("hh*8")''
      else if str_includes d ''hi-hat'' then ''s("hh*4")''
      else if str_includes d ''bass'' \<and> str_includes d ''c minor''
        then ''note("c2 eb2 g2 bb2").s("sawtooth").lpf(400)''
      else if str_includes d ''bass'' \<and> str_includes d ''dark''
        then ''note("c2 eb2 g2").s("sawtooth").lpf(300).room(0.3)''
      else if str_includes d ''kick'' then ''s("bd")''
      else if str_includes d ''snare'' then ''s("sd")''
      else ''s("bd")'')\<close>

text \<open>\<^verbatim>\<open>code.replace(/\)$/, '')\<close>: drop one closing parenthesis at the very end.\<close>

definition strip_close :: "string \<Rightarrow> string" where
  "strip_close s = (if s \<noteq> [] \<and> last s = CHR '')'' then butlast s else s)"

definition extend_code :: "string \<Rightarrow> string \<Rightarrow> string" where
  "extend_code s sfx = trim (strip_close s) @ sfx"

text \<open>
  One \<^verbatim>\<open>if\<close> block of \<^verbatim>\<open>modifyCode\<close>: the keywords looked for in the lower-cased
  request, the call already present that blocks it, the calls appended.
\<close>

definition mod_rule :: "string list \<Rightarrow> string \<Rightarrow> string \<Rightarrow> string \<Rightarrow> string \<Rightarrow> string" where
  "mod_rule kws marker sfx m code =
     (if list_ex (str_includes m) kws \<and> \<not> str_includes code marker then extend_code code sfx else code)"

definition modify_rules :: "(string list \<times> string \<times> string) list" where
  "modify_rules =
     [([''reverb'', ''room''], ''.room('', ''.room(0.5).size(0.8)''),
      ([''delay'', ''echo''], ''.delay('', ''.delay(0.3).delaytime(0.25)''),
      ([''filter'', ''darker'', ''muffled''], ''.lpf('', ''.lpf(800)''),
      ([''louder'', ''increase volume''], ''.gain('', ''.gain(1.2)''),
      ([''quieter'', ''decrease volume'', ''lower volume''], ''.gain('', ''.gain(0.7)''),
      ([''faster'', ''speed up''], ''.fast('', ''.fast(2)''),
      ([''slower'', ''slow down''], ''.slow('', ''.slow(2)'')]"

definition modifyCode :: "string \<Rightarrow> string \<Rightarrow> string" where
  "modifyCode currentCode modification =
     (let m = to_lower modification
      in foldl (\<lambda>code (kws, marker, sfx). mod_rule kws marker sfx m code) currentCode modify_rules)"

definition stackPatterns :: "string \<Rightarrow> string \<Rightarrow> string" where
  "stackPatterns currentCode newInstrument =
     (if currentCode = [] then newInstrument
      else if starts_with currentCode ''stack(''
        then butlast currentCode @ [CHR '','', nl, CHR '' '', CHR '' ''] @ newInstrument @ [nl, CHR '')'']
      else ''stack('' @ [nl, CHR '' '', CHR '' ''] @ currentCode @ [CHR '','', nl, CHR '' '', CHR '' ''] @
           newInstrument @ [nl, CHR '')''])"

section \<open>formatCode\<close>

text \<open>
  The three global regular-expression replacements of \<^verbatim>\<open>formatCode\<close>, each a left
  to right scan that does not rescan what it inserted: \<^verbatim>\<open>/stack\(/g\<close>;
  \<^verbatim>\<open>/,(?!\s*\n)/g\<close>, a comma not followed by white space reaching a newline (as
  \<^verbatim>\<open>\s\<close> includes the newline, the lookahead holds exactly when the white space
  run after the comma contains one); \<^verbatim>\<open>/\)(?!\s*$)/g\<close>, a closing parenthesis
  not followed by white space only.  Nothing in the program calls \<^verbatim>\<open>formatCode\<close>.
\<close>

fun fmt_stack :: "string \<Rightarrow> string" where
  "fmt_stack [] = []"
| "fmt_stack (c # cs) =
     (if starts_with (c # cs) ''stack('' then ''stack('' @ [nl, CHR '' '', CHR '' ''] @ fmt_stack (drop 5 cs)
      else c # fmt_stack cs)"

fun fmt_comma :: "string \<Rightarrow> string" where
  "fmt_comma [] = []"
| "fmt_comma (c # cs) =
     (if c = CHR '','' \<and> nl \<notin> set (takeWhile is_ws cs) then CHR '','' # nl # CHR '' '' # CHR '' '' # fmt_comma cs
      else c # fmt_comma cs)"

fun fmt_paren :: "string \<Rightarrow> string" where
  "fmt_paren [] = []"
| "fmt_paren (c # cs) =
     (if c = CHR '')'' \<and> \<not> (\<forall>x \<in> set cs. is_ws x) then nl # CHR '')'' # fmt_paren cs
      else c # fmt_paren cs)"

definition formatCode :: "string \<Rightarrow> string" where
  "formatCode code = fmt_paren (fmt_comma (fmt_stack code))"

section \<open>Auxiliary definitions of the proofs\<close>

text \<open>The codes the generator can return, and what a rewrite rule appends.\<close>

definition generated_codes :: "string list" where
  \<open>generated_codes =
     [''s("bd bd bd bd")'', ''s("~ sd ~ sd")'', ''s("hh*8")'', ''s("hh*4")'',
      ''note("c2 eb2 g2 bb2").s("sawtooth").lpf(400)'',
      ''note("c2 eb2 g2").s("sawtooth").lpf(300).room(0.3)'', ''s("bd")'', ''s("sd")'']\<close>

definition suffix_ok :: "string \<Rightarrow> bool" where
  "suffix_ok sfx \<longleftrightarrow> sfx \<noteq> [] \<and> last sfx = CHR '')'' \<and> depth sfx = 0"

section \<open>The check against the reference\<close>

lemma depth_Nil [simp]: "depth [] = 0"
  by (simp add: depth_def)

lemma depth_Cons:
  "depth (c # s) = (if c = CHR ''('' then 1 else if c = CHR '')'' then -1 else 0) + depth s"
  by (simp add: depth_def)

lemma depth_append: "depth (a @ b) = depth a + depth b"
  by (simp add: depth_def)

lemma paren_scan_ok:
  "0 \<le> n \<Longrightarrow>
     paren_scan n s = (False, m) \<longleftrightarrow> (\<forall>k \<le> length s. 0 \<le> n + depth (take k s)) \<and> m = n + depth s"
proof (induction s arbitrary: n)
  case Nil
  then show ?case by auto
next
  case (Cons c cs)
  define d where "d = (if c = CHR ''('' then 1 else if c = CHR '')'' then -1 else (0::int))"
  have step: "paren_scan n (c # cs) = (if n + d < 0 then (True, n + d) else paren_scan (n + d) cs)"
    by (simp add: d_def Let_def)
  have all: "(\<forall>k \<le> length (c # cs). 0 \<le> n + depth (take k (c # cs))) \<longleftrightarrow>
             0 \<le> n + d \<and> (\<forall>k \<le> length cs. 0 \<le> (n + d) + depth (take k cs))"
  proof
    assume h: "\<forall>k \<le> length (c # cs). 0 \<le> n + depth (take k (c # cs))"
    have "0 \<le> n + depth (take 1 (c # cs))" using h by (metis le_add1 length_Cons plus_1_eq_Suc)
    then have "0 \<le> n + d" by (simp add: depth_Cons d_def)
    moreover have "\<forall>k \<le> length cs. 0 \<le> (n + d) + depth (take k cs)"
    proof (intro allI impI)
      fix k assume "k \<le> length cs"
      then have "Suc k \<le> length (c # cs)" by simp
      with h have "0 \<le> n + depth (take (Suc k) (c # cs))" by blast
      then show "0 \<le> (n + d) + depth (take k cs)" by (simp add: depth_Cons d_def add.assoc)
    qed
    ultimately show "0 \<le> n + d \<and> (\<forall>k \<le> length cs. 0 \<le> (n + d) + depth (take k cs))" by blast
  next
    assume h: "0 \<le> n + d \<and> (\<forall>k \<le> length cs. 0 \<le> (n + d) + depth (take k cs))"
    show "\<forall>k \<le> length (c # cs). 0 \<le> n + depth (take k (c # cs))"
    proof (intro allI impI)
      fix k assume k: "k \<le> length (c # cs)"
      show "0 \<le> n + depth (take k (c # cs))"
      proof (cases k)
        case 0
        with Cons.prems show ?thesis by simp
      next
        case (Suc j)
        with k h have "0 \<le> (n + d) + depth (take j cs)" by simp
        with Suc show ?thesis by (simp add: depth_Cons d_def add.assoc)
      qed
    qed
  qed
  have dep: "n + depth (c # cs) = (n + d) + depth cs" by (simp add: depth_Cons d_def)
  show ?case
  proof (cases "n + d < 0")
    case True
    with step all show ?thesis by auto
  next
    case False
    then have "0 \<le> n + d" by simp
    have "paren_scan n (c # cs) = paren_scan (n + d) cs" using step False by simp
    with all dep Cons.IH [of "n + d"] \<open>0 \<le> n + d\<close> show ?thesis by (simp only:) simp
  qed
qed

lemma paren_scan_fst_snd:
  "\<not> fst (paren_scan n s) \<Longrightarrow> 0 \<le> n \<Longrightarrow> snd (paren_scan n s) = n + depth s"
  using paren_scan_ok [of n s "snd (paren_scan n s)"] by (cases "paren_scan n s") auto

lemma scan_ok_balanced:
  "(\<not> fst (paren_scan 0 code) \<and> \<not> 0 < snd (paren_scan 0 code)) \<longleftrightarrow> balanced code"
proof -
  obtain b m where sc: "paren_scan 0 code = (b, m)" by fastforce
  have "(\<not> b \<and> \<not> 0 < m) \<longleftrightarrow> balanced code"
  proof
    assume h: "\<not> b \<and> \<not> 0 < m"
    with sc paren_scan_ok [of 0 code m] have
      all: "\<forall>k \<le> length code. 0 \<le> depth (take k code)" and mm: "m = depth code" by auto
    from all have "0 \<le> depth code" by (metis order_refl take_all)
    with h mm all show "balanced code" by (simp add: balanced_def)
  next
    assume "balanced code"
    then have "paren_scan 0 code = (False, 0)"
      using paren_scan_ok [of 0 code 0] by (simp add: balanced_def)
    with sc show "\<not> b \<and> \<not> 0 < m" by simp
  qed
  with sc show ?thesis by simp
qed

lemma valid_imp_balanced:
  "v_valid (validateCode code) \<Longrightarrow>
     balanced code \<and> even (count_list code (CHR 0x27)) \<and> even (count_list code (CHR 0x22))"
  using scan_ok_balanced [of code]
  by (auto simp: validateCode_def Let_def split: prod.splits if_splits)

lemma balanced_imp_valid:
  "balanced code \<Longrightarrow> even (count_list code (CHR 0x27)) \<Longrightarrow> even (count_list code (CHR 0x22)) \<Longrightarrow>
     v_valid (validateCode code)"
  using scan_ok_balanced [of code]
  by (auto simp: validateCode_def Let_def split: prod.splits)

text \<open>
  C18 (the check is exact).  \<^verbatim>\<open>validateCode\<close> reports no error exactly when the
  parentheses of the code are balanced (no prefix closes more than it opened, and
  the whole opens as many as it closes) and both quote characters occur an even
  number of times: the counter loop with its \<^verbatim>\<open>break\<close> decides the reference
  definition \<open>balanced\<close>.
\<close>

theorem validateCode_iff:
  "v_valid (validateCode code) \<longleftrightarrow>
     balanced code \<and> even (count_list code (CHR 0x27)) \<and> even (count_list code (CHR 0x22))"
  using valid_imp_balanced balanced_imp_valid by blast

lemma tempo_roundtrip: "cpsToBpm (bpmToCps x) = x \<and> bpmToCps (cpsToBpm x) = x"
  by (simp add: cpsToBpm_def bpmToCps_def)

lemma generate_in_codes: "generateCodeFromDescription d \<in> set generated_codes"
  by (simp add: generateCodeFromDescription_def generated_codes_def Let_def)

lemma generated_codes_valid: "list_all (\<lambda>c. v_valid (validateCode c)) generated_codes"
  by (simp add: generated_codes_def validateCode_def)

text \<open>
  C19 (generated code passes the check).  Whatever the description,
  \<^verbatim>\<open>generateCodeFromDescription\<close> returns code that \<^verbatim>\<open>validateCode\<close> accepts.
\<close>

theorem generate_valid: "v_valid (validateCode (generateCodeFromDescription d))"
  using generate_in_codes [of d] generated_codes_valid by (simp add: list_all_iff)

lemma count_list_dropWhile_ws:
  "\<not> is_ws c \<Longrightarrow> count_list (dropWhile is_ws s) c = count_list s c"
  by (induction s) auto

lemma depth_rev: "depth (rev s) = depth s"
  by (simp add: depth_def)

lemma depth_trim: "depth (trim s) = depth s"
  by (simp add: trim_def depth_def count_list_dropWhile_ws is_ws_def)

lemma depth_extend:
  assumes "s \<noteq> []" "last s = CHR '')''"
  shows "depth (extend_code s sfx) = depth s + 1 + depth sfx"
proof -
  obtain ys where s: "s = ys @ [CHR '')'']"
    using assms by (metis append_butlast_last_id)
  then show ?thesis by (simp add: extend_code_def strip_close_def depth_trim depth_append depth_Cons)
qed

lemma modify_rules_ok: "list_all (\<lambda>(kws, marker, sfx). suffix_ok sfx) modify_rules"
  by (simp add: modify_rules_def suffix_ok_def depth_def)

lemma fold_rules_depth:
  assumes "list_all (\<lambda>(kws, marker, sfx). suffix_ok sfx) rs" "c \<noteq> []" "last c = CHR '')''"
  shows "let r = foldl (\<lambda>code (kws, marker, sfx). mod_rule kws marker sfx m code) c rs
         in r \<noteq> [] \<and> last r = CHR '')'' \<and> (r = c \<or> depth c < depth r)"
  using assms
proof (induction rs arbitrary: c)
  case Nil
  then show ?case by simp
next
  case (Cons rl rs)
  obtain kws marker sfx where rl: "rl = (kws, marker, sfx)" by (cases rl) auto
  let ?c1 = "mod_rule kws marker sfx m c"
  from Cons.prems rl have sf: "suffix_ok sfx" by simp
  have c1: "?c1 \<noteq> [] \<and> last ?c1 = CHR '')'' \<and> (?c1 = c \<or> depth c < depth ?c1)"
    using sf Cons.prems(2,3) depth_extend [of c sfx]
    by (auto simp: mod_rule_def suffix_ok_def extend_code_def)
  have ih: "let r = foldl (\<lambda>code (kws, marker, sfx). mod_rule kws marker sfx m code) ?c1 rs
            in r \<noteq> [] \<and> last r = CHR '')'' \<and> (r = ?c1 \<or> depth ?c1 < depth r)"
    using Cons.IH [of ?c1] Cons.prems(1) c1 by simp
  from ih c1 rl show ?case by (auto simp: Let_def)
qed

lemma valid_depth_zero: "v_valid (validateCode s) \<Longrightarrow> depth s = 0"
  using valid_imp_balanced by (simp add: balanced_def)

text \<open>
  C20 (\<^verbatim>\<open>modifyCode\<close> breaks code).  For every valid pattern that ends with a
  closing parenthesis, any change \<^verbatim>\<open>modifyCode\<close> makes yields code that
  \<^verbatim>\<open>validateCode\<close> rejects: each applied rule deletes the final \<^verbatim>\<open>)\<close>
  (\<^verbatim>\<open>replace(/\)$/, '')\<close>) and appends a balanced call, so one parenthesis
  stays open per rule.
\<close>

theorem modifyCode_breaks_valid_code:
  assumes "v_valid (validateCode c)" "c \<noteq> []" "last c = CHR '')''" "modifyCode c m \<noteq> c"
  shows "\<not> v_valid (validateCode (modifyCode c m))"
proof -
  have "let r = modifyCode c m in r \<noteq> [] \<and> last r = CHR '')'' \<and> (r = c \<or> depth c < depth r)"
    using fold_rules_depth [OF modify_rules_ok assms(2,3), of "to_lower m"]
    by (simp add: modifyCode_def Let_def)
  with assms(4) valid_depth_zero [OF assms(1)] have "depth (modifyCode c m) \<noteq> 0"
    by (simp add: Let_def)
  then show ?thesis using valid_depth_zero by blast
qed

lemma paren_scan_append:
  "paren_scan n (a @ b) = (case paren_scan n a of (True, m) \<Rightarrow> (True, m) | (False, m) \<Rightarrow> paren_scan m b)"
  by (induction a arbitrary: n) (simp_all add: Let_def)

lemma balanced_scan: "balanced s \<longleftrightarrow> paren_scan 0 s = (False, 0)"
  using paren_scan_ok [of 0 s 0] by (auto simp: balanced_def)

lemma paren_scan_balanced: "balanced s \<Longrightarrow> 0 \<le> n \<Longrightarrow> paren_scan n s = (False, n)"
  using paren_scan_ok [of n s n] by (auto simp: balanced_def)

text \<open>
  Appending to a valid code that ends in a closing parenthesis, the way
  \<^verbatim>\<open>stackPatterns\<close> extends a \<^verbatim>\<open>stack(\<close>: the parenthesis is taken off, a
  valid instrument is added after a comma, and the parenthesis is put back.
\<close>

lemma reopen_last_call_valid:
  assumes "v_valid (validateCode cur)" "v_valid (validateCode new)" "cur \<noteq> []" "last cur = CHR '')''"
  shows "v_valid (validateCode (butlast cur @ [CHR '','', nl, CHR '' '', CHR '' ''] @ new @ [nl, CHR '')'']))"
proof -
  from valid_imp_balanced [OF assms(1)] valid_imp_balanced [OF assms(2)]
  have bc: "balanced cur" and bn: "balanced new"
    and q: "even (count_list cur (CHR 0x27))" "even (count_list cur (CHR 0x22))"
           "even (count_list new (CHR 0x27))" "even (count_list new (CHR 0x22))" by auto
  obtain x where cx: "cur = x @ '')''"
    using assms(3,4) append_butlast_last_id [of cur] by (metis last_snoc)
  then have bl: "butlast cur = x" by simp
  obtain b k where sx: "paren_scan 0 x = (b, k)" by fastforce
  have "paren_scan 0 (x @ '')'') = (False, 0)"
    using bc unfolding cx by (simp add: balanced_scan)
  then have x: "paren_scan 0 x = (False, 1)"
    using sx by (cases b) (simp_all add: paren_scan_append Let_def split: if_splits)
  let ?r = "x @ [CHR '','', nl, CHR '' '', CHR '' ''] @ new @ [nl, CHR '')'']"
  have "paren_scan 0 ?r = (False, 0)"
    by (simp add: paren_scan_append x paren_scan_balanced [OF bn])
  then have "balanced ?r" by (simp add: balanced_scan)
  moreover have "even (count_list x (CHR 0x27))" "even (count_list x (CHR 0x22))"
    using q(1,2) unfolding cx by simp_all
  ultimately show ?thesis using q(3,4) unfolding bl by (simp add: balanced_imp_valid)
qed

text \<open>
  C21 (stacking).  Stacking a valid instrument onto a valid, non-empty pattern that is
  not yet a \<^verbatim>\<open>stack(\<close> gives valid code.  When the pattern is a
  \<^verbatim>\<open>stack(a)\<close> followed by a method call \<^verbatim>\<open>.m(b)\<close>, \<^verbatim>\<open>stackPatterns\<close>
  removes the last character and so inserts the new instrument as the last argument of
  \<^verbatim>\<open>m\<close>, not of the stack; the result still passes \<^verbatim>\<open>validateCode\<close>, so the
  mistake goes unnoticed.
\<close>

theorem stackPatterns_valid:
  assumes "v_valid (validateCode cur)" "v_valid (validateCode new)" "cur \<noteq> []"
  shows "(\<not> starts_with cur ''stack('' \<longrightarrow> v_valid (validateCode (stackPatterns cur new))) \<and>
         (cur = ''stack('' @ a @ '').'' @ m @ ''('' @ b @ '')'' \<longrightarrow>
            stackPatterns cur new =
              ''stack('' @ a @ '').'' @ m @ ''('' @ b @ [CHR '','', nl, CHR '' '', CHR '' ''] @ new @ [nl, CHR '')''] \<and>
            v_valid (validateCode (stackPatterns cur new)))"
proof (intro conjI impI)
  assume ns: "\<not> starts_with cur ''stack(''"
  from valid_imp_balanced [OF assms(1)] valid_imp_balanced [OF assms(2)]
  have bc: "balanced cur" and bn: "balanced new"
    and q: "even (count_list cur (CHR 0x27))" "even (count_list cur (CHR 0x22))"
           "even (count_list new (CHR 0x27))" "even (count_list new (CHR 0x22))" by auto
  let ?r = "''stack('' @ [nl, CHR '' '', CHR '' ''] @ cur @ [CHR '','', nl, CHR '' '', CHR '' ''] @
            new @ [nl, CHR '')'']"
  have r: "stackPatterns cur new = ?r"
    using assms(3) ns by (simp add: stackPatterns_def del: starts_with_prefix)
  have "paren_scan 0 ?r = (False, 0)"
    by (simp add: paren_scan_append paren_scan_balanced [OF bc] paren_scan_balanced [OF bn])
  then have "balanced ?r" by (simp add: balanced_scan)
  with q show "v_valid (validateCode (stackPatterns cur new))" by (simp add: r balanced_imp_valid)
next
  assume c: "cur = ''stack('' @ a @ '').'' @ m @ ''('' @ b @ '')''"
  have r: "stackPatterns cur new = butlast cur @ [CHR '','', nl, CHR '' '', CHR '' ''] @ new @ [nl, CHR '')'']"
    using c by (simp add: stackPatterns_def)
  then show "stackPatterns cur new =
      ''stack('' @ a @ '').'' @ m @ ''('' @ b @ [CHR '','', nl, CHR '' '', CHR '' ''] @ new @ [nl, CHR '')'']"
    using c by (simp add: butlast_append)
  show "v_valid (validateCode (stackPatterns cur new))"
    using r reopen_last_call_valid [OF assms] c by simp
qed

section \<open>formatCode only adds white space\<close>

abbreviation non_ws :: "string \<Rightarrow> string" where
  "non_ws s \<equiv> filter (\<lambda>c. \<not> is_ws c) s"

lemma ws_chars [simp]:
  "is_ws nl" "is_ws (CHR '' '')" "\<not> is_ws (CHR ''('')" "\<not> is_ws (CHR '')'')" "\<not> is_ws (CHR '','')"
  "\<not> is_ws (CHR 0x27)" "\<not> is_ws (CHR 0x22)"
  by (simp_all add: is_ws_def)

lemma non_ws_fmt_stack: "non_ws (fmt_stack s) = non_ws s"
proof (induction s rule: fmt_stack.induct)
  case (2 c cs)
  show ?case
  proof (cases "starts_with (c # cs) ''stack(''")
    case True
    then obtain r where cr: "c # cs = ''stack('' @ r" by (auto simp: prefix_def)
    then have "drop 5 cs = r" by auto
    then have "fmt_stack (c # cs) = ''stack('' @ [nl, CHR '' '', CHR '' ''] @ fmt_stack r"
      using True by simp
    moreover have "non_ws (fmt_stack r) = non_ws r" using 2(1) True \<open>drop 5 cs = r\<close> by simp
    ultimately show ?thesis unfolding cr by (simp add: is_ws_def)
  next
    case False
    then have "fmt_stack (c # cs) = c # fmt_stack cs" by (simp only: fmt_stack.simps(2) if_not_P if_False)
    then show ?thesis using 2(2) [OF False] by simp
  qed
qed simp

lemma non_ws_fmt_comma: "non_ws (fmt_comma s) = non_ws s"
  by (induction s rule: fmt_comma.induct) simp_all

lemma non_ws_fmt_paren: "non_ws (fmt_paren s) = non_ws s"
  by (induction s rule: fmt_paren.induct) simp_all

lemma non_ws_formatCode: "non_ws (formatCode s) = non_ws s"
  by (simp add: formatCode_def non_ws_fmt_stack non_ws_fmt_comma non_ws_fmt_paren)

lemma paren_scan_non_ws: "0 \<le> n \<Longrightarrow> paren_scan n (non_ws s) = paren_scan n s"
proof (induction n s rule: paren_scan.induct)
  case (2 n c cs)
  show ?case
  proof (cases "is_ws c")
    case True
    then have "c \<noteq> CHR ''('' \<and> c \<noteq> CHR '')''" by auto
    with True 2 show ?thesis by (simp add: Let_def)
  next
    case False
    with 2 show ?thesis by (simp add: Let_def)
  qed
qed simp

lemma count_list_non_ws: "\<not> is_ws c \<Longrightarrow> count_list (non_ws s) c = count_list s c"
  by (induction s) auto

lemma validateCode_non_ws: "validateCode (non_ws s) = validateCode s"
  by (simp add: validateCode_def paren_scan_non_ws count_list_non_ws)

text \<open>
  Formatting changes no verdict of \<^verbatim>\<open>validateCode\<close>: it inserts only white space,
  which neither the parenthesis loop nor the quote counts see.
\<close>

lemma validateCode_formatCode: "validateCode (formatCode s) = validateCode s"
  using validateCode_non_ws [of "formatCode s"] validateCode_non_ws [of s] non_ws_formatCode [of s]
  by simp

end
