(* ===== verification/State.thy ===== *)
theory State
  imports JsString
begin

text \<open>
  The in-memory pattern state, \<^verbatim>\<open>src/src/state.js\<close>: one module-level object
  with the current code, tempo, playing flag, a history of earlier codes capped at
  50 entries and a last-modified timestamp.  The clock (\<^verbatim>\<open>new Date().toISOString()\<close>)
  the environment variable \<^verbatim>\<open>DEFAULT_BPM\<close> are parameters.  A tempo is a
  JavaScript number that may be \<^verbatim>\<open>NaN\<close> (a pattern file can store one):
  \<open>real option\<close>, \<open>None\<close> for \<^verbatim>\<open>NaN\<close>.  The history is related to an unbounded one by \<open>lastn\<close>.
\<close>

record app_state =
  a_currentCode :: string
  a_currentBpm :: "real option"
  a_isPlaying :: bool
  a_history :: "string list"
  a_lastModified :: "string option"

text \<open>\<^verbatim>\<open>parseInt(process.env.DEFAULT_BPM) || 120\<close>: \<^verbatim>\<open>NaN\<close> and \<open>0\<close> are falsy.\<close>

definition env_default_bpm :: "string option \<Rightarrow> real" where
  "env_default_bpm env = of_int (int_or env 120)"

definition init_state :: "string option \<Rightarrow> app_state" where
  "init_state env =
     \<lparr>a_currentCode = [], a_currentBpm = Some (env_default_bpm env), a_isPlaying = False, a_history = [],
      a_lastModified = None\<rparr>"

definition history_limit :: nat where
  "history_limit = 50"

definition setCode :: "string \<Rightarrow> string \<Rightarrow> app_state \<Rightarrow> app_state" where
  "setCode now code st =
     (let h = (if a_currentCode st \<noteq> [] then
                 (let h1 = a_history st @ [a_currentCode st]
                  in if length h1 > history_limit then tl h1 else h1)
               else a_history st)
      in st\<lparr>a_history := h, a_currentCode := code, a_lastModified := Some now\<rparr>)"

definition setBpm :: "string \<Rightarrow> real option \<Rightarrow> app_state \<Rightarrow> app_state" where
  "setBpm now bpm st = st\<lparr>a_currentBpm := bpm, a_lastModified := Some now\<rparr>"

definition setPlaying :: "bool \<Rightarrow> app_state \<Rightarrow> app_state" where
  "setPlaying playing st = st\<lparr>a_isPlaying := playing\<rparr>"

definition undo :: "app_state \<Rightarrow> string option \<times> app_state" where
  "undo st =
     (if a_history st = [] then (None, st)
      else (Some (last (a_history st)), st\<lparr>a_history := butlast (a_history st)\<rparr>))"

definition clearHistory :: "app_state \<Rightarrow> app_state" where
  "clearHistory st = st\<lparr>a_history := []\<rparr>"

definition resetState :: "string option \<Rightarrow> app_state \<Rightarrow> app_state" where
  "resetState env st = init_state env"

text \<open>
  The getters.  \<^verbatim>\<open>getState\<close> returns the copy \<^verbatim>\<open>{...state}\<close> and
  \<^verbatim>\<open>getHistory\<close> the copy \<^verbatim>\<open>[...state.history]\<close>; values have no identity here,
  so a copy is the value itself.
\<close>

definition getState :: "app_state \<Rightarrow> app_state" where
  "getState st = st"

definition getCurrentCode_state :: "app_state \<Rightarrow> string" where
  "getCurrentCode_state st = a_currentCode st"

definition getCurrentBpm :: "app_state \<Rightarrow> real option" where
  "getCurrentBpm st = a_currentBpm st"

definition getIsPlaying :: "app_state \<Rightarrow> bool" where
  "getIsPlaying st = a_isPlaying st"

definition getHistory :: "app_state \<Rightarrow> string list" where
  "getHistory st = a_history st"

definition getLastModified :: "app_state \<Rightarrow> string option" where
  "getLastModified st = a_lastModified st"

datatype state_op =
    SetCode string string
  | SetBpm string "real option"
  | SetPlaying bool
  | Undo
  | ClearHistory
  | ResetState

fun state_step :: "string option \<Rightarrow> state_op \<Rightarrow> app_state \<Rightarrow> app_state" where
  "state_step d (SetCode now c) st = setCode now c st"
| "state_step d (SetBpm now b) st = setBpm now b st"
| "state_step d (SetPlaying b) st = setPlaying b st"
| "state_step d Undo st = snd (undo st)"
| "state_step d ClearHistory st = clearHistory st"
| "state_step d ResetState st = resetState d st"

definition state_run :: "string option \<Rightarrow> state_op list \<Rightarrow> app_state \<Rightarrow> app_state" where
  "state_run d ops st = foldl (\<lambda>s a. state_step d a s) st ops"

text \<open>The last \<open>n\<close> elements of a list, and the codes a run of \<open>setCode\<close> pushes.\<close>

definition lastn :: "nat \<Rightarrow> 'a list \<Rightarrow> 'a list" where
  "lastn n xs = drop (length xs - n) xs"

definition set_codes :: "string \<Rightarrow> string list \<Rightarrow> app_state \<Rightarrow> app_state" where
  "set_codes now codes st = foldl (\<lambda>s c. setCode now c s) st codes"

definition pushed :: "string \<Rightarrow> string list \<Rightarrow> string list" where
  "pushed c0 codes = filter (\<lambda>x. x \<noteq> []) (butlast (c0 # codes))"

lemmas state_getters [simp] = getState_def getCurrentCode_state_def getCurrentBpm_def getIsPlaying_def
  getHistory_def getLastModified_def

lemma lastn_append_lastn: "lastn n (lastn n xs @ ys) = lastn n (xs @ ys)"
proof (cases "length xs \<le> n")
  case True
  then show ?thesis by (simp add: lastn_def)
next
  case False
  then have "drop (length xs - n) xs @ ys = drop (length xs - n) (xs @ ys)" by simp
  with False show ?thesis by (simp add: lastn_def add.commute)
qed

lemma lastn_short: "length xs \<le> n \<Longrightarrow> lastn n xs = xs"
  by (simp add: lastn_def)

lemma length_lastn: "length (lastn n xs) = min n (length xs)"
  by (simp add: lastn_def)

lemma setCode_history:
  assumes "length (a_history st) \<le> history_limit"
  shows "a_history (setCode now code st) =
       lastn history_limit (a_history st @ filter (\<lambda>x. x \<noteq> []) [a_currentCode st])"
proof (cases "a_currentCode st = []")
  case True
  then show ?thesis using assms by (simp add: setCode_def lastn_short)
next
  case False
  show ?thesis
  proof (cases "length (a_history st) = history_limit")
    case True
    then have "a_history st \<noteq> []" by (cases "a_history st") (auto simp: history_limit_def)
    with True False show ?thesis by (simp add: setCode_def Let_def lastn_def drop_Suc history_limit_def)
  next
    case c: False
    with assms False show ?thesis by (simp add: setCode_def Let_def lastn_short)
  qed
qed

lemma setCode_current [simp]: "a_currentCode (setCode now code st) = code"
  by (simp add: setCode_def Let_def)

lemma setCode_bound: "length (a_history st) \<le> history_limit \<Longrightarrow> length (a_history (setCode now c st)) \<le> history_limit"
  by (simp add: setCode_history length_lastn)

lemma state_step_bound:
  "length (a_history st) \<le> history_limit \<Longrightarrow> length (a_history (state_step d a st)) \<le> history_limit"
  by (cases a) (auto simp: setCode_bound setBpm_def setPlaying_def undo_def clearHistory_def
                           resetState_def init_state_def)

text \<open>
  C24 (history bound).  From the initial state, after any sequence of the state
  operations the history holds at most 50 earlier codes.
\<close>

theorem history_bounded:
  "length (a_history (state_run d ops (init_state d))) \<le> 50"
proof -
  have "length (a_history (foldl (\<lambda>s a. state_step d a s) st ops)) \<le> history_limit"
    if "length (a_history st) \<le> history_limit" for st
    using that by (induction ops arbitrary: st) (simp_all add: state_step_bound)
  then show ?thesis by (simp add: state_run_def init_state_def history_limit_def)
qed

lemma set_codes_Cons: "set_codes now (c # cs) st = set_codes now cs (setCode now c st)"
  by (simp add: set_codes_def)

lemma pushed_Cons: "pushed c0 (c1 # cs) = filter (\<lambda>x. x \<noteq> []) [c0] @ pushed c1 cs"
  by (simp add: pushed_def)

text \<open>
  C25 (history refinement).  A run of \<^verbatim>\<open>setCode\<close> calls keeps as history exactly the
  last 50 entries of the unbounded history: the earlier current codes, in order,
  with the empty ones skipped, appended to the history already held.
\<close>

theorem history_refines_unbounded:
  assumes "length (a_history st) \<le> 50"
  shows "a_history (set_codes now codes st) = lastn 50 (a_history st @ pushed (a_currentCode st) codes)"
  using assms
proof (induction codes arbitrary: st)
  case Nil
  then show ?case by (simp add: set_codes_def pushed_def lastn_short)
next
  case (Cons c cs)
  let ?st1 = "setCode now c st"
  have h1: "a_history ?st1 = lastn 50 (a_history st @ filter (\<lambda>x. x \<noteq> []) [a_currentCode st])"
    using Cons.prems setCode_history [of st now c] by (simp add: history_limit_def)
  have "length (a_history ?st1) \<le> 50" by (simp add: h1 length_lastn)
  then have "a_history (set_codes now cs ?st1) = lastn 50 (a_history ?st1 @ pushed c cs)"
    using Cons.IH [of ?st1] by simp
  then show ?case
    by (simp add: set_codes_Cons h1 lastn_append_lastn pushed_Cons)
qed

text \<open>
  C26 (undo).  After \<^verbatim>\<open>setCode\<close> replaced a non-empty code while the history had
  room, \<^verbatim>\<open>undo()\<close> returns the replaced code and restores the history; the current
  code is not restored.
\<close>

theorem undo_after_setCode:
  "a_currentCode st \<noteq> [] \<Longrightarrow> length (a_history st) < 50 \<Longrightarrow>
     fst (undo (setCode now code st)) = Some (a_currentCode st) \<and>
     a_history (snd (undo (setCode now code st))) = a_history st \<and>
     a_currentCode (snd (undo (setCode now code st))) = code"
  by (simp add: undo_def setCode_def Let_def history_limit_def)

end
