(* ===== verification/Control.thy ===== *)
theory Control
  imports Bridge State
begin

text \<open>
  The playback-control tool, \<^verbatim>\<open>src/src/tools/control.js\<close>: each operation awaits
  one bridge command and, once it resolved, mirrors the outcome into the application
  state of \<^verbatim>\<open>state.js\<close>; a rejection is re-thrown unchanged, before the state is
  touched.  The program state is the pair of the browser session and the application
  state (\<open>app\<close>, and any extension of it); \<open>on_sys\<close> runs a bridge command on its first half, \<open>on_state\<close>
  updates the second.  The tempo message renders a JavaScript number, passed as
  \<open>num_str\<close> (\<^verbatim>\<open>Number.prototype.toString\<close>); the clock is the parameter
  \<open>now\<close>.  The \<^verbatim>\<open>debug\<close> logging is not modelled.
\<close>

record app =
  app_sys :: sys
  app_st :: app_state

datatype control_result =
    ControlPlayback bool bool string
  | ControlTempo bool real real string
  | ControlCurrent bool string "real option" bool "string option"

definition on_sys :: "(sys, 'a) exc \<Rightarrow> ('z app_scheme, 'a) exc" where
  "on_sys m = (\<lambda>a. case m (app_sys a) of (r, s') \<Rightarrow> (r, a\<lparr>app_sys := s'\<rparr>))"

definition on_state :: "(app_state \<Rightarrow> app_state) \<Rightarrow> ('z app_scheme, unit) exc" where
  "on_state f = modifyE (\<lambda>a. a\<lparr>app_st := f (app_st a)\<rparr>)"

definition stop :: "config \<Rightarrow> ('z app_scheme, control_result) exc" where
  "stop cfg =
     catchE
       (bindE (on_sys (stopPlayback cfg)) (\<lambda>_.
        bindE (on_state (setPlaying False)) (\<lambda>_.
        returnE (ControlPlayback True False ''Playback stopped''))))
       (\<lambda>e. throwE e)"

definition start :: "config \<Rightarrow> ('z app_scheme, control_result) exc" where
  "start cfg =
     catchE
       (bindE (on_sys (startPlayback cfg)) (\<lambda>_.
        bindE (on_state (setPlaying True)) (\<lambda>_.
        returnE (ControlPlayback True True ''Playback started''))))
       (\<lambda>e. throwE e)"

definition control_setTempo ::
  "(real \<Rightarrow> string) \<Rightarrow> config \<Rightarrow> string \<Rightarrow> real \<Rightarrow> ('z app_scheme, control_result) exc" where
  "control_setTempo num_str cfg now bpm =
     catchE
       (bindE (on_sys (Bridge.setTempo cfg bpm)) (\<lambda>result.
        bindE (on_state (setBpm now (Some bpm))) (\<lambda>_.
        returnE (ControlTempo True bpm
                   (case result of TempoResult _ _ cps \<Rightarrow> cps | _ \<Rightarrow> 0)
                   (''Tempo set to '' @ num_str bpm @ '' BPM'')))))
       (\<lambda>e. throwE e)"

definition getCurrent :: "('z app_scheme, control_result) exc" where
  "getCurrent =
     catchE
       (getsE (\<lambda>a. let st = getState (app_st a) in
          ControlCurrent True (a_currentCode st) (a_currentBpm st) (a_isPlaying st)
            (a_lastModified st)))
       (\<lambda>e. throwE e)"

lemmas control_defs [model_defs] = stop_def start_def control_setTempo_def getCurrent_def

lemma on_sys_run [simp, exc_simps]:
  "on_sys m a = (case m (app_sys a) of (r, s') \<Rightarrow> (r, a\<lparr>app_sys := s'\<rparr>))"
  by (simp add: on_sys_def)

lemma on_state_run [simp, exc_simps]: "on_state f a = (Inr (), a\<lparr>app_st := f (app_st a)\<rparr>)"
  by (simp add: on_state_def)

lemma catchE_rethrow [simp]: "catchE m (\<lambda>e. throwE e) = m"
  by (rule ext) (simp split: prod.splits sum.splits)

text \<open>
  How \<^verbatim>\<open>stop()\<close>, \<^verbatim>\<open>start()\<close> and \<^verbatim>\<open>setTempo(bpm)\<close> run, in terms of their
  bridge command: a rejection reaches the caller with the application state untouched.
\<close>

lemma control_runs:
  "stop cfg a =
     (case stopPlayback cfg (app_sys a) of
        (Inl e, s') \<Rightarrow> (Inl e, a\<lparr>app_sys := s'\<rparr>)
      | (Inr _, s') \<Rightarrow> (Inr (ControlPlayback True False ''Playback stopped''),
                       a\<lparr>app_sys := s', app_st := setPlaying False (app_st a)\<rparr>)) \<and>
   start cfg a =
     (case startPlayback cfg (app_sys a) of
        (Inl e, s') \<Rightarrow> (Inl e, a\<lparr>app_sys := s'\<rparr>)
      | (Inr _, s') \<Rightarrow> (Inr (ControlPlayback True True ''Playback started''),
                       a\<lparr>app_sys := s', app_st := setPlaying True (app_st a)\<rparr>)) \<and>
   control_setTempo num_str cfg now bpm a =
     (case Bridge.setTempo cfg bpm (app_sys a) of
        (Inl e, s') \<Rightarrow> (Inl e, a\<lparr>app_sys := s'\<rparr>)
      | (Inr r, s') \<Rightarrow>
          (Inr (ControlTempo True bpm (case r of TempoResult _ _ cps \<Rightarrow> cps | _ \<Rightarrow> 0)
                  (''Tempo set to '' @ num_str bpm @ '' BPM'')),
           a\<lparr>app_sys := s', app_st := setBpm now (Some bpm) (app_st a)\<rparr>))"
  by (simp add: stop_def start_def control_setTempo_def split: prod.splits sum.splits)

text \<open>
  Tempo end to end.  On a held, live page the control tool's \<^verbatim>\<open>setTempo(bpm)\<close>
  resolves with \<open>cps = bpm / 60 / 4\<close>, records the tempo and the time in the
  application state and leaves the history alone.
\<close>

theorem setTempo_records_bpm:
  assumes "s_page (app_sys a) = Some p" "page_live (s_world (app_sys a)) p"
  shows "\<exists>a'. control_setTempo num_str cfg now bpm a =
            (Inr (ControlTempo True bpm (bpm / 60 / 4) (''Tempo set to '' @ num_str bpm @ '' BPM'')), a') \<and>
          a_currentBpm (app_st a') = Some bpm \<and> a_lastModified (app_st a') = Some now \<and>
          a_history (app_st a') = a_history (app_st a)"
  using assms
  by (simp add: control_setTempo_def Bridge.setTempo_def getPage_held world_defs setcps_fn_def
                Let_def setBpm_def)

end
