(* ===== verification/PatternFile.thy ===== *)
theory PatternFile
  imports JsString
begin

text \<open>
  The pattern-file format of \<^verbatim>\<open>src/src/utils.js\<close>: \<^verbatim>\<open>createPatternFile\<close> writes
  six \<^verbatim>\<open>#\<close> header lines, a blank line and the code; \<^verbatim>\<open>extractMetadata\<close> folds
  over the lines and picks the header fields by prefix; \<^verbatim>\<open>extractCode\<close> keeps the
  lines that are neither comments nor blank.  A tempo is a JavaScript number that may
  be \<^verbatim>\<open>NaN\<close>: \<open>real option\<close>, \<open>None\<close> for \<^verbatim>\<open>NaN\<close>; its rendering in a
  template literal is the parameter \<open>num_str\<close> (\<^verbatim>\<open>Number.prototype.toString\<close>),
  about which the theorems assume only that it prints integers in decimal.
  \<^verbatim>\<open>formatCode\<close>, which nothing calls, is not modelled.
\<close>

record metadata =
  md_name :: string
  md_created :: string
  md_modified :: string
  md_bpm :: "real option"
  md_description :: string
  md_tags :: "string list"

definition default_metadata :: metadata where
  "default_metadata =
     \<lparr>md_name = [], md_created = [], md_modified = [], md_bpm = Some 120, md_description = [],
      md_tags = []\<rparr>"

text \<open>\<^verbatim>\<open>line.substring(prefix.length).trim()\<close>.\<close>

definition field_after :: "string \<Rightarrow> string \<Rightarrow> string" where
  "field_after p line = trim (drop (length p) line)"

definition meta_line :: "metadata \<Rightarrow> string \<Rightarrow> metadata" where
  "meta_line md line =
     (if starts_with line ''# Pattern Name:'' then md\<lparr>md_name := field_after ''# Pattern Name:'' line\<rparr>
      else if starts_with line ''# Created:'' then md\<lparr>md_created := field_after ''# Created:'' line\<rparr>
      else if starts_with line ''# Modified:'' then md\<lparr>md_modified := field_after ''# Modified:'' line\<rparr>
      else if starts_with line ''# BPM:'' then
        md\<lparr>md_bpm := map_option of_int (parseInt (field_after ''# BPM:'' line))\<rparr>
      else if starts_with line ''# Description:'' then
        md\<lparr>md_description := field_after ''# Description:'' line\<rparr>
      else if starts_with line ''# Tags:'' then
        md\<lparr>md_tags := map trim (split_on (CHR '','') (field_after ''# Tags:'' line))\<rparr>
      else md)"

definition extractMetadata :: "string \<Rightarrow> metadata" where
  "extractMetadata content = foldl meta_line default_metadata (split_on nl content)"

definition code_line :: "string \<Rightarrow> bool" where
  "code_line line \<longleftrightarrow> \<not> starts_with line ''#'' \<and> trim line \<noteq> []"

definition extractCode :: "string \<Rightarrow> string" where
  "extractCode content = trim (join [nl] (filter code_line (split_on nl content)))"

definition js_num_str :: "(real \<Rightarrow> string) \<Rightarrow> real option \<Rightarrow> string" where
  "js_num_str num_str b = (case b of None \<Rightarrow> ''NaN'' | Some x \<Rightarrow> num_str x)"

definition createPatternFile ::
  "(real \<Rightarrow> string) \<Rightarrow> string \<Rightarrow> string \<Rightarrow> string \<Rightarrow> real option \<Rightarrow> string \<Rightarrow> string list \<Rightarrow> string" where
  "createPatternFile num_str now name code bpm description tags =
     (let tagsStr = join '', '' tags
      in ''# Pattern Name: '' @ name @ [nl] @
         ''# Created: '' @ now @ [nl] @
         ''# Modified: '' @ now @ [nl] @
         ''# BPM: '' @ js_num_str num_str bpm @ [nl] @
         ''# Description: '' @ description @ [nl] @
         ''# Tags: '' @ tagsStr @ [nl] @
         [nl] @ code @ [nl])"

text \<open>The header lines, each without its newline.\<close>

definition header_lines ::
  "(real \<Rightarrow> string) \<Rightarrow> string \<Rightarrow> string \<Rightarrow> real option \<Rightarrow> string \<Rightarrow> string list \<Rightarrow> string list" where
  "header_lines num_str now name bpm description tags =
     [''# Pattern Name: '' @ name, ''# Created: '' @ now, ''# Modified: '' @ now,
      ''# BPM: '' @ js_num_str num_str bpm, ''# Description: '' @ description,
      ''# Tags: '' @ join '', '' tags]"

lemma split_on_concat_lines:
  "\<forall>l \<in> set ls. nl \<notin> set l \<Longrightarrow> split_on nl (concat (map (\<lambda>l. l @ [nl]) ls) @ rest) = ls @ split_on nl rest"
  by (induction ls) (simp_all add: split_on_append_sep split_on_no_sep)

lemma createPatternFile_lines:
  "createPatternFile num_str now name code bpm description tags =
     concat (map (\<lambda>l. l @ [nl]) (header_lines num_str now name bpm description tags @ [[]])) @ code @ [nl]"
  by (simp add: createPatternFile_def header_lines_def Let_def)

lemma header_lines_no_nl:
  "nl \<notin> set name \<Longrightarrow> nl \<notin> set now \<Longrightarrow> nl \<notin> set (js_num_str num_str bpm) \<Longrightarrow>
   nl \<notin> set description \<Longrightarrow> nl \<notin> set (join '', '' tags) \<Longrightarrow>
   \<forall>l \<in> set (header_lines num_str now name bpm description tags). nl \<notin> set l"
  by (simp add: header_lines_def)

lemma split_createPatternFile:
  assumes "\<forall>l \<in> set (header_lines num_str now name bpm description tags). nl \<notin> set l"
  shows "split_on nl (createPatternFile num_str now name code bpm description tags) =
           header_lines num_str now name bpm description tags @ [[]] @ split_on nl code @ [[]]"
proof -
  have "split_on nl (code @ [nl]) = split_on nl code @ [[]]"
    using split_on_append_sep [of nl code "[]"] by simp
  with assms show ?thesis
    by (simp add: createPatternFile_lines split_on_concat_lines)
qed

lemma header_not_code: "\<not> code_line l" if "l \<in> set (header_lines num_str now name bpm description tags)"
  using that by (auto simp: header_lines_def code_line_def)

lemma filter_header_lines:
  "filter code_line (header_lines num_str now name bpm description tags) = []"
  using header_not_code [of _ num_str now name bpm description tags] by (simp add: filter_empty_conv)

lemma code_line_Nil [simp]: "\<not> code_line []"
  by (simp add: code_line_def trim_def)

lemma code_line_hash: "\<not> code_line (CHR ''#'' # l)"
  by (simp add: code_line_def)

lemma extractCode_file:
  assumes "\<forall>l \<in> set (header_lines num_str now name bpm description tags). nl \<notin> set l"
  shows "extractCode (createPatternFile num_str now name code bpm description tags) = extractCode code"
  using assms by (simp add: extractCode_def split_createPatternFile filter_header_lines)

lemma meta_line_other: "\<not> starts_with l ''#'' \<Longrightarrow> meta_line md l = md"
  by (auto simp: meta_line_def prefix_def)

lemma foldl_meta_other:
  "\<forall>l \<in> set ls. \<not> starts_with l ''#'' \<Longrightarrow> foldl meta_line md ls = md"
  by (induction ls) (simp_all add: meta_line_other)

lemma tags_field:
  assumes "tags \<noteq> []" "\<forall>t \<in> set tags. t \<noteq> [] \<and> trimmed t \<and> CHR '','' \<notin> set t"
  shows "map trim (split_on (CHR '','') (trim (join '', '' tags))) = tags"
proof -
  have hd: "hd tags \<noteq> []" "trimmed (hd tags)" and lst: "last tags \<noteq> []" "trimmed (last tags)"
    using assms by auto
  then have "trimmed (join '', '' tags)"
    using assms(1) hd_join [of tags] last_join [of tags] join_nonempty [of tags]
    by (auto simp: trimmed_def)
  then have f: "trim (join '', '' tags) = join [CHR '','', CHR '' ''] tags"
    by (simp add: trim_trimmed)
  have sp: "split_on (CHR '','') (join [CHR '','', CHR '' ''] tags) = hd tags # map (Cons (CHR '' '')) (tl tags)"
    using split_on_join_sep [of tags "CHR '',''" "CHR '' ''"] assms by auto
  have "trim (CHR '' '' # t) = t" if "t \<in> set (tl tags)" for t
    using that assms list.set_sel(2) [OF assms(1)] by (auto simp: trim_ws_Cons is_ws_def trim_trimmed)
  then have "map trim (map (Cons (CHR '' '')) (tl tags)) = tl tags"
    by (simp add: map_idI)
  then show ?thesis
    unfolding f sp using assms(1) hd(2) by (cases tags) (simp_all add: trim_trimmed)
qed

lemma foldl_header_lines:
  "foldl meta_line md (header_lines num_str now name bpm description tags) =
     md\<lparr>md_name := trim name, md_created := trim now, md_modified := trim now,
        md_bpm := map_option of_int (parseInt (trim (js_num_str num_str bpm))),
        md_description := trim description,
        md_tags := map trim (split_on (CHR '','') (trim (join '', '' tags)))\<rparr>"
  by (simp add: header_lines_def meta_line_def field_after_def trim_ws_Cons is_ws_def)

lemma code_lines_not_header:
  "\<forall>l \<in> set (split_on nl code). \<not> starts_with l ''#'' \<Longrightarrow>
   \<forall>l \<in> set ([[]] @ split_on nl code @ [[]]). \<not> starts_with l ''#''"
  by simp

lemma extractMetadata_file:
  assumes "\<forall>l \<in> set (header_lines num_str now name bpm description tags). nl \<notin> set l"
    "\<forall>l \<in> set (split_on nl code). \<not> starts_with l ''#''"
  shows "extractMetadata (createPatternFile num_str now name code bpm description tags) =
     default_metadata\<lparr>md_name := trim name, md_created := trim now, md_modified := trim now,
        md_bpm := map_option of_int (parseInt (trim (js_num_str num_str bpm))),
        md_description := trim description,
        md_tags := map trim (split_on (CHR '','') (trim (join '', '' tags)))\<rparr>"
proof -
  have "extractMetadata (createPatternFile num_str now name code bpm description tags) =
      foldl meta_line (foldl meta_line default_metadata (header_lines num_str now name bpm description tags))
        ([[]] @ split_on nl code @ [[]])"
    using assms(1) by (simp add: extractMetadata_def split_createPatternFile del: append.simps)
  also have "\<dots> = foldl meta_line default_metadata (header_lines num_str now name bpm description tags)"
    by (rule foldl_meta_other [OF code_lines_not_header [OF assms(2)]])
  finally show ?thesis by (simp only: foldl_header_lines)
qed

lemma header_lines_clean:
  assumes "nl \<notin> set name" "nl \<notin> set now" "nl \<notin> set (js_num_str num_str bpm)"
    "nl \<notin> set description" "\<forall>t \<in> set tags. nl \<notin> set t"
  shows "\<forall>l \<in> set (header_lines num_str now name bpm description tags). nl \<notin> set l"
proof -
  have "nl \<notin> set (join '', '' tags)" using assms(5) set_join [of "'', ''" tags] by auto
  with assms show ?thesis by (simp add: header_lines_def)
qed

lemma extractCode_clean:
  assumes "\<forall>l \<in> set (split_on nl code). code_line l" "trimmed code"
  shows "extractCode code = code"
proof -
  have "filter code_line (split_on nl code) = split_on nl code" using assms(1) by simp
  then show ?thesis using assms(2) by (simp add: extractCode_def join_split_on trim_trimmed)
qed

lemma show_int_trimmed: "trim (show_int i) = show_int i"
  using show_int_no_ws [of _ i] by (simp add: trim_trimmed trimmed_no_ws)

text \<open>
  C31 (code round trip).  When no header field contains a newline, the code read back
  from a created pattern file by \<^verbatim>\<open>extractCode\<close> is exactly the code written,
  provided every line of it is a non-blank line not starting with \<^verbatim>\<open>#\<close> and it
  has no white space at either end.
\<close>

theorem extractCode_roundtrip:
  assumes "nl \<notin> set name" "nl \<notin> set now" "nl \<notin> set (js_num_str num_str bpm)"
    "nl \<notin> set description" "\<forall>t \<in> set tags. nl \<notin> set t"
    "\<forall>l \<in> set (split_on nl code). code_line l" "trimmed code"
  shows "extractCode (createPatternFile num_str now name code bpm description tags) = code"
  using extractCode_file [OF header_lines_clean [OF assms(1-5)]] extractCode_clean [OF assms(6,7)]
  by simp

text \<open>
  C32 (metadata round trip).  For trimmed single-line name, timestamp and description,
  an integral tempo printed in decimal, and a non-empty list of non-empty trimmed tags
  without commas, \<^verbatim>\<open>extractMetadata\<close> of the created file gives back every field,
  provided no code line starts with \<^verbatim>\<open>#\<close>.
\<close>

theorem extractMetadata_roundtrip:
  assumes "trimmed name" "nl \<notin> set name" "trimmed now" "nl \<notin> set now"
    "trimmed description" "nl \<notin> set description"
    "tags \<noteq> []" "\<forall>t \<in> set tags. t \<noteq> [] \<and> trimmed t \<and> CHR '','' \<notin> set t \<and> nl \<notin> set t"
    "num_str (of_int i) = show_int i"
    "\<forall>l \<in> set (split_on nl code). \<not> starts_with l ''#''"
  shows "extractMetadata (createPatternFile num_str now name code (Some (of_int i)) description tags) =
     \<lparr>md_name = name, md_created = now, md_modified = now, md_bpm = Some (of_int i),
      md_description = description, md_tags = tags\<rparr>"
proof -
  have b: "js_num_str num_str (Some (of_int i)) = show_int i" by (simp add: js_num_str_def assms(9))
  have "nl \<notin> set (show_int i)" using show_int_no_ws by blast
  then have h: "\<forall>l \<in> set (header_lines num_str now name (Some (of_int i)) description tags). nl \<notin> set l"
    using header_lines_clean [of name now num_str "Some (of_int i)" description tags] assms b by auto
  have t: "map trim (split_on (CHR '','') (trim (join '', '' tags))) = tags"
    using tags_field [OF assms(7)] assms(8) by auto
  show ?thesis
    using extractMetadata_file [OF h assms(10)] assms(1,3,5)
    by (simp add: b t show_int_trimmed parseInt_show_int trim_trimmed default_metadata_def)
qed

text \<open>
  C33 (what the header loses).  Two fields of a created file do not read back as written.
  A pattern saved with no tags reads back with one empty tag: \<^verbatim>\<open>[].join(', ')\<close>
  is the empty string, and \<^verbatim>\<open>''.split(',')\<close> is \<^verbatim>\<open>['']\<close>.  When the tempo
  prints as an integer part, a point and decimal digits (as \<^verbatim>\<open>120.5\<close> does), the
  tempo read back is the integer part: \<^verbatim>\<open>parseInt\<close> stops at the point.
\<close>

theorem extractMetadata_lossy:
  assumes "\<forall>l \<in> set (header_lines num_str now name bpm description tags). nl \<notin> set l"
    "\<forall>l \<in> set (split_on nl code). \<not> starts_with l ''#''"
  shows "(tags = [] \<longrightarrow>
            md_tags (extractMetadata (createPatternFile num_str now name code bpm description tags)) = [[]]) \<and>
         (js_num_str num_str bpm = show_int i @ CHR ''.'' # ds \<and> set ds \<subseteq> set digit_chars \<longrightarrow>
            md_bpm (extractMetadata (createPatternFile num_str now name code bpm description tags)) =
              Some (of_int i))"
proof (intro conjI impI)
  assume "tags = []"
  then show "md_tags (extractMetadata (createPatternFile num_str now name code bpm description tags)) = [[]]"
    using extractMetadata_file [OF assms] by (simp add: trim_def)
next
  assume "js_num_str num_str bpm = show_int i @ CHR ''.'' # ds \<and> set ds \<subseteq> set digit_chars"
  then have num: "js_num_str num_str bpm = show_int i @ CHR ''.'' # ds" "set ds \<subseteq> set digit_chars"
    by simp_all
  have "\<forall>c \<in> set (js_num_str num_str bpm). \<not> is_ws c"
    using num show_int_no_ws [of _ i] by (auto simp: is_ws_def digit_chars_def)
  then have "trim (js_num_str num_str bpm) = js_num_str num_str bpm"
    by (simp add: trim_trimmed trimmed_no_ws)
  moreover have "parseInt (show_int i @ CHR ''.'' # ds) = Some i"
    by (rule parseInt_show_int_append) (simp add: digits_end_def digit_chars_def)
  ultimately show "md_bpm (extractMetadata (createPatternFile num_str now name code bpm description tags)) =
      Some (of_int i)"
    using extractMetadata_file [OF assms] num(1) by simp
qed

text \<open>
  C38 (description becomes code).  A description containing a newline ends its header
  line early: the text after the newline is an ordinary line of the file, and
  \<^verbatim>\<open>extractCode\<close> returns it in front of the saved code, so loading the pattern
  evaluates it.
\<close>

theorem description_newline_injects_code:
  assumes "nl \<notin> set name" "nl \<notin> set now" "nl \<notin> set (js_num_str num_str bpm)"
    "nl \<notin> set d1" "nl \<notin> set d2" "\<forall>t \<in> set tags. nl \<notin> set t"
  shows "extractCode (createPatternFile num_str now name code bpm (d1 @ nl # d2) tags) =
           extractCode (d2 @ nl # code)"
proof -
  let ?L = "[''# Pattern Name: '' @ name, ''# Created: '' @ now, ''# Modified: '' @ now,
            ''# BPM: '' @ js_num_str num_str bpm, ''# Description: '' @ d1, d2, ''# Tags: '' @ join '', '' tags, []]"
  have cf: "createPatternFile num_str now name code bpm (d1 @ nl # d2) tags =
                concat (map (\<lambda>l. l @ [nl]) ?L) @ code @ [nl]"
    by (simp add: createPatternFile_def Let_def)
  have "nl \<notin> set (join '', '' tags)" using assms(6) set_join [of "'', ''" tags] by auto
  then have "\<forall>l \<in> set ?L. nl \<notin> set l" using assms(1-5) by simp
  then have "split_on nl (concat (map (\<lambda>l. l @ [nl]) ?L) @ code @ [nl]) = ?L @ split_on nl (code @ [nl])"
    by (rule split_on_concat_lines)
  then have "split_on nl (createPatternFile num_str now name code bpm (d1 @ nl # d2) tags) =
               ?L @ split_on nl code @ [[]]"
    unfolding cf using split_on_append_sep [of nl code "[]"] by simp
  moreover have "split_on nl (d2 @ nl # code) = [d2] @ split_on nl code"
    using assms(5) by (simp add: split_on_append_sep split_on_no_sep)
  ultimately show ?thesis by (simp add: extractCode_def code_line_hash)
qed

end
