(* ===== verification/FileSystem.thy ===== *)
theory FileSystem
  imports Prelude "HOL-Library.AList"
begin

text \<open>
  The part of Node's \<^verbatim>\<open>fs.promises\<close> that the persistence tool calls, on the one
  directory it uses.  This is the environment of \<^verbatim>\<open>src/src/tools/persistence.js\<close>,
  not code of the repository, and is not mapped.  The directory is a flag (it exists
  or not), an association list from file names to contents in
  \<^verbatim>\<open>readdir\<close> order (unspecified by Node; new files are appended here), and the
  names of the subdirectories it holds, which \<^verbatim>\<open>readdir\<close> lists after the files and
  on which \<^verbatim>\<open>readFile\<close>, \<^verbatim>\<open>writeFile\<close> and \<^verbatim>\<open>unlink\<close> fail with
  \<^verbatim>\<open>EISDIR\<close> (Linux); whether the file system accepts writes is a flag, whose failure
  is \<^verbatim>\<open>EACCES\<close>.  A failing
  call rejects with a system error carrying its \<^verbatim>\<open>code\<close>, and a message in Node's
  format \<^verbatim>\<open>CODE: description, syscall 'path'\<close>.
\<close>

record fsys =
  fs_dir :: bool
  fs_writable :: bool
  fs_files :: "(string \<times> string) list"
  fs_subdirs :: "string list"

definition sq :: "string \<Rightarrow> string" where
  "sq s = [CHR 0x27] @ s @ [CHR 0x27]"

definition enoent :: "string \<Rightarrow> string \<Rightarrow> js_error" where
  "enoent call path = SysError ''ENOENT'' (''ENOENT: no such file or directory, '' @ call @ '' '' @ sq path)"

definition eacces :: "string \<Rightarrow> string \<Rightarrow> js_error" where
  "eacces call path = SysError ''EACCES'' (''EACCES: permission denied, '' @ call @ '' '' @ sq path)"

definition eisdir :: "string \<Rightarrow> js_error" where
  "eisdir call = SysError ''EISDIR'' (''EISDIR: illegal operation on a directory, '' @ call)"

definition path_join :: "string \<Rightarrow> string \<Rightarrow> string" where
  "path_join dir name = dir @ ''/'' @ name"

definition fs_access :: "string \<Rightarrow> (fsys, unit) exc" where
  "fs_access dir fs = (if fs_dir fs then (Inr (), fs) else (Inl (enoent ''access'' dir), fs))"

definition fs_mkdir :: "string \<Rightarrow> (fsys, unit) exc" where
  "fs_mkdir dir fs =
     (if fs_dir fs then (Inr (), fs)
      else if fs_writable fs then (Inr (), fs\<lparr>fs_dir := True\<rparr>)
      else (Inl (eacces ''mkdir'' dir), fs))"

definition fs_writeFile :: "string \<Rightarrow> string \<Rightarrow> string \<Rightarrow> (fsys, unit) exc" where
  "fs_writeFile dir name content fs =
     (if \<not> fs_dir fs then (Inl (enoent ''open'' (path_join dir name)), fs)
      else if name \<in> set (fs_subdirs fs) then (Inl (eisdir (''open '' @ sq (path_join dir name))), fs)
      else if \<not> fs_writable fs then (Inl (eacces ''open'' (path_join dir name)), fs)
      else (Inr (), fs\<lparr>fs_files := AList.update name content (fs_files fs)\<rparr>))"

definition fs_readFile :: "string \<Rightarrow> string \<Rightarrow> (fsys, string) exc" where
  "fs_readFile dir name fs =
     (case (if fs_dir fs then map_of (fs_files fs) name else None) of
        Some c \<Rightarrow> (Inr c, fs)
      | None \<Rightarrow>
          if fs_dir fs \<and> name \<in> set (fs_subdirs fs) then (Inl (eisdir ''read''), fs)
          else (Inl (enoent ''open'' (path_join dir name)), fs))"

definition fs_readdir :: "string \<Rightarrow> (fsys, string list) exc" where
  "fs_readdir dir fs =
     (if fs_dir fs then (Inr (map fst (fs_files fs) @ fs_subdirs fs), fs) else (Inl (enoent ''scandir'' dir), fs))"

definition fs_unlink :: "string \<Rightarrow> string \<Rightarrow> (fsys, unit) exc" where
  "fs_unlink dir name fs =
     (if fs_dir fs \<and> name \<in> set (fs_subdirs fs) then (Inl (eisdir (''unlink '' @ sq (path_join dir name))), fs)
      else if \<not> fs_dir fs \<or> map_of (fs_files fs) name = None then (Inl (enoent ''unlink'' (path_join dir name)), fs)
      else if \<not> fs_writable fs then (Inl (eacces ''unlink'' (path_join dir name)), fs)
      else (Inr (), fs\<lparr>fs_files := AList.delete name (fs_files fs)\<rparr>))"

text \<open>The names \<^verbatim>\<open>readdir\<close> lists are distinct: a name is a file or a directory, once.\<close>

definition fs_names_distinct :: "fsys \<Rightarrow> bool" where
  "fs_names_distinct fs \<longleftrightarrow> distinct (map fst (fs_files fs) @ fs_subdirs fs)"

lemmas fs_defs [model_defs] = fs_access_def fs_mkdir_def fs_writeFile_def fs_readFile_def
  fs_readdir_def fs_unlink_def

lemma fs_write_read:
  "fs_writeFile dir name content fs = (Inr (), fs') \<Longrightarrow> fs_readFile dir name fs' = (Inr content, fs')"
  by (auto simp: fs_writeFile_def fs_readFile_def update_conv' split: if_splits)

lemma fs_unlink_read:
  "fs_unlink dir name fs = (Inr (), fs') \<Longrightarrow> fst (fs_readFile dir name fs') = Inl (enoent ''open'' (path_join dir name))"
  by (auto simp: fs_unlink_def fs_readFile_def delete_conv' split: if_splits)

lemma enoent_code [simp]: "err_code (enoent call path) = Some ''ENOENT''"
  by (simp add: enoent_def)

lemma fs_names_update:
  "fs_names_distinct fs \<Longrightarrow> k \<notin> set (fs_subdirs fs) \<Longrightarrow>
   fs_names_distinct (fs\<lparr>fs_files := AList.update k v (fs_files fs)\<rparr>)"
  by (auto simp: fs_names_distinct_def distinct_update dom_update)

lemma fs_names_delete:
  "fs_names_distinct fs \<Longrightarrow> fs_names_distinct (fs\<lparr>fs_files := AList.delete k (fs_files fs)\<rparr>)"
  by (auto simp: fs_names_distinct_def delete_keys distinct_removeAll)

lemma fs_names_dir [simp]: "fs_names_distinct (fs\<lparr>fs_dir := b\<rparr>) = fs_names_distinct fs"
  by (simp add: fs_names_distinct_def)

lemma fs_ops_names_distinct:
  assumes "fs_names_distinct fs"
  shows "fs_names_distinct (snd (fs_access dir fs))" "fs_names_distinct (snd (fs_mkdir dir fs))"
    "fs_names_distinct (snd (fs_readFile dir n fs))" "fs_names_distinct (snd (fs_readdir dir fs))"
    "fs_names_distinct (snd (fs_writeFile dir n c fs))" "fs_names_distinct (snd (fs_unlink dir n fs))"
  using assms by (simp_all add: fs_defs fs_names_update fs_names_delete split: option.splits)

lemma eisdir_code [simp]: "err_code (eisdir call) = Some ''EISDIR''"
  by (simp add: eisdir_def)

lemma eacces_code [simp]: "err_code (eacces call path) = Some ''EACCES''"
  by (simp add: eacces_def)

end
