(* ===== verification/Persistence.thy ===== *)
theory Persistence
  imports Control PatternFile FileSystem "HOL-Library.Multiset"
begin

text \<open>
  The pattern persistence tool, \<^verbatim>\<open>src/src/tools/persistence.js\<close>: save the current
  pattern to \<^verbatim>\<open><name>.strudel\<close>, load one (which plays it through the bridge and
  records it in the application state), list and delete them.  The program state is
  the application state of \<open>Control\<close> extended with the file system
  (\<open>pstate\<close>); \<open>on_fs\<close> runs a file-system call on it.  \<^verbatim>\<open>PATTERNS_DIR\<close> (resolved
  from the module's location) is the parameter \<open>dir\<close>; the clock, the rendering of
  numbers and \<^verbatim>\<open>Date\<close> parsing in the sort of \<^verbatim>\<open>listPatterns\<close> are parameters.
\<close>

record pstate = app +
  ps_fs :: fsys

datatype pattern_entry =
  PatternEntry (pe_filename: string) (pe_name: string) (pe_created: string) (pe_modified: string)
    (pe_bpm: "real option") (pe_description: string) (pe_tags: "string list")

datatype persist_result =
    SaveResult bool string string string
  | LoadResult bool string string "real option" string "string list" bool string
  | ListResult bool nat "pattern_entry list" string
  | DeleteResult bool string string

definition on_fs :: "(fsys, 'a) exc \<Rightarrow> ('z pstate_scheme, 'a) exc" where
  "on_fs m = (\<lambda>p. case m (ps_fs p) of (r, fs') \<Rightarrow> (r, p\<lparr>ps_fs := fs'\<rparr>))"

text \<open>\<^verbatim>\<open>name.replace(/[^a-z0-9-_]/gi, '-').toLowerCase()\<close>.\<close>

definition safe_char :: "char \<Rightarrow> bool" where
  "safe_char c \<longleftrightarrow>
     c \<in> set (''abcdefghijklmnopqrstuvwxyzABCDEFGHIJKLMNOPQRSTUVWXYZ0123456789-_'')"

definition sanitize :: "string \<Rightarrow> string" where
  "sanitize name = to_lower (map (\<lambda>c. if safe_char c then c else CHR ''-'') name)"

definition pattern_filename :: "string \<Rightarrow> string" where
  "pattern_filename name = sanitize name @ ''.strudel''"

definition ensurePatternsDir :: "string \<Rightarrow> ('z pstate_scheme, unit) exc" where
  "ensurePatternsDir dir = catchE (on_fs (fs_access dir)) (\<lambda>_. on_fs (fs_mkdir dir))"

definition not_found :: "string \<Rightarrow> js_error" where
  "not_found name = Error (''Pattern '' @ [dq] @ name @ [dq] @ '' not found'')"

definition savePattern ::
  "(real \<Rightarrow> string) \<Rightarrow> string \<Rightarrow> string \<Rightarrow> string \<Rightarrow> string \<Rightarrow> string list \<Rightarrow>
   ('z pstate_scheme, persist_result) exc" where
  "savePattern num_str dir now name description tags =
     catchE
       (bindE (ensurePatternsDir dir) (\<lambda>_.
        bindE (getsE (\<lambda>p. getCurrentCode_state (app_st p))) (\<lambda>code.
        if code = [] then throwE (Error ''No active pattern to save'') else
        bindE (getsE (\<lambda>p. getCurrentBpm (app_st p))) (\<lambda>bpm.
        let content = createPatternFile num_str now name code bpm description tags;
            filepath = path_join dir (pattern_filename name)
        in bindE (on_fs (fs_writeFile dir (pattern_filename name) content)) (\<lambda>_.
           returnE (SaveResult True name filepath (''Pattern saved to '' @ filepath)))))))
       (\<lambda>e. throwE e)"

definition loadPattern ::
  "config \<Rightarrow> string \<Rightarrow> string \<Rightarrow> string \<Rightarrow> ('z pstate_scheme, persist_result) exc" where
  "loadPattern cfg dir now name =
     catchE
       (bindE (ensurePatternsDir dir) (\<lambda>_.
        bindE (on_fs (fs_readFile dir (pattern_filename name))) (\<lambda>content.
        let md = extractMetadata content; code = extractCode content
        in if code = [] then throwE (Error ''Pattern file is empty'') else
           bindE (on_sys (executePattern cfg code)) (\<lambda>_.
           bindE (on_state (setCode now code)) (\<lambda>_.
           bindE (on_state (setBpm now (md_bpm md))) (\<lambda>_.
           bindE (on_state (setPlaying True)) (\<lambda>_.
           let shown = (if md_name md \<noteq> [] then md_name md else name)
           in returnE (LoadResult True shown code (md_bpm md) (md_description md) (md_tags md) True
                         (''Pattern '' @ [dq] @ shown @ [dq] @ '' loaded and playing'')))))))))
       (\<lambda>e. if err_code e = Some ''ENOENT'' then throwE (not_found name) else throwE e)"

text \<open>The entry \<^verbatim>\<open>listPatterns\<close> pushes for a file it could read.\<close>

definition pattern_entry_of :: "string \<Rightarrow> string \<Rightarrow> pattern_entry" where
  "pattern_entry_of f content =
     (let md = extractMetadata content
      in PatternEntry f (if md_name md \<noteq> [] then md_name md else replace_first ''.strudel'' [] f)
           (md_created md) (md_modified md) (md_bpm md) (md_description md) (md_tags md))"

text \<open>The \<^verbatim>\<open>for\<close> loop of \<^verbatim>\<open>listPatterns\<close>: a file that cannot be read is skipped.\<close>

fun collect_patterns :: "string \<Rightarrow> string list \<Rightarrow> ('z pstate_scheme, pattern_entry list) exc" where
  "collect_patterns dir [] = returnE []"
| "collect_patterns dir (f # fs) =
     bindE (catchE
              (bindE (on_fs (fs_readFile dir f)) (\<lambda>content. returnE [pattern_entry_of f content]))
              (\<lambda>_. returnE []))
       (\<lambda>e. bindE (collect_patterns dir fs) (\<lambda>rest. returnE (e @ rest)))"

text \<open>
  \<^verbatim>\<open>patterns.sort((a, b) => new Date(b.modified || b.created) - new Date(a.modified || a.created))\<close>:
  a stable sort, newest first; \<open>date_ms\<close> is the time value of \<^verbatim>\<open>new Date(s)\<close>.
\<close>

definition entry_date :: "pattern_entry \<Rightarrow> string" where
  "entry_date e = (if pe_modified e \<noteq> [] then pe_modified e else pe_created e)"

definition listPatterns ::
  "(string \<Rightarrow> real) \<Rightarrow> string \<Rightarrow> ('z pstate_scheme, persist_result) exc" where
  "listPatterns date_ms dir =
     catchE
       (bindE (ensurePatternsDir dir) (\<lambda>_.
        bindE (on_fs (fs_readdir dir)) (\<lambda>files.
        bindE (collect_patterns dir (filter (\<lambda>f. ends_with f ''.strudel'') files)) (\<lambda>patterns.
        let sorted = sort_key (\<lambda>e. - date_ms (entry_date e)) patterns
        in returnE (ListResult True (length sorted) sorted
                      (''Found '' @ show_nat (length sorted) @ '' saved patterns''))))))
       (\<lambda>e. throwE e)"

definition deletePattern :: "string \<Rightarrow> string \<Rightarrow> ('z pstate_scheme, persist_result) exc" where
  "deletePattern dir name =
     catchE
       (bindE (ensurePatternsDir dir) (\<lambda>_.
        bindE (on_fs (fs_unlink dir (pattern_filename name))) (\<lambda>_.
        returnE (DeleteResult True name (''Pattern '' @ [dq] @ name @ [dq] @ '' deleted'')))))
       (\<lambda>e. if err_code e = Some ''ENOENT'' then throwE (not_found name) else throwE e)"

lemmas persistence_defs [model_defs] = ensurePatternsDir_def savePattern_def loadPattern_def
  listPatterns_def deletePattern_def

lemma on_fs_run [simp, exc_simps]:
  "on_fs m p = (case m (ps_fs p) of (r, fs') \<Rightarrow> (r, p\<lparr>ps_fs := fs'\<rparr>))"
  by (simp add: on_fs_def)

lemma ensurePatternsDir_ok:
  "fs_dir (ps_fs p) \<or> fs_writable (ps_fs p) \<Longrightarrow>
   ensurePatternsDir dir p = (Inr (), p\<lparr>ps_fs := (ps_fs p)\<lparr>fs_dir := True\<rparr>\<rparr>)"
  by (auto simp: ensurePatternsDir_def fs_access_def fs_mkdir_def)

lemma savePattern_run:
  assumes "fs_writable (ps_fs p)" "a_currentCode (app_st p) = c" "c \<noteq> []"
    "pattern_filename name \<notin> set (fs_subdirs (ps_fs p))"
  shows "savePattern num_str dir now name description tags p =
    (Inr (SaveResult True name (path_join dir (pattern_filename name))
            (''Pattern saved to '' @ path_join dir (pattern_filename name))),
     p\<lparr>ps_fs := (ps_fs p)\<lparr>fs_dir := True,
        fs_files := AList.update (pattern_filename name)
          (createPatternFile num_str now name c (a_currentBpm (app_st p)) description tags)
          (fs_files (ps_fs p))\<rparr>\<rparr>)"
  using assms by (simp add: savePattern_def ensurePatternsDir_ok fs_writeFile_def Let_def)

lemma code_lines_no_hash:
  "\<forall>l \<in> set (split_on nl c). code_line l \<Longrightarrow> \<forall>l \<in> set (split_on nl c). \<not> starts_with l ''#''"
  by (simp add: code_line_def)

lemma set_code_fn_view:
  "d_editor d \<Longrightarrow> d_view d \<noteq> None \<Longrightarrow> editor_text (snd (set_code_fn code d)) = code"
  by (auto simp: set_code_fn_def editor_text_def cm_replace_whole)

lemma loadPattern_run:
  assumes "fs_dir (ps_fs p)" "map_of (fs_files (ps_fs p)) (pattern_filename name) = Some content"
    "extractCode content = code" "code \<noteq> []" "executePattern cfg code (app_sys p) = (Inr r, s')"
  shows "loadPattern cfg dir now name p =
    (let md = extractMetadata content; shown = (if md_name md \<noteq> [] then md_name md else name)
     in (Inr (LoadResult True shown code (md_bpm md) (md_description md) (md_tags md) True
               (''Pattern '' @ [dq] @ shown @ [dq] @ '' loaded and playing'')),
         p\<lparr>app_sys := s', app_st := setPlaying True (setBpm now (md_bpm md) (setCode now code (app_st p)))\<rparr>))"
  using assms by (simp add: loadPattern_def ensurePatternsDir_ok fs_readFile_def Let_def)

text \<open>
  C35 (save then load).  With a held, live page that has a CodeMirror view, saving the
  current pattern and loading it again by the same name resolves with the saved code,
  tempo, name, description and tags; the application state then holds that code and
  tempo and is marked playing, and the editor shows the code.  The hypotheses are those
  under which the file format round-trips: a clean, trimmed code of non-comment lines,
  an integral tempo printed in decimal, single-line trimmed fields and non-empty tags.
\<close>

theorem save_then_load:
  assumes fs: "fs_writable (ps_fs p)"
    and code: "a_currentCode (app_st p) = c" "c \<noteq> []" "\<forall>l \<in> set (split_on nl c). code_line l" "trimmed c"
    and bpm: "a_currentBpm (app_st p) = Some (of_int i)" "num_str (of_int i) = show_int i"
    and meta: "trimmed name" "name \<noteq> []" "nl \<notin> set name" "trimmed now" "nl \<notin> set now"
      "trimmed description" "nl \<notin> set description" "tags \<noteq> []"
      "\<forall>t \<in> set tags. t \<noteq> [] \<and> trimmed t \<and> CHR '','' \<notin> set t \<and> nl \<notin> set t"
    and page: "s_page (app_sys p) = Some q" "page_live (s_world (app_sys p)) q"
      "d_editor (page_dom (s_world (app_sys p)) q)" "d_view (page_dom (s_world (app_sys p)) q) \<noteq> None"
    and dir: "pattern_filename name \<notin> set (fs_subdirs (ps_fs p))"
  shows "\<exists>r p2 p3. savePattern num_str dir now name description tags p = (Inr r, p2) \<and>
     loadPattern cfg dir now' name p2 =
       (Inr (LoadResult True name c (Some (of_int i)) description tags True
               (''Pattern '' @ [dq] @ name @ [dq] @ '' loaded and playing'')), p3) \<and>
     a_currentCode (app_st p3) = c \<and> a_currentBpm (app_st p3) = Some (of_int i) \<and>
     a_isPlaying (app_st p3) \<and> editor_text (page_dom (s_world (app_sys p3)) q) = c"
proof -
  let ?content = "createPatternFile num_str now name c (Some (of_int i)) description tags"
  obtain p2 where save: "savePattern num_str dir now name description tags p =
      (Inr (SaveResult True name (path_join dir (pattern_filename name))
              (''Pattern saved to '' @ path_join dir (pattern_filename name))), p2)"
    and p2: "p2 = p\<lparr>ps_fs := (ps_fs p)\<lparr>fs_dir := True,
        fs_files := AList.update (pattern_filename name) ?content (fs_files (ps_fs p))\<rparr>\<rparr>"
    using savePattern_run [OF fs code(1,2) dir] bpm(1) by simp
  have b: "js_num_str num_str (Some (of_int i)) = show_int i" by (simp add: js_num_str_def bpm(2))
  have "nl \<notin> set (show_int i)" using show_int_no_ws by blast
  then have h: "\<forall>l \<in> set (header_lines num_str now name (Some (of_int i)) description tags). nl \<notin> set l"
    using header_lines_clean [of name now num_str "Some (of_int i)" description tags] meta b by auto
  have ec: "extractCode ?content = c"
    using extractCode_file [OF h] extractCode_clean [OF code(3,4)] by simp
  have t: "map trim (split_on (CHR '','') (trim (join '', '' tags))) = tags"
    using tags_field [OF meta(8)] meta(9) by auto
  have md: "extractMetadata ?content =
      \<lparr>md_name = name, md_created = now, md_modified = now, md_bpm = Some (of_int i),
       md_description = description, md_tags = tags\<rparr>"
    using extractMetadata_file [OF h code_lines_no_hash [OF code(3)]] meta(1,4,6)
    by (simp add: b t show_int_trimmed parseInt_show_int trim_trimmed default_metadata_def)
  obtain s' where ex: "executePattern cfg c (app_sys p) = (Inr (PatternResult True c True), s')"
    and st: "s_page s' = s_page (app_sys p)" "page_live (s_world s') q"
      "page_dom (s_world s') q = snd (set_code_fn c (page_dom (s_world (app_sys p)) q))"
    using executePattern_held_run [OF page(1-3), of cfg c] by blast
  have load: "loadPattern cfg dir now' name p2 =
    (Inr (LoadResult True name c (Some (of_int i)) description tags True
            (''Pattern '' @ [dq] @ name @ [dq] @ '' loaded and playing'')),
     p2\<lparr>app_sys := s', app_st := setPlaying True (setBpm now' (Some (of_int i)) (setCode now' c (app_st p2)))\<rparr>)"
    using loadPattern_run [of p2 name ?content c cfg "PatternResult True c True" s' dir now'] ex
    by (simp add: p2 ec md code(2) meta(2) update_conv')
  show ?thesis
    using save load st(3) set_code_fn_view [OF page(3,4), of c] p2
    by (auto simp: setPlaying_def setBpm_def)
qed

lemma savePattern_Inr:
  assumes "savePattern num_str dir now name description tags p = (Inr r, p')"
  shows "a_currentCode (app_st p) \<noteq> [] \<and>
    p' = p\<lparr>ps_fs := (ps_fs p)\<lparr>fs_dir := True,
        fs_files := AList.update (pattern_filename name)
          (createPatternFile num_str now name (a_currentCode (app_st p)) (a_currentBpm (app_st p)) description tags)
          (fs_files (ps_fs p))\<rparr>\<rparr>"
  using assms
  by (auto simp: savePattern_def ensurePatternsDir_def fs_access_def fs_mkdir_def fs_writeFile_def Let_def
           split: if_splits)

text \<open>
  C36 (file-name collision).  Two pattern names with the same sanitised form (such as
  \<^verbatim>\<open>My Beat\<close> and \<^verbatim>\<open>my-beat\<close>) share one file: saving under the second
  replaces whatever was saved under the first, without a warning.
\<close>

theorem save_overwrites_same_sanitized:
  assumes "sanitize n1 = sanitize n2" "savePattern num_str dir now n2 description tags p = (Inr r, p')"
  shows "map_of (fs_files (ps_fs p')) (pattern_filename n1) =
           Some (createPatternFile num_str now n2 (a_currentCode (app_st p)) (a_currentBpm (app_st p)) description tags)"
  using savePattern_Inr [OF assms(2)] assms(1) by (simp add: pattern_filename_def update_conv')

text \<open>
  C37 (missing pattern).  Loading a name with no file (and no subdirectory) of its
  sanitised name rejects with
  \<^verbatim>\<open>Pattern "name" not found\<close> (the \<^verbatim>\<open>ENOENT\<close> of \<^verbatim>\<open>readFile\<close> translated);
  neither the browser session nor the application state is touched, only the patterns
  directory is created when it was missing.
\<close>

theorem load_missing_not_found:
  assumes "fs_dir (ps_fs p) \<or> fs_writable (ps_fs p)" "map_of (fs_files (ps_fs p)) (pattern_filename name) = None"
    "pattern_filename name \<notin> set (fs_subdirs (ps_fs p))"
  shows "loadPattern cfg dir now name p = (Inl (not_found name), p\<lparr>ps_fs := (ps_fs p)\<lparr>fs_dir := True\<rparr>\<rparr>)"
  using assms by (simp add: loadPattern_def ensurePatternsDir_ok fs_readFile_def)

lemma lower_char_safe:
  "safe_char c \<Longrightarrow> lower_char c \<in> set ''abcdefghijklmnopqrstuvwxyz0123456789-_''"
  by (auto simp: safe_char_def lower_char_def)

lemma lower_char_dash: "lower_char (CHR ''-'') = CHR ''-''"
  by (simp add: lower_char_def)

text \<open>
  C30 (file names stay in the directory).  Whatever name a client passes, the file
  name \<^verbatim>\<open>savePattern\<close>, \<^verbatim>\<open>loadPattern\<close> and \<^verbatim>\<open>deletePattern\<close> use is the
  sanitised name, as long as the name, made only of lower-case ASCII letters, digits,
  \<^verbatim>\<open>-\<close> and \<^verbatim>\<open>_\<close> (so without \<^verbatim>\<open>/\<close> or \<^verbatim>\<open>.\<close>), followed by
  \<^verbatim>\<open>.strudel\<close>: a name like \<^verbatim>\<open>../x\<close> cannot reach a file outside the patterns
  directory.
\<close>

theorem pattern_filename_bounded:
  "set (sanitize name) \<subseteq> set ''abcdefghijklmnopqrstuvwxyz0123456789-_'' \<and>
   length (sanitize name) = length name \<and>
   pattern_filename name = sanitize name @ ''.strudel''"
proof -
  have "lower_char (if safe_char c then c else CHR ''-'') \<in> set ''abcdefghijklmnopqrstuvwxyz0123456789-_''" for c
    using lower_char_safe [of c] by (simp add: lower_char_dash)
  then show ?thesis by (auto simp: sanitize_def to_lower_def pattern_filename_def)
qed

lemma collect_patterns_run:
  "fs_dir (ps_fs p) \<Longrightarrow>
   collect_patterns dir fs p =
     (Inr (concat (map (\<lambda>f. case map_of (fs_files (ps_fs p)) f of
                             Some c \<Rightarrow> [pattern_entry_of f c] | None \<Rightarrow> []) fs)), p)"
  by (induction fs) (auto simp: fs_readFile_def split: option.splits)

lemma map_of_is_SomeI_all: "distinct (map fst al) \<Longrightarrow> \<forall>(f, c) \<in> set al. map_of al f = Some c"
  by (auto intro: map_of_is_SomeI)

lemma entries_of_keys:
  "distinct (map fst al) \<Longrightarrow> (\<forall>(f, c) \<in> set al. map_of bl f = Some c) \<Longrightarrow>
   concat (map (\<lambda>f. case map_of bl f of Some c \<Rightarrow> [g f c] | None \<Rightarrow> []) (filter P (map fst al))) =
   [g f c. (f, c) \<leftarrow> al, P f]"
  by (induction al) auto

lemma entries_of_subdirs:
  "set ds \<inter> fst ` set al = {} \<Longrightarrow>
   concat (map (\<lambda>f. case map_of al f of Some c \<Rightarrow> [g f c] | None \<Rightarrow> []) (filter P ds)) = []"
  by (induction ds) (auto simp: map_of_eq_None_iff [THEN iffD2])

lemma listPatterns_run:
  assumes "fs_dir (ps_fs p) \<or> fs_writable (ps_fs p)" "fs_names_distinct (ps_fs p)"
  shows "listPatterns date_ms dir p =
           (let es = sort_key (\<lambda>e. - date_ms (entry_date e))
                       [pattern_entry_of f c. (f, c) \<leftarrow> fs_files (ps_fs p), ends_with f ''.strudel'']
            in (Inr (ListResult True (length es) es (''Found '' @ show_nat (length es) @ '' saved patterns'')),
                p\<lparr>ps_fs := (ps_fs p)\<lparr>fs_dir := True\<rparr>\<rparr>))"
proof -
  let ?p1 = "p\<lparr>ps_fs := (ps_fs p)\<lparr>fs_dir := True\<rparr>\<rparr>"
  let ?g = "\<lambda>f. case map_of (fs_files (ps_fs p)) f of Some c \<Rightarrow> [pattern_entry_of f c] | None \<Rightarrow> []"
  have d: "distinct (map fst (fs_files (ps_fs p)))" "set (fs_subdirs (ps_fs p)) \<inter> fst ` set (fs_files (ps_fs p)) = {}"
    using assms(2) by (auto simp: fs_names_distinct_def)
  have c: "concat (map ?g (filter (\<lambda>f. ends_with f ''.strudel'') (map fst (fs_files (ps_fs p)) @ fs_subdirs (ps_fs p)))) =
           [pattern_entry_of f c. (f, c) \<leftarrow> fs_files (ps_fs p), ends_with f ''.strudel'']"
    by (simp only: filter_append map_append concat_append append_Nil2
          entries_of_keys [OF d(1) map_of_is_SomeI_all [OF d(1)]] entries_of_subdirs [OF d(2)])
  have run: "collect_patterns dir (filter (\<lambda>f. ends_with f ''.strudel'') (map fst (fs_files (ps_fs p)) @ fs_subdirs (ps_fs p))) ?p1 =
             (Inr [pattern_entry_of f c. (f, c) \<leftarrow> fs_files (ps_fs p), ends_with f ''.strudel''], ?p1)"
    using collect_patterns_run [of ?p1] c by simp
  show ?thesis
    using assms(1) run by (simp add: listPatterns_def ensurePatternsDir_ok fs_readdir_def Let_def)
qed

lemma sort_newest_first:
  fixes date_ms :: "string \<Rightarrow> real"
  shows "sorted_wrt (\<lambda>a b. date_ms (entry_date b) \<le> date_ms (entry_date a)) (sort_key (\<lambda>e. - date_ms (entry_date e)) xs)"
  using sorted_sort_key [of "\<lambda>e. - date_ms (entry_date e)" xs] by (simp add: sorted_map)

lemma pe_filename_entries:
  "map pe_filename [pattern_entry_of f c. (f, c) \<leftarrow> al, P f] = filter P (map fst al)"
  by (induction al) (auto simp: pattern_entry_of_def Let_def)

lemma mset_keys_update:
  "distinct (map fst al) \<Longrightarrow> P k \<Longrightarrow>
   mset (filter P (map fst (AList.update k v al))) = add_mset k (mset [f \<leftarrow> map fst al. P f \<and> f \<noteq> k])"
proof (induction al)
  case (Cons kv al)
  obtain k' v' where kv: "kv = (k', v')" by fastforce
  show ?case
  proof (cases "k' = k")
    case True
    then have "[f \<leftarrow> map fst al. P f \<and> f \<noteq> k] = filter P (map fst al)"
      using Cons.prems kv by (auto intro: filter_cong)
    then show ?thesis using Cons.prems True kv by (simp del: mset_filter)
  next
    case False
    then show ?thesis using Cons kv by simp
  qed
qed simp

lemma savePattern_Inr_subdir:
  "savePattern num_str dir now name description tags p = (Inr r, p') \<Longrightarrow>
   pattern_filename name \<notin> set (fs_subdirs (ps_fs p))"
  by (auto simp: savePattern_def ensurePatternsDir_def fs_access_def fs_mkdir_def fs_writeFile_def Let_def
           split: if_splits)

lemma pattern_filename_strudel: "ends_with (pattern_filename name) ''.strudel''"
  unfolding pattern_filename_def ends_with_suffix by (rule suffix_appendI) simp

text \<open>
  C34 (listing).  When the patterns directory exists or can be created and the names it
  lists are distinct, \<^verbatim>\<open>listPatterns\<close> resolves with one entry per regular file whose
  name ends in \<^verbatim>\<open>.strudel\<close>, built from that file's metadata, in a stable sort of
  \<^verbatim>\<open>readdir\<close> order newest first; a subdirectory named \<^verbatim>\<open>x.strudel\<close> fails to
  read and is skipped, other files are ignored; the count is the number of entries, and
  the only change to the state is that the directory exists.
\<close>

theorem listPatterns_result:
  assumes "fs_dir (ps_fs p) \<or> fs_writable (ps_fs p)" "fs_names_distinct (ps_fs p)"
  shows "let es = sort_key (\<lambda>e. - date_ms (entry_date e))
                    [pattern_entry_of f c. (f, c) \<leftarrow> fs_files (ps_fs p), ends_with f ''.strudel'']
         in listPatterns date_ms dir p =
              (Inr (ListResult True (length es) es (''Found '' @ show_nat (length es) @ '' saved patterns'')),
               p\<lparr>ps_fs := (ps_fs p)\<lparr>fs_dir := True\<rparr>\<rparr>) \<and>
            sorted_wrt (\<lambda>a b. date_ms (entry_date b) \<le> date_ms (entry_date a)) es"
  using listPatterns_run [OF assms, of date_ms dir] sort_newest_first by (simp add: Let_def)

text \<open>
  C22 (a saved pattern is listed).  After \<^verbatim>\<open>savePattern(name)\<close> resolves on a directory
  whose listed names are distinct, \<^verbatim>\<open>listPatterns\<close> resolves, and its entries are
  the saved file's entry, built from the content just written, once, together with
  exactly one entry for every other \<^verbatim>\<open>.strudel\<close> file that was there: an earlier
  file of the same sanitised name is replaced, not listed twice.
\<close>

theorem save_then_list:
  assumes "savePattern num_str dir now name description tags p = (Inr r, p')" "fs_names_distinct (ps_fs p)"
  shows "\<exists>es. fst (listPatterns date_ms dir p') =
           Inr (ListResult True (length es) es (''Found '' @ show_nat (length es) @ '' saved patterns'')) \<and>
         pattern_entry_of (pattern_filename name)
           (createPatternFile num_str now name (a_currentCode (app_st p)) (a_currentBpm (app_st p)) description tags)
           \<in> set es \<and>
         mset (map pe_filename es) =
           add_mset (pattern_filename name)
             (mset [f \<leftarrow> map fst (fs_files (ps_fs p)). ends_with f ''.strudel'' \<and> f \<noteq> pattern_filename name])"
proof -
  let ?fn = "pattern_filename name"
  let ?c = "createPatternFile num_str now name (a_currentCode (app_st p)) (a_currentBpm (app_st p)) description tags"
  let ?al = "AList.update ?fn ?c (fs_files (ps_fs p))"
  have p': "p' = p\<lparr>ps_fs := (ps_fs p)\<lparr>fs_dir := True, fs_files := ?al\<rparr>\<rparr>"
    using savePattern_Inr [OF assms(1)] by simp
  have nd: "fs_names_distinct (ps_fs p')"
    using fs_names_update [OF assms(2) savePattern_Inr_subdir [OF assms(1)]] p'
    by (simp add: fs_names_distinct_def)
  have d: "distinct (map fst (fs_files (ps_fs p)))" using assms(2) by (simp add: fs_names_distinct_def)
  let ?es = "sort_key (\<lambda>e. - date_ms (entry_date e)) [pattern_entry_of f c. (f, c) \<leftarrow> ?al, ends_with f ''.strudel'']"
  have l: "fst (listPatterns date_ms dir p') =
      Inr (ListResult True (length ?es) ?es (''Found '' @ show_nat (length ?es) @ '' saved patterns''))"
    using listPatterns_run [of p' date_ms dir] nd p' by (simp add: Let_def)
  have "(?fn, ?c) \<in> set ?al" by (simp add: update_conv' map_of_SomeD)
  then have m: "pattern_entry_of ?fn ?c \<in> set ?es" using pattern_filename_strudel [of name] by force
  have "mset (map pe_filename ?es) = mset (filter (\<lambda>f. ends_with f ''.strudel'') (map fst ?al))"
    by (simp flip: pe_filename_entries)
  also have "\<dots> = add_mset ?fn (mset [f \<leftarrow> map fst (fs_files (ps_fs p)). ends_with f ''.strudel'' \<and> f \<noteq> ?fn])"
    by (rule mset_keys_update [where P = "\<lambda>f. ends_with f ''.strudel''", OF d pattern_filename_strudel [of name]])
  finally show ?thesis using l m by blast
qed

text \<open>
  C40 (deletion).  When the patterns directory exists or can be created,
  \<^verbatim>\<open>deletePattern(name)\<close> rejects with Node's \<^verbatim>\<open>EISDIR\<close> error when the sanitised
  name is a subdirectory, with \<^verbatim>\<open>Pattern "name" not found\<close> when there is no such file,
  with \<^verbatim>\<open>EACCES\<close> when the file system refuses writes, and otherwise removes the file and
  resolves; after a successful deletion, loading the same name reports it not found.
\<close>

theorem deletePattern_outcome:
  assumes "fs_dir (ps_fs p) \<or> fs_writable (ps_fs p)"
  shows "deletePattern dir name p =
            (let fn = pattern_filename name; fs = ps_fs p; p1 = p\<lparr>ps_fs := fs\<lparr>fs_dir := True\<rparr>\<rparr>
             in if fn \<in> set (fs_subdirs fs) then (Inl (eisdir (''unlink '' @ sq (path_join dir fn))), p1)
               else if map_of (fs_files fs) fn = None then (Inl (not_found name), p1)
               else if \<not> fs_writable fs then (Inl (eacces ''unlink'' (path_join dir fn)), p1)
               else (Inr (DeleteResult True name (''Pattern '' @ [dq] @ name @ [dq] @ '' deleted'')),
                     p\<lparr>ps_fs := fs\<lparr>fs_dir := True, fs_files := AList.delete fn (fs_files fs)\<rparr>\<rparr>)) \<and>
            (\<not> isl (fst (deletePattern dir name p)) \<longrightarrow>
             fst (loadPattern cfg dir now name (snd (deletePattern dir name p))) = Inl (not_found name))"
  using assms
  by (auto simp: deletePattern_def loadPattern_def ensurePatternsDir_ok fs_unlink_def fs_readFile_def
                 delete_conv' Let_def)

end
