(* ===== verification/Tools.thy ===== *)
theory Tools
  imports Persistence
begin

text \<open>
  The tool operations of \<^verbatim>\<open>tools/control.js\<close> and \<^verbatim>\<open>tools/persistence.js\<close> on
  the one program state they share (\<open>pstate\<close>: browser session, application state,
  pattern directory), as a datatype of operations with one step function.  The MCP
  server does not dispatch to them yet (see \<open>Server\<close>); this is the interface any
  caller has.  The well-formedness of the shared state, \<open>pstate_wf\<close>, combines the
  invariants of the components: the session invariant of \<open>Session\<close>, the history
  bound of \<open>State\<close> and distinct file names in the directory.
\<close>

datatype tool_op =
    TStop
  | TStart
  | TSetTempo real
  | TGetCurrent
  | TSave string string "string list"
  | TLoad string
  | TList
  | TDelete string

record tool_env =
  te_cfg :: config
  te_dir :: string
  te_now :: string
  te_num_str :: "real \<Rightarrow> string"
  te_date_ms :: "string \<Rightarrow> real"

definition run_tool :: "tool_env \<Rightarrow> tool_op \<Rightarrow> ('z pstate_scheme, control_result + persist_result) exc" where
  "run_tool e op =
     (case op of
        TStop \<Rightarrow> bindE (stop (te_cfg e)) (\<lambda>r. returnE (Inl r))
      | TStart \<Rightarrow> bindE (start (te_cfg e)) (\<lambda>r. returnE (Inl r))
      | TSetTempo bpm \<Rightarrow> bindE (control_setTempo (te_num_str e) (te_cfg e) (te_now e) bpm) (\<lambda>r. returnE (Inl r))
      | TGetCurrent \<Rightarrow> bindE getCurrent (\<lambda>r. returnE (Inl r))
      | TSave name description tags \<Rightarrow>
          bindE (savePattern (te_num_str e) (te_dir e) (te_now e) name description tags) (\<lambda>r. returnE (Inr r))
      | TLoad name \<Rightarrow> bindE (loadPattern (te_cfg e) (te_dir e) (te_now e) name) (\<lambda>r. returnE (Inr r))
      | TList \<Rightarrow> bindE (listPatterns (te_date_ms e) (te_dir e)) (\<lambda>r. returnE (Inr r))
      | TDelete name \<Rightarrow> bindE (deletePattern (te_dir e) name) (\<lambda>r. returnE (Inr r)))"

text \<open>
  A run of tool calls, as a client issues them one after the other: each call is a
  request of its own, so a rejected call does not stop the later ones.
\<close>

fun run_tools :: "tool_env \<Rightarrow> tool_op list \<Rightarrow> 'z pstate_scheme \<Rightarrow>
                  (js_error + (control_result + persist_result)) list \<times> 'z pstate_scheme" where
  "run_tools e [] p = ([], p)"
| "run_tools e (op # ops) p =
     (case run_tool e op p of (r, p1) \<Rightarrow> (case run_tools e ops p1 of (rs, p2) \<Rightarrow> (r # rs, p2)))"

text \<open>The \<^verbatim>\<open>playing\<close> (or \<^verbatim>\<open>isPlaying\<close>) field of a result, when it has one.\<close>

fun reported_playing :: "js_error + (control_result + persist_result) \<Rightarrow> bool option" where
  "reported_playing (Inr (Inl (ControlPlayback _ b _))) = Some b"
| "reported_playing (Inr (Inl (ControlCurrent _ _ _ b _))) = Some b"
| "reported_playing (Inr (Inr (LoadResult _ _ _ _ _ _ b _))) = Some b"
| "reported_playing _ = None"

definition pstate_wf :: "'z pstate_scheme \<Rightarrow> bool" where
  "pstate_wf p \<longleftrightarrow>
     sess_wf (app_sys p) \<and> length (a_history (app_st p)) \<le> history_limit \<and>
     fs_names_distinct (ps_fs p)"

text \<open>What an operation may do to each part of the state, as a frame condition.\<close>

named_theorems parts_intros "intro rules for keeps_parts"

definition keeps_parts :: "('z pstate_scheme, 'a) exc \<Rightarrow> bool" where
  "keeps_parts m \<longleftrightarrow> (\<forall>p. pstate_wf p \<longrightarrow> pstate_wf (snd (m p)))"

lemma keeps_parts_bindE [parts_intros]:
  "keeps_parts m \<Longrightarrow> (\<And>x. keeps_parts (f x)) \<Longrightarrow> keeps_parts (bindE m f)"
  by (auto simp: keeps_parts_def split: prod.splits sum.splits)

lemma keeps_parts_catchE [parts_intros]:
  "keeps_parts m \<Longrightarrow> (\<And>e. keeps_parts (h e)) \<Longrightarrow> keeps_parts (catchE m h)"
  by (auto simp: keeps_parts_def split: prod.splits sum.splits)

lemma keeps_parts_returnE [parts_intros]: "keeps_parts (returnE x)"
  by (simp add: keeps_parts_def)

lemma keeps_parts_throwE [parts_intros]: "keeps_parts (throwE x)"
  by (simp add: keeps_parts_def)

lemma keeps_parts_getsE [parts_intros]: "keeps_parts (getsE f)"
  by (simp add: keeps_parts_def)

lemma keeps_parts_if [parts_intros]:
  "keeps_parts a \<Longrightarrow> keeps_parts b \<Longrightarrow> keeps_parts (if c then a else b)"
  by simp

lemma keeps_parts_on_sys [parts_intros]:
  "(\<And>s. sess_wf s \<Longrightarrow> sess_wf (snd (m s))) \<Longrightarrow> keeps_parts (on_sys m)"
  by (simp add: keeps_parts_def pstate_wf_def split: prod.splits) (metis snd_conv)

lemma keeps_parts_on_state [parts_intros]:
  "(\<And>st. length (a_history st) \<le> history_limit \<Longrightarrow> length (a_history (f st)) \<le> history_limit) \<Longrightarrow>
   keeps_parts (on_state f)"
  by (simp add: keeps_parts_def pstate_wf_def)

lemma keeps_parts_on_fs [parts_intros]:
  "(\<And>fs. fs_names_distinct fs \<Longrightarrow> fs_names_distinct (snd (m fs))) \<Longrightarrow>
   keeps_parts (on_fs m)"
  by (simp add: keeps_parts_def pstate_wf_def split: prod.splits) (metis snd_conv)

lemma history_ops_bound:
  assumes "length (a_history st) \<le> history_limit"
  shows "length (a_history (setPlaying b st)) \<le> history_limit"
    "length (a_history (setBpm now bpm st)) \<le> history_limit"
    "length (a_history (setCode now code st)) \<le> history_limit"
  using assms setCode_bound [OF assms] by (simp_all add: setPlaying_def setBpm_def)

lemmas parts_facts = fs_ops_names_distinct history_ops_bound bridge_ops_wf

lemma keeps_parts_collect [parts_intros]: "keeps_parts (collect_patterns dir fs)"
  by (induction fs) (simp only: collect_patterns.simps Let_def; intro parts_intros; simp add: parts_facts)+

lemma keeps_parts_ensure [parts_intros]: "keeps_parts (ensurePatternsDir dir)"
  unfolding ensurePatternsDir_def by (intro parts_intros; simp add: parts_facts)

lemma keeps_parts_control:
  "keeps_parts (stop cfg)" "keeps_parts (start cfg)"
  "keeps_parts (control_setTempo num_str cfg now bpm)" "keeps_parts getCurrent"
  unfolding control_defs by (intro parts_intros; simp add: parts_facts)+

lemma keeps_parts_persistence:
  "keeps_parts (savePattern num_str dir now name description tags)"
  "keeps_parts (loadPattern cfg dir now name)" "keeps_parts (listPatterns date_ms dir)"
  "keeps_parts (deletePattern dir name)"
  unfolding savePattern_def loadPattern_def listPatterns_def deletePattern_def Let_def
  by (intro parts_intros; simp add: parts_facts)+

lemma keeps_parts_run_tool: "keeps_parts (run_tool e op)"
  unfolding run_tool_def
  by (cases op) (simp_all add: keeps_parts_control keeps_parts_persistence parts_intros)

text \<open>
  C29 (the shared state stays well formed).  Every tool operation, on a state whose
  session is well formed, whose history is within 50 entries and whose directory has
  distinct file names, leaves such a state, whether it resolves or rejects.
\<close>

theorem run_tool_wf: "pstate_wf p \<Longrightarrow> pstate_wf (snd (run_tool e op p))"
  using keeps_parts_run_tool unfolding keeps_parts_def by blast

lemma collect_patterns_app:
  "collect_patterns dir fs p = (r, p') \<Longrightarrow> app_st p' = app_st p"
  by (induction fs arbitrary: p r p') (auto split: prod.splits sum.splits)

lemma tool_playing:
  "a_isPlaying (app_st (snd (run_tool e op p))) =
     (case reported_playing (fst (run_tool e op p)) of Some b \<Rightarrow> b | None \<Rightarrow> a_isPlaying (app_st p))"
proof (cases op)
  case TStop
  then show ?thesis using control_runs [of "te_cfg e" p]
    by (simp add: run_tool_def setPlaying_def split: prod.splits sum.splits)
next
  case TStart
  then show ?thesis using control_runs [of "te_cfg e" p]
    by (simp add: run_tool_def setPlaying_def split: prod.splits sum.splits)
next
  case (TSetTempo bpm)
  then show ?thesis using control_runs [of "te_cfg e" p]
    by (simp add: run_tool_def setBpm_def split: prod.splits sum.splits)
next
  case TGetCurrent
  then show ?thesis by (simp add: run_tool_def getCurrent_def getState_def Let_def)
next
  case (TSave name description tags)
  then show ?thesis
    by (auto simp: run_tool_def savePattern_def ensurePatternsDir_def Let_def split: prod.splits sum.splits)
next
  case (TLoad name)
  then show ?thesis
    by (auto simp: run_tool_def loadPattern_def ensurePatternsDir_def Let_def setPlaying_def setBpm_def
                   setCode_def split: prod.splits sum.splits)
next
  case TList
  then show ?thesis
    by (auto simp: run_tool_def listPatterns_def ensurePatternsDir_def Let_def
             dest: collect_patterns_app split: prod.splits sum.splits)
next
  case (TDelete name)
  then show ?thesis
    by (auto simp: run_tool_def deletePattern_def ensurePatternsDir_def Let_def split: prod.splits sum.splits)
qed

text \<open>
  C27 (the recorded playing state is the last one reported).  After any run of tool
  calls, resolving or rejecting, the \<^verbatim>\<open>isPlaying\<close> the application state records
  is the \<^verbatim>\<open>playing\<close> (or \<^verbatim>\<open>isPlaying\<close>) field of the last result that carried
  one (\<^verbatim>\<open>stop\<close>, \<^verbatim>\<open>start\<close>, \<^verbatim>\<open>getCurrent\<close>, \<^verbatim>\<open>loadPattern\<close>), and the
  initial one when no result did: no other call, and no rejected call, changes it.
\<close>

theorem isPlaying_reports:
  "a_isPlaying (app_st (snd (run_tools e ops p))) =
     (case List.map_filter reported_playing (fst (run_tools e ops p)) of
        [] \<Rightarrow> a_isPlaying (app_st p)
      | bs \<Rightarrow> last bs)"
proof (induction ops arbitrary: p)
  case Nil
  then show ?case by (simp add: map_filter_simps)
next
  case (Cons op ops)
  obtain r p1 where t: "run_tool e op p = (r, p1)" by fastforce
  obtain rs p2 where ts: "run_tools e ops p1 = (rs, p2)" by fastforce
  have h: "a_isPlaying (app_st p1) = (case reported_playing r of Some b \<Rightarrow> b | None \<Rightarrow> a_isPlaying (app_st p))"
    using tool_playing [of e op p] t by simp
  have ih: "a_isPlaying (app_st p2) = (case List.map_filter reported_playing rs of [] \<Rightarrow> a_isPlaying (app_st p1) | bs \<Rightarrow> last bs)"
    using Cons.IH [of p1] ts by simp
  show ?case
    using t ts h ih by (auto simp: map_filter_simps split: option.splits list.splits)
qed

end
