(* ===== verification/Server.thy ===== *)
theory Server
  imports JsString
begin

text \<open>
  The MCP server, \<^verbatim>\<open>src/src/index.js\<close>: the table of tool definitions returned by
  the ListTools handler and the CallTool handler, a \<^verbatim>\<open>switch\<close> on the tool name
  inside a \<^verbatim>\<open>try\<close> whose \<^verbatim>\<open>catch\<close> turns any exception into an error result.
  Tool arguments are the JSON object of the request (\<open>None\<close> when the request has
  no \<^verbatim>\<open>arguments\<close>); interpolating a value into a template literal is
  \<open>template_str\<close>, with \<open>num_str\<close> (\<^verbatim>\<open>Number.prototype.toString\<close>) a parameter.
  The SDK transport and \<^verbatim>\<open>main\<close> are I/O and not modelled.
\<close>

datatype json = JStr string | JNum real | JBool bool | JNull | JArr "json list" | JObj "(string \<times> json) list"

record tool_def =
  tool_name :: string
  tool_description :: string
  tool_props :: "(string \<times> string \<times> string) list"
  tool_required :: "string list"

datatype call_result = CallResult (result_text: string) (result_is_error: bool)

definition tools :: "tool_def list" where
  "tools =
     [\<lparr>tool_name = ''strudel_create'',
       tool_description = ''Create a new Strudel pattern from natural language description'',
       tool_props = [(''description'', ''string'', ''Natural language description of the musical pattern to create'')],
       tool_required = [''description'']\<rparr>,
      \<lparr>tool_name = ''strudel_modify'',
       tool_description = ''Modify the current active Strudel pattern'',
       tool_props = [(''modification'', ''string'', ''Natural language description of how to modify the pattern'')],
       tool_required = [''modification'']\<rparr>,
      \<lparr>tool_name = ''strudel_set_tempo'', tool_description = ''Set the global tempo in BPM'',
       tool_props = [(''bpm'', ''number'', ''Tempo in beats per minute'')], tool_required = [''bpm'']\<rparr>,
      \<lparr>tool_name = ''strudel_stop'', tool_description = ''Stop audio playback'',
       tool_props = [], tool_required = []\<rparr>,
      \<lparr>tool_name = ''strudel_start'', tool_description = ''Resume audio playback'',
       tool_props = [], tool_required = []\<rparr>,
      \<lparr>tool_name = ''strudel_save_pattern'', tool_description = ''Save the current pattern to a file'',
       tool_props = [(''name'', ''string'', ''Name for the pattern file (without extension)''),
                     (''description'', ''string'', ''Optional description of the pattern'')],
       tool_required = [''name'']\<rparr>,
      \<lparr>tool_name = ''strudel_load_pattern'', tool_description = ''Load a saved pattern from file'',
       tool_props = [(''name'', ''string'', ''Name of the pattern to load'')], tool_required = [''name'']\<rparr>,
      \<lparr>tool_name = ''strudel_list_patterns'', tool_description = ''List all saved patterns'',
       tool_props = [], tool_required = []\<rparr>,
      \<lparr>tool_name = ''strudel_get_current'', tool_description = ''Get the current pattern state'',
       tool_props = [], tool_required = []\<rparr>]"

definition list_tools :: "tool_def list" where
  "list_tools = tools"

text \<open>\<^verbatim>\<open>`${v}`\<close>: JavaScript's \<^verbatim>\<open>ToString\<close>; an array joins its elements with commas,
  \<^verbatim>\<open>null\<close> elements printing as the empty string.\<close>

fun template_str :: "(real \<Rightarrow> string) \<Rightarrow> json \<Rightarrow> string" where
  "template_str num_str (JStr s) = s"
| "template_str num_str (JNum x) = num_str x"
| "template_str num_str (JBool b) = (if b then ''true'' else ''false'')"
| "template_str num_str JNull = ''null''"
| "template_str num_str (JArr xs) =
     join '','' (map (\<lambda>x. if x = JNull then [] else template_str num_str x) xs)"
| "template_str num_str (JObj kvs) = ''[object Object]''"

text \<open>\<^verbatim>\<open>`${args.key}`\<close>: reading a property of missing arguments is a \<^verbatim>\<open>TypeError\<close>;
  a missing property is \<^verbatim>\<open>undefined\<close>.\<close>

definition arg_text ::
  "(real \<Rightarrow> string) \<Rightarrow> (string \<times> json) list option \<Rightarrow> string \<Rightarrow> js_error + string" where
  "arg_text num_str args key =
     (case args of
        None \<Rightarrow> Inl (Error (''Cannot read properties of undefined (reading '' @ [CHR 0x27] @ key @ [CHR 0x27] @ '')''))
      | Some kvs \<Rightarrow> Inr (case map_of kvs key of None \<Rightarrow> ''undefined'' | Some v \<Rightarrow> template_str num_str v))"

definition call_body ::
  "(real \<Rightarrow> string) \<Rightarrow> string \<Rightarrow> (string \<times> json) list option \<Rightarrow> js_error + string" where
  "call_body num_str name args =
     (if name = ''strudel_create'' then
        map_sum id (\<lambda>d. ''Pattern creation not yet implemented. Would create: '' @ d)
          (arg_text num_str args ''description'')
      else if name = ''strudel_modify'' then
        map_sum id (\<lambda>m. ''Pattern modification not yet implemented. Would modify: '' @ m)
          (arg_text num_str args ''modification'')
      else if name = ''strudel_set_tempo'' then
        map_sum id (\<lambda>b. ''Tempo control not yet implemented. Would set to: '' @ b @ '' BPM'')
          (arg_text num_str args ''bpm'')
      else if name = ''strudel_stop'' then Inr ''Playback stop not yet implemented.''
      else if name = ''strudel_start'' then Inr ''Playback start not yet implemented.''
      else if name = ''strudel_save_pattern'' then
        map_sum id (\<lambda>n. ''Pattern save not yet implemented. Would save as: '' @ n)
          (arg_text num_str args ''name'')
      else if name = ''strudel_load_pattern'' then
        map_sum id (\<lambda>n. ''Pattern load not yet implemented. Would load: '' @ n)
          (arg_text num_str args ''name'')
      else if name = ''strudel_list_patterns'' then Inr ''Pattern listing not yet implemented.''
      else if name = ''strudel_get_current'' then Inr ''Get current pattern not yet implemented.''
      else Inl (Error (''Unknown tool: '' @ name)))"

definition handle_call ::
  "(real \<Rightarrow> string) \<Rightarrow> string \<Rightarrow> (string \<times> json) list option \<Rightarrow> call_result" where
  "handle_call num_str name args =
     (case call_body num_str name args of
        Inr t \<Rightarrow> CallResult t False
      | Inl e \<Rightarrow> CallResult (''Error: '' @ err_msg e) True)"

lemma str_includes_append: "str_includes s t \<Longrightarrow> str_includes (s @ u) t"
  unfolding includes_sublist sublist_def by (metis append.assoc)

lemma tools_names:
  "map tool_name list_tools =
     [''strudel_create'', ''strudel_modify'', ''strudel_set_tempo'', ''strudel_stop'', ''strudel_start'',
      ''strudel_save_pattern'', ''strudel_load_pattern'', ''strudel_list_patterns'', ''strudel_get_current'']"
  by (simp add: list_tools_def tools_def)

text \<open>The table is well formed: names are distinct and every required argument is a declared property.\<close>

lemma tools_wf:
  "distinct (map tool_name list_tools) \<and>
   (\<forall>t \<in> set list_tools. set (tool_required t) \<subseteq> fst ` set (tool_props t))"
  by (simp add: list_tools_def tools_def)

lemma listed_tool_stub:
  "n \<in> set (map tool_name list_tools) \<Longrightarrow>
   \<exists>txt. handle_call num_str n (Some kvs) = CallResult txt False \<and> str_includes txt ''not yet implemented''"
  unfolding tools_names
  by (auto simp: handle_call_def call_body_def arg_text_def intro!: str_includes_append)

text \<open>
  C39 (what the server answers).  Every tool the server lists, called with an arguments
  object, answers with a successful text result that says it is not yet implemented:
  the CallTool handler calls none of the tool modules, so no request reaches the
  session manager, the bridge, the application state or the pattern files.  A name that
  is not in the tool table is answered with the error result
  \<^verbatim>\<open>Error: Unknown tool: name\<close>, whatever the arguments.
\<close>

theorem handle_call_answers:
  "(\<forall>t \<in> set list_tools. \<forall>kvs. \<exists>txt.
      handle_call num_str (tool_name t) (Some kvs) = CallResult txt False \<and>
      str_includes txt ''not yet implemented'') \<and>
   (name \<notin> set (map tool_name list_tools) \<longrightarrow>
      handle_call num_str name args = CallResult (''Error: Unknown tool: '' @ name) True)"
proof (intro conjI impI ballI allI)
  fix t kvs
  assume "t \<in> set list_tools"
  then show "\<exists>txt. handle_call num_str (tool_name t) (Some kvs) = CallResult txt False \<and>
      str_includes txt ''not yet implemented''"
    by (intro listed_tool_stub) simp
next
  assume "name \<notin> set (map tool_name list_tools)"
  then show "handle_call num_str name args = CallResult (''Error: Unknown tool: '' @ name) True"
    unfolding tools_names by (simp add: handle_call_def call_body_def)
qed

end
