(* ===== verification/Concurrency.thy ===== *)
theory Concurrency
  imports Lifecycle
begin

text \<open>
  Concurrent calls of \<^verbatim>\<open>launchBrowser\<close> (\<^verbatim>\<open>src/src/browser.js\<close>, lines 35--92).
  JavaScript runs one continuation at a time, but two calls that are both waiting on an
  \<^verbatim>\<open>await\<close> resume in any order.  A call is a thread whose program counter
  \<open>lpc\<close> says at which \<^verbatim>\<open>await\<close> it waits, holding the result that await will
  deliver; \<open>lstep\<close> resumes it, runs the synchronous code up to the next
  \<^verbatim>\<open>await\<close> and issues that call.  As in the source, every method call reads the
  module variables \<^verbatim>\<open>browser\<close> and \<^verbatim>\<open>page\<close> when it is issued, and the result
  \<^verbatim>\<open>{browser, page}\<close> is read when the call returns, so another call can change
  them in between.  Run alone, a thread computes exactly \<open>launchBrowser\<close>
  (\<open>lrun_launchBrowser\<close>); \<open>sched\<close> runs two threads under a schedule.
\<close>

datatype lpc =
    LStart
  | LProbe "js_error + jsval"
  | LLaunch "js_error + nat"
  | LNewPage "js_error + nat"
  | LAgent "js_error + unit"
  | LGoto "js_error + unit"
  | LWait "js_error + unit"
  | LDone "js_error + nat option \<times> nat option"

text \<open>A method called on a module variable that another call has reset to \<^verbatim>\<open>null\<close>.\<close>

definition null_read :: "string \<Rightarrow> js_error" where
  "null_read m = Error (''Cannot read properties of null (reading '' @ [CHR 0x27] @ m @ [CHR 0x27] @ '')'')"

definition launch_failed :: "js_error \<Rightarrow> lpc" where
  "launch_failed e = LDone (Inl (Error (''Browser launch failed: '' @ err_msg e)))"

definition issue :: "(world \<Rightarrow> (js_error + 'a) \<times> world) \<Rightarrow> ((js_error + 'a) \<Rightarrow> lpc) \<Rightarrow> sys \<Rightarrow> lpc \<times> sys" where
  "issue f k s = (case remote f s of (r, s') \<Rightarrow> (k r, s'))"

definition issue_launch :: "config \<Rightarrow> sys \<Rightarrow> lpc \<times> sys" where
  "issue_launch cfg = issue (pup_launch (launch_options cfg)) LLaunch"

fun lstep :: "config \<Rightarrow> lpc \<Rightarrow> sys \<Rightarrow> lpc \<times> sys" where
  "lstep cfg LStart s =
     (case (s_browser s, s_page s) of
        (Some b, Some p) \<Rightarrow> issue (pup_evaluate p probe_fn) LProbe s
      | _ \<Rightarrow> issue_launch cfg s)"
| "lstep cfg (LProbe (Inr _)) s = (LDone (Inr (s_browser s, s_page s)), s)"
| "lstep cfg (LProbe (Inl _)) s = issue_launch cfg (s\<lparr>s_browser := None, s_page := None\<rparr>)"
| "lstep cfg (LLaunch (Inl e)) s = (launch_failed e, s)"
| "lstep cfg (LLaunch (Inr b)) s = issue (pup_new_page b) LNewPage (s\<lparr>s_browser := Some b\<rparr>)"
| "lstep cfg (LNewPage (Inl e)) s = (launch_failed e, s)"
| "lstep cfg (LNewPage (Inr p)) s = issue (pup_set_user_agent p user_agent) LAgent (s\<lparr>s_page := Some p\<rparr>)"
| "lstep cfg (LAgent (Inl e)) s = (launch_failed e, s)"
| "lstep cfg (LAgent (Inr _)) s =
     (case s_page s of
        None \<Rightarrow> (launch_failed (null_read ''goto''), s)
      | Some p \<Rightarrow> issue (pup_goto p (c_url cfg) 30000) LGoto s)"
| "lstep cfg (LGoto (Inl e)) s = (launch_failed e, s)"
| "lstep cfg (LGoto (Inr _)) s =
     (case s_page s of
        None \<Rightarrow> (launch_failed (null_read ''waitForSelector''), s)
      | Some p \<Rightarrow> issue (pup_wait_for_selector p ''.cm-editor'' 10000) LWait s)"
| "lstep cfg (LWait (Inl e)) s = (launch_failed e, s)"
| "lstep cfg (LWait (Inr _)) s = (LDone (Inr (s_browser s, s_page s)), s)"
| "lstep cfg (LDone r) s = (LDone r, s)"

text \<open>The result of \<open>launchBrowser\<close>, as the pair of module variables it reads.\<close>

definition some_pair :: "js_error + nat \<times> nat \<Rightarrow> js_error + nat option \<times> nat option" where
  "some_pair r = map_sum id (\<lambda>(b, p). (Some b, Some p)) r"

text \<open>How many resumptions a thread still needs at most: every step lowers it, until \<open>LDone\<close>.\<close>

fun lrank :: "lpc \<Rightarrow> nat" where
  "lrank LStart = 7"
| "lrank (LProbe _) = 6"
| "lrank (LLaunch _) = 5"
| "lrank (LNewPage _) = 4"
| "lrank (LAgent _) = 3"
| "lrank (LGoto _) = 2"
| "lrank (LWait _) = 1"
| "lrank (LDone _) = 0"

text \<open>A thread run alone for \<open>n\<close> steps, and two threads under a schedule
  (\<open>True\<close> resumes the first).\<close>

fun lrun :: "config \<Rightarrow> nat \<Rightarrow> lpc \<Rightarrow> sys \<Rightarrow> lpc \<times> sys" where
  "lrun cfg 0 pc s = (pc, s)"
| "lrun cfg (Suc n) pc s = (case lstep cfg pc s of (pc', s') \<Rightarrow> lrun cfg n pc' s')"

fun sched :: "config \<Rightarrow> bool list \<Rightarrow> lpc \<times> lpc \<times> sys \<Rightarrow> lpc \<times> lpc \<times> sys" where
  "sched cfg [] st = st"
| "sched cfg (a # as) (pa, pb, s) =
     sched cfg as
       (if a then (case lstep cfg pa s of (pa', s') \<Rightarrow> (pa', pb, s'))
        else (case lstep cfg pb s of (pb', s') \<Rightarrow> (pa, pb', s')))"

lemma issue_run [simp]: "issue f k s = (case f (s_world s) of (r, w) \<Rightarrow> (k r, s\<lparr>s_world := w\<rparr>))"
  by (simp add: issue_def split: prod.splits)

lemma lrun_done [simp]: "lrun cfg n (LDone r) s = (LDone r, s)"
  by (induction n) simp_all

lemma lrun_numeral [simp]:
  "lrun cfg (numeral k) pc s = (case lstep cfg pc s of (pc', s') \<Rightarrow> lrun cfg (pred_numeral k) pc' s')"
  by (simp add: numeral_eq_Suc)

lemmas lrun_simps = launch_fresh_def issue_launch_def some_pair_def launch_failed_def

lemma lrun_fresh:
  "(case issue_launch cfg s of (pc, s1) \<Rightarrow> lrun cfg 5 pc s1) =
     (LDone (some_pair (fst (launch_fresh cfg s))), snd (launch_fresh cfg s))"
proof -
  obtain r1 w1 where l: "pup_launch (launch_options cfg) (s_world s) = (r1, w1)" by fastforce
  show ?thesis
  proof (cases r1)
    case (Inl e)
    with l show ?thesis by (simp add: lrun_simps)
  next
    case (Inr b)
    obtain r2 w2 where n: "pup_new_page b w1 = (r2, w2)" by fastforce
    show ?thesis
    proof (cases r2)
      case (Inl e)
      with l n Inr show ?thesis by (simp add: lrun_simps)
    next
      case p: (Inr p)
      obtain r3 w3 where u: "pup_set_user_agent p user_agent w2 = (r3, w3)" by fastforce
      show ?thesis
      proof (cases r3)
        case (Inl e)
        with l n u Inr p show ?thesis by (simp add: lrun_simps)
      next
        case u3: (Inr x)
        obtain r4 w4 where g: "pup_goto p (c_url cfg) 30000 w3 = (r4, w4)" by fastforce
        show ?thesis
        proof (cases r4)
          case (Inl e)
          with l n u g Inr p u3 show ?thesis by (simp add: lrun_simps)
        next
          case g4: (Inr y)
          obtain r5 w5 where w: "pup_wait_for_selector p ''.cm-editor'' 10000 w4 = (r5, w5)" by fastforce
          with l n u g Inr p u3 g4 show ?thesis by (cases r5) (simp_all add: lrun_simps)
        qed
      qed
    qed
  qed
qed

lemma lrun_more:
  "lrun cfg n pc s = (LDone r, s') \<Longrightarrow> lrun cfg (n + k) pc s = (LDone r, s')"
  by (induction n arbitrary: pc s) (auto split: prod.splits)

text \<open>
  The thread model agrees with \<open>launchBrowser\<close> of \<open>Session\<close>: run alone from any
  session state, a thread reaches its result within seven resumptions, with the result
  and the state of the sequential call.
\<close>

lemma lrun_launchBrowser:
  "lrun cfg 7 LStart s = (LDone (some_pair (fst (launchBrowser cfg s))), snd (launchBrowser cfg s))"
proof (cases "\<exists>b p. s_browser s = Some b \<and> s_page s = Some p")
  case True
  then obtain b p where bp: "s_browser s = Some b" "s_page s = Some p" by blast
  obtain r0 w0 where e: "pup_evaluate p probe_fn (s_world s) = (r0, w0)" by fastforce
  show ?thesis
  proof (cases r0)
    case (Inr v)
    with bp e show ?thesis by (simp add: launchBrowser_def some_pair_def)
  next
    case (Inl x)
    let ?s1 = "s\<lparr>s_world := w0, s_browser := None, s_page := None\<rparr>"
    obtain pc1 s1 where i: "issue_launch cfg ?s1 = (pc1, s1)" by fastforce
    have "lrun cfg 7 LStart s = lrun cfg 5 pc1 s1"
      using bp e Inl i by simp
    moreover have "lrun cfg 5 pc1 s1 = (LDone (some_pair (fst (launch_fresh cfg ?s1))), snd (launch_fresh cfg ?s1))"
      using lrun_fresh [of cfg ?s1] i by (simp del: lrun_numeral)
    ultimately show ?thesis using bp e Inl by (simp add: launchBrowser_def del: lrun_numeral)
  qed
next
  case False
  then have ls: "launchBrowser cfg s = launch_fresh cfg s"
    by (auto simp: launchBrowser_def split: option.splits)
  obtain pc s1 where i: "issue_launch cfg s = (pc, s1)" by fastforce
  have "lrun cfg 5 pc s1 = (LDone (some_pair (fst (launch_fresh cfg s))), snd (launch_fresh cfg s))"
    using lrun_fresh [of cfg s] i by (simp del: lrun_numeral)
  then have "lrun cfg (5 + 1) pc s1 = (LDone (some_pair (fst (launch_fresh cfg s))), snd (launch_fresh cfg s))"
    by (rule lrun_more)
  moreover have "lrun cfg 7 LStart s = lrun cfg 6 pc s1"
    using False i by (auto split: option.splits)
  ultimately show ?thesis by (simp add: ls del: lrun_numeral)
qed

lemma lrank_zero: "lrank pc = 0 \<longleftrightarrow> (\<exists>r. pc = LDone r)"
  by (cases pc) auto

lemma lrank_lstep: "lrank (fst (lstep cfg pc s)) \<le> lrank pc - 1"
  by (cases "(cfg, pc, s)" rule: lstep.cases)
     (simp_all add: issue_launch_def launch_failed_def split: prod.splits option.splits)

lemma lrank_sched:
  "sched cfg sc (pa, pb, s) = (pa', pb', s') \<Longrightarrow>
   lrank pa' \<le> lrank pa - count_list sc True \<and> lrank pb' \<le> lrank pb - count_list sc False"
proof (induction sc arbitrary: pa pb s)
  case Nil
  then show ?case by simp
next
  case (Cons a sc)
  show ?case
  proof (cases a)
    case True
    obtain pa1 s1 where st: "lstep cfg pa s = (pa1, s1)" by fastforce
    with Cons.prems True have "sched cfg sc (pa1, pb, s1) = (pa', pb', s')" by simp
    with Cons.IH have "lrank pa' \<le> lrank pa1 - count_list sc True \<and> lrank pb' \<le> lrank pb - count_list sc False" .
    moreover have "lrank pa1 \<le> lrank pa - 1" using lrank_lstep [of cfg pa s] st by simp
    ultimately show ?thesis using True by (simp; arith)
  next
    case False
    obtain pb1 s1 where st: "lstep cfg pb s = (pb1, s1)" by fastforce
    with Cons.prems False have "sched cfg sc (pa, pb1, s1) = (pa', pb', s')" by simp
    with Cons.IH have "lrank pa' \<le> lrank pa - count_list sc True \<and> lrank pb' \<le> lrank pb1 - count_list sc False" .
    moreover have "lrank pb1 \<le> lrank pb - 1" using lrank_lstep [of cfg pb s] st by simp
    ultimately show ?thesis using False by (simp; arith)
  qed
qed

text \<open>
  Seven resumptions of each thread are enough fuel: under any such schedule both calls
  have finished, since every resumption lowers \<open>lrank\<close>.
\<close>

lemma launch_threads_terminate:
  assumes "7 \<le> count_list sc True" "7 \<le> count_list sc False"
  shows "\<exists>ra rb s'. sched cfg sc (LStart, LStart, s) = (LDone ra, LDone rb, s')"
proof -
  obtain pa' pb' s' where r: "sched cfg sc (LStart, LStart, s) = (pa', pb', s')" by (cases "sched cfg sc (LStart, LStart, s)") auto
  from lrank_sched [OF r] assms have "lrank pa' = 0" "lrank pb' = 0" by simp_all
  with r show ?thesis by (auto simp: lrank_zero)
qed

lemmas conc_eval = world_defs page_live_def page_dom_def logged_def upd_page_def issue_launch_def Let_def
  probe_fn_def

text \<open>
  C12 (concurrent cold starts leak a browser).  From an empty session, two
  \<^verbatim>\<open>launchBrowser\<close> calls whose awaits alternate both launch a browser; the second
  assignment to \<^verbatim>\<open>browser\<close> overwrites the first, both calls resolve with the
  second browser and the page it opened last, and the first browser process keeps
  running with no variable referring to it.  Run one after the other, the same two
  calls launch a single browser: the second reuses it after the probe.
\<close>

theorem concurrent_cold_starts_leak:
  assumes "s_browser s = None" "s_page s = None" "w_chrome (s_world s)" "w_online (s_world s)"
    "d_editor (w_site (s_world s))" "n = w_next (s_world s)"
  shows "(\<exists>s'. sched cfg [True, False, True, False, True, False, True, False, True, False, True, False]
                  (LStart, LStart, s) =
              (LDone (Inr (Some (n + 1), Some (n + 3))), LDone (Inr (Some (n + 1), Some (n + 3))), s') \<and>
            n \<in> set (w_browsers (s_world s')) \<and> s_browser s' = Some (n + 1)) \<and>
         (\<exists>s'. sched cfg [True, True, True, True, True, True, True, False, False, False, False, False, False, False]
                  (LStart, LStart, s) =
              (LDone (Inr (Some n, Some (n + 1))), LDone (Inr (Some n, Some (n + 1))), s') \<and>
            w_browsers (s_world s') = w_browsers (s_world s) @ [n])"
  using assms by (simp add: conc_eval)

text \<open>
  C28 (concurrent cold starts hold a page of another browser).  From an empty session,
  when the second call's \<^verbatim>\<open>browser = await puppeteer.launch()\<close> lands after the
  first call's, but the first call's \<^verbatim>\<open>page = await browser.newPage()\<close> lands last,
  both calls resolve with the second browser and the first call's page, which belongs to
  the first browser: the session invariant \<open>sess_wf\<close> of \<open>Session\<close> no longer holds.
  \<^verbatim>\<open>closeBrowser\<close> then closes the second browser and clears both variables, while
  the held page keeps running in the first browser, which no variable refers to.
\<close>

theorem concurrent_launch_mismatched_page:
  assumes "s_browser s = None" "s_page s = None" "w_chrome (s_world s)" "w_online (s_world s)"
    "d_editor (w_site (s_world s))" "n = w_next (s_world s)"
  shows "\<exists>s'. sched cfg [True, False, True, False, False, True, True, True, True, False, False, False]
                (LStart, LStart, s) =
              (LDone (Inr (Some (n + 1), Some (n + 2))), LDone (Inr (Some (n + 1), Some (n + 2))), s') \<and>
            map_option pg_owner (w_pages (s_world s') (n + 2)) = Some n \<and> \<not> sess_wf s' \<and>
            s_browser (snd (closeBrowser s')) = None \<and> s_page (snd (closeBrowser s')) = None \<and>
            page_live (s_world (snd (closeBrowser s'))) (n + 2)"
  using assms by (simp add: conc_eval sess_wf_def closeBrowser_def)
end
