(* ===== verification/Spec2Isabelle.thy ===== *)
theory Spec2Isabelle
  imports Scenarios Utils Tools Server Concurrency
begin

text \<open>
  \<^bold>\<open>A verification library for strudel-mcp.\<close>

  \<^bold>\<open>The program.\<close>  strudel-mcp drives the live-coding editor at
  \<^verbatim>\<open>strudel.cc\<close> through a headless Chromium controlled by Puppeteer.  Its core
  is two layered modules: the session manager \<^verbatim>\<open>src/src/browser.js\<close>, which owns
  the process-wide singletons \<^verbatim>\<open>browser\<close> and \<^verbatim>\<open>page\<close> and launches, probes,
  closes and restarts them; and the command bridge \<^verbatim>\<open>src/src/strudel.js\<close>, whose
  six operations obtain the page from \<^verbatim>\<open>getPage()\<close>, evaluate small functions in
  it, type key combinations and wait fixed settle delays.  Around them sit helpers
  (\<^verbatim>\<open>utils.js\<close>), an in-memory pattern state with history (\<^verbatim>\<open>state.js\<close>),
  two tool modules (\<^verbatim>\<open>tools/control.js\<close>, \<^verbatim>\<open>tools/persistence.js\<close>) and
  the MCP server (\<^verbatim>\<open>index.js\<close>).

  \<^bold>\<open>How it is modelled.\<close>  Shallow embedding, one theory per part:
  \<^item> \<open>Prelude\<close>: the error type \<open>js_error\<close> (a JavaScript \<^verbatim>\<open>Error\<close> with its
    message) and the exception-state monad \<open>('s, 'a) exc\<close>: an \<^verbatim>\<open>async\<close>
    function is a function from the state to a result (\<open>Inl\<close> a rejection,
    \<open>Inr\<close> a value) and the state it leaves, \<^verbatim>\<open>await\<close> is \<open>bindE\<close>,
    \<^verbatim>\<open>try\<close>/\<^verbatim>\<open>catch\<close> is \<open>catchE\<close>, \<^verbatim>\<open>throw\<close> is \<open>throwE\<close>.
  \<^item> \<open>World\<close>: the environment, which is not code of the repository and is not
    mapped: browsers, pages (owner, attached or crashed, URL, user agent, DOM), the
    DOM parts the page functions touch, Puppeteer's calls (\<open>pup_launch\<close>,
    \<open>pup_new_page\<close>, \<open>pup_goto\<close>, \<open>pup_wait_for_selector\<close>,
    \<open>pup_evaluate\<close>, the keyboard, \<open>pup_wait\<close>, \<open>pup_close\<close>) with their
    failures, an append-only trace of every remote action, and the environment
    events (\<open>env_step\<close>).
  \<^item> \<open>Session\<close> (\<^verbatim>\<open>browser.js\<close>): the module state as the record \<open>sys\<close>
    (fields \<open>s_browser\<close>, \<open>s_page\<close> and the world), the resolved configuration
    as \<open>config\<close>, and \<open>launchBrowser\<close> (with its \<^verbatim>\<open>try\<close> block
    \<open>launch_fresh\<close>), \<open>getPage\<close>, \<open>closeBrowser\<close>, \<open>restartBrowser\<close>,
    \<open>isBrowserAlive\<close>, each assigning the module variables exactly where the
    source does.
  \<^item> \<open>Bridge\<close> (\<^verbatim>\<open>strudel.js\<close>): \<open>executePattern\<close>, \<open>stopPlayback\<close>,
    \<open>startPlayback\<close>, \<open>getCurrentCode\<close>, \<open>isPlaying\<close>, \<open>setTempo\<close> and the
    page functions they evaluate (\<open>set_code_fn\<close> with the CodeMirror change
    \<open>cm_replace\<close>, \<open>get_code_fn\<close>, \<open>playing_fn\<close>, \<open>setcps_fn\<close>).
  \<^item> \<open>Config\<close> (\<^verbatim>\<open>browser.js\<close>, lines 22--28): \<open>resolve_config\<close>, the
    configuration object computed from the environment with the idioms
    \<^verbatim>\<open>parseInt(v) || d\<close> and \<^verbatim>\<open>v || d\<close> (\<open>int_or\<close>, \<open>str_or\<close>); the
    scenarios run under the configuration of an empty environment.
  \<^item> \<open>Lifecycle\<close>: the datatype \<open>op\<close> of exported calls, \<open>run_op\<close> and
    \<open>run_ops\<close>, and the inductive step relation \<open>sys_step\<close> in which a step is
    one call run to completion or one environment event; \<open>reachable\<close> states
    start from an empty session in any world.
  \<^item> \<open>JsString\<close>: the JavaScript string built-ins the helpers call
    (\<^verbatim>\<open>toLowerCase\<close>, \<^verbatim>\<open>startsWith\<close>, \<^verbatim>\<open>endsWith\<close>, \<^verbatim>\<open>includes\<close>,
    \<^verbatim>\<open>trim\<close>, \<^verbatim>\<open>split\<close>, \<^verbatim>\<open>join\<close>), related to the list library.
  \<^item> \<open>Utils\<close> (\<^verbatim>\<open>utils.js\<close>): \<open>bpmToCps\<close>, \<open>cpsToBpm\<close>,
    \<open>validateCode\<close> with its counting loop \<open>paren_scan\<close>,
    \<open>generateCodeFromDescription\<close>, \<open>modifyCode\<close> as a fold of its seven
    rewrite blocks (\<open>mod_rule\<close>), \<open>stackPatterns\<close>, \<open>formatCode\<close> (called
    nowhere) as its three regular-expression replacements; the reference definition
    \<open>balanced\<close> (no prefix closes more than it opened) specifies the loop.
  \<^item> \<open>State\<close> (\<^verbatim>\<open>state.js\<close>): the module object as the record
    \<open>app_state\<close> and its mutators \<open>setCode\<close> (history capped at
    \<open>history_limit\<close> = 50 by \<^verbatim>\<open>shift\<close>), \<open>setBpm\<close>, \<open>setPlaying\<close>,
    \<open>undo\<close>, \<open>clearHistory\<close>, \<open>resetState\<close> and the getters
    (\<open>getState\<close>, \<open>getCurrentCode_state\<close>, ...), through which the tools read it;
    the clock and the environment are parameters.
  \<^item> \<open>Control\<close> (\<^verbatim>\<open>tools/control.js\<close>): \<open>stop\<close>, \<open>start\<close>,
    \<open>control_setTempo\<close>, \<open>getCurrent\<close> over the record \<open>app\<close> pairing the
    session with the application state; \<open>on_sys\<close> runs a bridge command on the
    session, \<open>on_state\<close> updates the application state.
  \<^item> \<open>PatternFile\<close> (\<^verbatim>\<open>utils.js\<close>, file format): \<open>createPatternFile\<close>,
    \<open>extractMetadata\<close> (a fold of \<open>meta_line\<close> over the lines),
    \<open>extractCode\<close>; a tempo is \<open>real option\<close> (\<open>None\<close> is \<^verbatim>\<open>NaN\<close>) and
    \<^verbatim>\<open>parseInt\<close> is modelled in \<open>JsString\<close> with its sign, \<^verbatim>\<open>0x\<close> and
    digit-run rules.
  \<^item> \<open>FileSystem\<close>: the environment of the persistence tool, not mapped: the
    patterns directory as an association list of files in \<^verbatim>\<open>readdir\<close> order
    plus the names of its subdirectories, and Node's \<^verbatim>\<open>access\<close>, \<^verbatim>\<open>mkdir\<close>,
    \<^verbatim>\<open>readFile\<close>, \<^verbatim>\<open>writeFile\<close>, \<^verbatim>\<open>readdir\<close>, \<^verbatim>\<open>unlink\<close> with their
    \<^verbatim>\<open>ENOENT\<close>/\<^verbatim>\<open>EACCES\<close>/\<^verbatim>\<open>EISDIR\<close> rejections (\<open>SysError\<close>
    carries the \<^verbatim>\<open>code\<close>); \<open>fs_names_distinct\<close> says the listed names are
    distinct.
  \<^item> \<open>Persistence\<close> (\<^verbatim>\<open>tools/persistence.js\<close>): \<open>savePattern\<close>,
    \<open>loadPattern\<close>, \<open>listPatterns\<close> (its read loop \<open>collect_patterns\<close> and a
    stable newest-first \<open>sort_key\<close>), \<open>deletePattern\<close>, \<open>ensurePatternsDir\<close>
    and the file-name sanitising \<open>sanitize\<close>, over \<open>pstate\<close>, the record of
    \<open>Control\<close> extended with the file system.
  \<^item> \<open>Tools\<close> (\<^verbatim>\<open>tools/control.js\<close> and \<^verbatim>\<open>tools/persistence.js\<close>
    together): the datatype \<open>tool_op\<close> of the eight tool operations and one step
    function \<open>run_tool\<close> over the state they share, \<open>pstate\<close>; its
    well-formedness \<open>pstate_wf\<close> joins the session invariant, the 50-entry history
    bound and distinct file names, and \<open>keeps_parts\<close> is its frame condition, closed
    under the monad combinators and the lifts \<open>on_sys\<close>, \<open>on_state\<close>,
    \<open>on_fs\<close>.
  \<^item> \<open>Server\<close> (\<^verbatim>\<open>index.js\<close>): the tool table \<open>tools\<close>, the ListTools
    handler \<open>list_tools\<close> and the CallTool handler \<open>handle_call\<close> (the
    \<^verbatim>\<open>switch\<close> is \<open>call_body\<close>, argument reads \<open>arg_text\<close>, its
    \<^verbatim>\<open>catch\<close> the \<open>Inl\<close> branch); the handler keeps no state.
  \<^item> \<open>Concurrency\<close> (\<^verbatim>\<open>browser.js\<close>, \<^verbatim>\<open>launchBrowser\<close> under
    concurrency): a call cut at its \<^verbatim>\<open>await\<close> points is a thread (\<open>lpc\<close>,
    \<open>lstep\<close>) that reads the module variables when it issues each call;
    \<open>lrun\<close> runs one thread with fuel, \<open>sched\<close> two threads under a schedule
    (a list of which thread resumes next).  Seven resumptions are enough fuel: the
    measure \<open>lrank\<close> bounds the remaining awaits.
  \<^item> \<open>Scenarios\<close>: concrete configurations, worlds and the states the model
    computes from them, used by the witnesses.
  \<^item> this theory: the findings about the session and the witnesses of the claims.
  Numbers of the JavaScript program are \<open>int\<close> (viewport sizes), \<open>nat\<close>
  (handles, timeouts) or \<open>real\<close> (tempo); no claim depends on the width of a
  double, so floating point is not modelled (see the findings of the manifest).
  Strings are \<open>string\<close>, one \<open>char\<close> per UTF-16 code unit of the source.

  \<^bold>\<open>What is proved.\<close>
  \<^item> Invariant (\<open>Lifecycle\<close>): in every reachable state a held page is held with
    the browser that created it (\<open>sess_wf\<close>, \<open>reachable_sess_wf\<close>); every
    operation and every environment event keeps it.
  \<^item> Session manager: a launch that resolves hands out a live page; from any state
    a launch resolves whenever the environment allows it; a second launch after a
    resolved one reuses the pair and launches nothing; the probe's answer; closing
    is idempotent.
  \<^item> Bridge: the full-document replacement and the exact order of actions of
    \<open>executePattern\<close>, the write-then-read round trip, the outcome on every
    branch with the stable error prefixes, introspection that never rejects and
    degrades to \<^verbatim>\<open>''\<close> and \<^verbatim>\<open>false\<close>, tempo
    conversion, the key sequences of stop and start.
  \<^item> Helpers: \<open>validateCode\<close> accepts exactly the balanced codes with even quote
    counts; generated code is valid; \<open>modifyCode\<close> turns every valid pattern
    ending in a call into invalid code (a finding); \<open>stackPatterns\<close> keeps
    validity, and on every valid \<^verbatim>\<open>stack(a).m(b)\<close> nests the new instrument into
    \<^verbatim>\<open>m(...)\<close> (a finding); the tempo conversions are inverse on the reals.
  \<^item> Pattern state: the history never exceeds 50 entries after any run of
    operations; a run of \<open>setCode\<close> keeps exactly the last 50 of the unbounded
    history (\<open>lastn\<close>), a refinement; \<open>undo\<close> gives back the code
    \<open>setCode\<close> replaced.
  \<^item> Tools together: every tool operation, resolving or rejecting, keeps the shared
    state well formed (\<open>run_tool_wf\<close>), by the frame lemmas of each component;
    after any run of tool calls (\<open>run_tools\<close>) the recorded \<^verbatim>\<open>isPlaying\<close> is the
    playing flag of the last result that reported one (\<open>isPlaying_reports\<close>).
  \<^item> Pattern files and persistence: the code and the metadata of a created file read
    back exactly under stated conditions; saving then loading a pattern plays the
    saved code and restores code, tempo and metadata; a missing pattern is reported
    as not found with no other effect; \<open>listPatterns\<close> returns exactly the entries
    of the regular \<^verbatim>\<open>.strudel\<close> files, stably sorted newest first, skipping
    subdirectories; a saved pattern is then listed once, from the content just
    written, beside exactly the other pattern files (a multiset equation on the
    listed names); \<open>deletePattern\<close> has its outcome on every branch, and a deleted
    pattern then loads as not found.  Findings: an empty tag list reads back as
    \<^verbatim>\<open>['']\<close>, a fractional tempo reads back truncated, names with the same
    sanitised form overwrite each other, and a newline in the description injects code
    that loading executes; errors other than \<^verbatim>\<open>ENOENT\<close> (such as
    \<^verbatim>\<open>EISDIR\<close>) reach the client as Node's raw message.
  \<^item> Server: every listed tool answers with a "not yet implemented" text (a finding:
    nothing reaches the modelled core from the MCP server), and unknown names are
    answered with an error result.
  \<^item> Concurrency: the thread model computes exactly \<open>launchBrowser\<close> when run alone
    (\<open>lrun_launchBrowser\<close>, a check of the model, not a property of the code) and
    any schedule giving each of two calls seven resumptions ends both.  Findings:
    alternating two cold starts leaks the first browser process while running them
    one after the other launches one; a crossed order of the two calls' assignments
    leaves the session holding a page of the other browser, which
    \<open>closeBrowser\<close> then leaves running.  \<^verbatim>\<open>waitForSelector\<close> is checked when it
    is issued, where the real call waits up to 10 s, so no claim rests on an
    interleaving that would make it fail.
  \<^item> Findings, proved as theorems: \<open>getPage\<close> never re-validates a held page;
    a failed launch leaves the session populated; a failed navigation leaves a
    session in which \<open>executePattern\<close> fails for ever; a stale relaunch leaks the
    old browser process; an editor without a view or textarea makes
    \<open>executePattern\<close> report success without writing.

  \<^bold>\<open>Bounds and fuel.\<close>  No loop of the modelled code is unbounded: every
  operation is a fixed sequence of awaits, so every definition is total.  The only
  fuel is that of the thread runs of \<open>Concurrency\<close>: a \<^verbatim>\<open>launchBrowser\<close> call
  has at most seven awaits, and the theorems show seven resumptions always suffice.
  The fixed timeouts (30000 ms navigation, 10000 ms editor wait) and settle delays (200 ms, 500 ms) are kept as the numbers the code passes and appear
  in the action trace; time itself is not modelled, so a timeout is the failure
  of the corresponding Puppeteer call.

  \<^bold>\<open>Not modelled.\<close>  Every function and module variable under \<^verbatim>\<open>src/\<close>
  that computes or changes state is a definition here.  What is left is I/O with no
  effect on the modelled state: \<^verbatim>\<open>debug\<close> in \<^verbatim>\<open>utils.js\<close> and the debug lines
  of the other modules (stderr only, behind \<^verbatim>\<open>DEBUG\<close>), the MCP SDK
  \<^verbatim>\<open>Server\<close> object with its name, version and capabilities, its stdio transport
  and \<^verbatim>\<open>main\<close> in \<^verbatim>\<open>index.js\<close>, and the imports.  The
  JavaScript built-ins are modelled on 8-bit characters: a code unit above 255 is not
  representable, and white space is that of JavaScript among 8-bit characters.  The
  interleaving model covers \<^verbatim>\<open>launchBrowser\<close> only; the other operations are
  modelled as calls run to completion (\<open>sys_step\<close>).
\<close>

section \<open>States the findings are about\<close>

text \<open>
  A session stuck on a page without editor: it holds a live page on which the
  \<^verbatim>\<open>.cm-editor\<close> element is missing.
\<close>

definition stuck_on :: "sys \<Rightarrow> nat \<Rightarrow> bool" where
  "stuck_on s p \<longleftrightarrow>
     sess_wf s \<and> s_page s = Some p \<and> page_live (s_world s) p \<and> \<not> d_editor (page_dom (s_world s) p)"

section \<open>Data of the witnesses of the persistence claims\<close>

text \<open>
  \<^verbatim>\<open>Number.prototype.toString\<close> on integral values, the only ones these witnesses
  print; a pattern state holding \<^verbatim>\<open>note(c3)\<close> at the default tempo; an empty,
  writable file system without the patterns directory.
\<close>

definition int_str :: "real \<Rightarrow> string" where
  "int_str x = show_int \<lfloor>x\<rfloor>"

definition st_c3 :: app_state where
  "st_c3 = setCode ''t0'' ''note(c3)'' (init_state None)"

definition fs0 :: fsys where
  "fs0 = \<lparr>fs_dir = False, fs_writable = True, fs_files = [], fs_subdirs = []\<rparr>"

definition ps0 :: pstate where
  "ps0 = \<lparr>app_sys = s_ready, app_st = st_c3, ps_fs = fs0\<rparr>"

text \<open>
  A patterns directory with two saved patterns, a file of another kind and a
  subdirectory whose name ends in \<^verbatim>\<open>.strudel\<close>.
\<close>

definition fs_dir1 :: fsys where
  "fs_dir1 = \<lparr>fs_dir = True, fs_writable = True,
     fs_files = [(''b.strudel'', ''# Modified: 1''), (''notes.txt'', []), (''a.strudel'', ''# Modified: 2'')],
     fs_subdirs = [''old.strudel'']\<rparr>"

definition ps_dir :: pstate where
  "ps_dir = ps0\<lparr>ps_fs := fs_dir1\<rparr>"

section \<open>Findings: where the code departs from the specification\<close>

lemma launch_fresh_browsers:
  "launch_fresh cfg s = (r, s') \<Longrightarrow>
     set (w_browsers (s_world s)) \<subseteq> set (w_browsers (s_world s')) \<and>
     (s_browser s' = s_browser s \<or> s_browser s' = Some (w_next (s_world s)))"
  unfolding launch_fresh_def
  by (auto simp: world_defs Let_def split: if_splits prod.splits sum.splits)

text \<open>
  C13 (no self-healing in \<^verbatim>\<open>getPage\<close>).  Once a page is held, \<^verbatim>\<open>getPage\<close>
  returns it without probing it: when that page has died, \<^verbatim>\<open>getPage\<close> hands back the
  dead page and changes nothing, the liveness probe reports it dead, and every
  \<^verbatim>\<open>executePattern\<close> rejects.  The specification's \<^verbatim>\<open>ensure()\<close> re-validates and
  relaunches instead.
\<close>

theorem getPage_returns_dead_page:
  assumes "s_page s = Some p" "\<not> page_live (s_world s) p"
  shows "getPage cfg s = (Inr p, s) \<and> fst (isBrowserAlive s) = Inr False \<and>
    fst (executePattern cfg code s) = Inl (Error ''Failed to execute pattern: Protocol error: Target closed'')"
  using assms
  by (auto simp: getPage_held isBrowserAlive_def executePattern_def pup_evaluate_def target_closed_def
           split: option.splits)

text \<open>
  C14 (partial state after a failed launch).  A cold launch whose navigation times
  out rejects with \<^verbatim>\<open>Browser launch failed: ...\<close>, yet leaves both module variables
  set, to the new browser and to a live page that never loaded the site.  The
  specification requires both to stay \<^verbatim>\<open>null\<close>.
\<close>

theorem failed_launch_keeps_session:
  assumes "w_chrome (s_world s)" "\<not> w_online (s_world s)" "s_page s = None"
  shows "\<exists>s'. launchBrowser cfg s =
      (Inl (Error ''Browser launch failed: Navigation timeout of 30000 ms exceeded''), s') \<and>
    s_browser s' = Some (w_next (s_world s)) \<and> s_page s' = Some (Suc (w_next (s_world s))) \<and>
    page_live (s_world s') (Suc (w_next (s_world s)))"
proof -
  have "launchBrowser cfg s = launch_fresh cfg s"
    using assms(3) by (simp add: launchBrowser_def split: option.splits)
  then show ?thesis
    using assms(1,2)
    by (simp add: launch_fresh_def world_defs Let_def page_live_def w_pages_upd_page
                  show_nat.simps digit_chars_def)
qed

lemma stuck_run_op:
  assumes "stuck_on s p" "a \<noteq> OpClose" "a \<noteq> OpRestart"
  shows "stuck_on (run_op cfg a s) p"
proof -
  from assms(1) obtain b where b: "s_browser s = Some b"
    by (auto simp: stuck_on_def sess_wf_def split: option.splits)
  have wf: "sess_wf (run_op cfg a s)" using assms(1) run_op_wf by (auto simp: stuck_on_def)
  show ?thesis
    using assms b wf
    by (cases a)
       (auto simp: stuck_on_def getPage_held launchBrowser_def isBrowserAlive_def bridge_defs
                   world_defs probe_fn_def set_code_fn_def get_code_fn_def playing_fn_def
                   setcps_fn_def Let_def page_dom_def page_live_def w_pages_upd_page
             split: option.splits)
qed

lemma stuck_run_ops:
  "stuck_on s p \<Longrightarrow> list_all (\<lambda>a. a \<noteq> OpClose \<and> a \<noteq> OpRestart) ops \<Longrightarrow> stuck_on (run_ops cfg ops s) p"
  by (induction ops arbitrary: s) (auto intro: stuck_run_op)

text \<open>
  C15 (a failed navigation is permanent).  When the held page is live but shows no
  editor (the state a failed navigation leaves), every later \<^verbatim>\<open>executePattern\<close>
  rejects with \<^verbatim>\<open>Editor not found\<close>, after any sequence of calls that does not
  close or restart the browser: \<^verbatim>\<open>getPage\<close> keeps the page and
  \<^verbatim>\<open>launchBrowser\<close>'s probe finds it alive.
\<close>

theorem failed_navigation_bricks_bridge:
  assumes "stuck_on s p" "list_all (\<lambda>a. a \<noteq> OpClose \<and> a \<noteq> OpRestart) ops"
  shows "fst (executePattern cfg code (run_ops cfg ops s)) =
           Inl (Error ''Failed to execute pattern: Editor not found'')"
proof -
  have "stuck_on (run_ops cfg ops s) p" using assms by (rule stuck_run_ops)
  then show ?thesis
    by (auto simp: stuck_on_def getPage_held executePattern_def world_defs set_code_fn_def
             split: option.splits)
qed

text \<open>
  C16 (leaked browser process).  When the held page has died while its browser
  process still runs, \<^verbatim>\<open>launchBrowser\<close> drops the handle without closing it: the old
  process is still open afterwards but no module variable refers to it, so
  \<^verbatim>\<open>closeBrowser\<close> can never close it.
\<close>

theorem stale_relaunch_leaks_browser:
  assumes "sess_wf s" "s_browser s = Some b" "s_page s = Some p" "\<not> page_live (s_world s) p"
    "b \<in> set (w_browsers (s_world s))" "launchBrowser cfg s = (r, s')"
  shows "b \<in> set (w_browsers (s_world s')) \<and> s_browser s' \<noteq> Some b"
proof -
  have "launch_fresh cfg (s\<lparr>s_browser := None, s_page := None\<rparr>) = (r, s')"
    using assms(2-4,6) by (simp add: launchBrowser_def pup_evaluate_def)
  from launch_fresh_browsers [OF this] assms(1,2,5) show ?thesis
    by (auto simp: sess_wf_def)
qed

section \<open>Witnesses\<close>

text \<open>
  Each theorem with hypotheses is applied at a concrete state of
  \<open>Scenarios\<close>, with its hypotheses discharged there by evaluation.
\<close>

theorem reachable_sess_wf_witness: "reachable cfg0 w_ok s_ready \<and> sess_wf s_ready"
proof -
  have r: "reachable cfg0 w_ok s_ready"
    unfolding s_ready_def by (rule reachable.step [OF reachable.start sys_step.call])
  show ?thesis using r reachable_sess_wf [OF r] by simp
qed

theorem launchBrowser_returns_live_witness:
  "launchBrowser cfg0 (init_sys w_ok) = (Inr (0, 1), s_ready) \<and>
   page_live (s_world s_ready) 1 \<and> s_browser s_ready = Some 0 \<and> s_page s_ready = Some 1"
  using launchBrowser_returns_live [OF s_ready_launch] s_ready_launch by simp

theorem launchBrowser_heals_witness:
  "w_chrome (s_world s_crashed) \<and> w_online (s_world s_crashed) \<and>
   d_editor (w_site (s_world s_crashed)) \<and> \<not> page_live (s_world s_crashed) 1 \<and>
   (\<exists>b p s'. launchBrowser cfg0 s_crashed = (Inr (b, p), s'))"
  using launchBrowser_heals [of s_crashed cfg0] s_crashed_facts by (simp add: site_dom_def)

theorem executePattern_replaces_document_witness:
  \<open>s_page s_ready = Some 1 \<and> page_live (s_world s_ready) 1 \<and>
   d_editor (page_dom (s_world s_ready) 1) \<and> d_view (page_dom (s_world s_ready) 1) = Some ''// welcome'' \<and>
   (\<exists>s'. executePattern cfg0 ''s("bd sd")'' s_ready = (Inr (PatternResult True ''s("bd sd")'' True), s') \<and>
     d_view (page_dom (s_world s') 1) = Some ''s("bd sd")'' \<and>
     w_trace (s_world s') = w_trace (s_world s_ready) @
       map (Pair 1) [Evaluated, Waited 200, KeyDown ''Control'', KeyPress ''Enter'', KeyUp ''Control'', Waited 500])\<close>
  using executePattern_replaces_document [of s_ready 1 "''// welcome''" cfg0 \<open>''s("bd sd")''\<close>] s_ready_facts
  by (simp add: site_dom_def)

theorem execute_then_read_back_witness:
  \<open>s_page s_ready = Some 1 \<and> page_live (s_world s_ready) 1 \<and> d_editor (page_dom (s_world s_ready) 1) \<and>
   d_view (page_dom (s_world s_ready) 1) \<noteq> None \<and>
   fst (getCurrentCode cfg0 (snd (executePattern cfg0 ''s("bd sd")'' s_ready))) = Inr ''s("bd sd")''\<close>
  using execute_then_read_back [of s_ready 1 cfg0 \<open>''s("bd sd")''\<close>
      "fst (executePattern cfg0 ''s(\"bd sd\")'' s_ready)" "snd (executePattern cfg0 ''s(\"bd sd\")'' s_ready)"]
    s_ready_facts
  by (simp add: site_dom_def)

theorem read_ops_never_reject_witness:
  "fst (getCurrentCode cfg0 s_crashed) = Inr [] \<and> fst (isPlaying cfg0 s_crashed) = Inr False \<and>
   fst (getCurrentCode cfg0 (init_sys (w_ok\<lparr>w_chrome := False\<rparr>))) = Inr [] \<and>
   fst (isPlaying cfg0 (init_sys (w_ok\<lparr>w_chrome := False\<rparr>))) = Inr False"
proof -
  have c: "s_page s_crashed = Some 1 \<and> \<not> page_live (s_world s_crashed) 1" using s_crashed_facts by simp
  have n: "s_page (init_sys (w_ok\<lparr>w_chrome := False\<rparr>)) = None \<and>
      \<not> w_chrome (s_world (init_sys (w_ok\<lparr>w_chrome := False\<rparr>)))" by (simp add: init_sys_def)
  show ?thesis
    using read_ops_never_reject [of cfg0 s_crashed 1] read_ops_never_reject [of cfg0 "init_sys (w_ok\<lparr>w_chrome := False\<rparr>)" 1] c n
    by simp
qed

theorem executePattern_outcome_witness:
  "s_page s_crashed = Some 1 \<and>
   fst (executePattern cfg0 ''note(c3)'' s_crashed) =
     Inl (Error ''Failed to execute pattern: Protocol error: Target closed'')"
  using executePattern_outcome [of s_crashed 1 cfg0 "''note(c3)''"] s_crashed_facts by simp

theorem closeBrowser_idempotent_witness:
  "sess_wf s_ready \<and> fst (closeBrowser s_ready) = Inr () \<and> s_browser (snd (closeBrowser s_ready)) = None \<and>
   s_page (snd (closeBrowser s_ready)) = None \<and>
   closeBrowser (snd (closeBrowser s_ready)) = (Inr (), snd (closeBrowser s_ready))"
proof -
  have wf: "sess_wf s_ready" using s_ready_facts by (simp add: sess_wf_def)
  show ?thesis
    using closeBrowser_idempotent [OF wf, of "fst (closeBrowser s_ready)" "snd (closeBrowser s_ready)"] wf
    by simp
qed

theorem setTempo_held_witness:
  "s_page s_ready = Some 1 \<and> page_live (s_world s_ready) 1 \<and>
   (\<exists>s'. setTempo cfg0 120 s_ready = (Inr (TempoResult True 120 (1 / 2)), s') \<and>
     d_cps (page_dom (s_world s') 1) = Some (1 / 2))"
  using setTempo_held [of s_ready 1 cfg0 120] s_ready_facts by (simp add: site_dom_def)

theorem playback_commands_held_witness:
  "s_page s_ready = Some 1 \<and> page_live (s_world s_ready) 1 \<and>
   (\<exists>s'. stopPlayback cfg0 s_ready = (Inr (PlaybackResult True False), s')) \<and>
   (\<exists>s'. startPlayback cfg0 s_ready = (Inr (PlaybackResult True True), s'))"
  using playback_commands_held [of s_ready 1 cfg0] s_ready_facts by auto

theorem getPage_returns_dead_page_witness:
  "s_page s_crashed = Some 1 \<and> \<not> page_live (s_world s_crashed) 1 \<and>
   getPage cfg0 s_crashed = (Inr 1, s_crashed) \<and> fst (isBrowserAlive s_crashed) = Inr False \<and>
   fst (executePattern cfg0 ''x'' s_crashed) =
     Inl (Error ''Failed to execute pattern: Protocol error: Target closed'')"
  using getPage_returns_dead_page [of s_crashed 1 cfg0 "''x''"] s_crashed_facts by simp

theorem failed_launch_keeps_session_witness:
  "\<exists>s'. launchBrowser cfg0 (init_sys (w_ok\<lparr>w_online := False\<rparr>)) =
      (Inl (Error ''Browser launch failed: Navigation timeout of 30000 ms exceeded''), s') \<and>
    s_browser s' = Some 0 \<and> s_page s' = Some 1 \<and> page_live (s_world s') 1"
  using failed_launch_keeps_session [of "init_sys (w_ok\<lparr>w_online := False\<rparr>)" cfg0]
  by (simp add: init_sys_def w_ok_def)

theorem failed_navigation_bricks_bridge_witness:
  "stuck_on s_stuck 1 \<and>
   fst (executePattern cfg0 ''s(bd)''
        (run_ops cfg0 [OpLaunch, OpExecute ''s(bd)'', OpGetCode, OpSetTempo 90, OpStart] s_stuck)) =
     Inl (Error ''Failed to execute pattern: Editor not found'')"
proof -
  have st: "stuck_on s_stuck 1"
    using s_stuck_facts by (simp add: stuck_on_def sess_wf_def blank_dom_def)
  show ?thesis
    using failed_navigation_bricks_bridge [OF st, of "[OpLaunch, OpExecute ''s(bd)'', OpGetCode, OpSetTempo 90, OpStart]"] st
    by simp
qed

theorem stale_relaunch_leaks_browser_witness:
  "sess_wf s_crashed \<and> \<not> page_live (s_world s_crashed) 1 \<and>
   0 \<in> set (w_browsers (s_world (snd (launchBrowser cfg0 s_crashed)))) \<and>
   s_browser (snd (launchBrowser cfg0 s_crashed)) \<noteq> Some 0"
proof -
  have wf: "sess_wf s_crashed" using s_crashed_facts by (simp add: sess_wf_def)
  show ?thesis
    using stale_relaunch_leaks_browser [OF wf, of 0 1 cfg0 "fst (launchBrowser cfg0 s_crashed)"
        "snd (launchBrowser cfg0 s_crashed)"] wf s_crashed_facts
    by simp
qed

theorem executePattern_silent_noop_witness:
  "s_page s_bare = Some 1 \<and> page_live (s_world s_bare) 1 \<and>
   fst (executePattern cfg0 ''s(bd)'' s_bare) = Inr (PatternResult True ''s(bd)'' True) \<and>
   fst (getCurrentCode cfg0 (snd (executePattern cfg0 ''s(bd)'' s_bare))) = Inr []"
  using executePattern_silent_noop [of s_bare 1 cfg0 "''s(bd)''" "fst (executePattern cfg0 ''s(bd)'' s_bare)"
      "snd (executePattern cfg0 ''s(bd)'' s_bare)"] s_bare_facts
  by (simp add: site_dom_def)

theorem validateCode_iff_witness:
  "v_valid (validateCode ''s(a)'') \<and> balanced ''s(a)'' \<and> \<not> balanced '')(''"
  using validateCode_iff [of "''s(a)''"] validateCode_iff [of "'')(''"]
  by (simp add: validateCode_def)

theorem modifyCode_breaks_valid_code_witness:
  \<open>v_valid (validateCode ''s("bd")'') \<and> modifyCode ''s("bd")'' ''Add reverb'' \<noteq> ''s("bd")'' \<and>
   modifyCode ''s("bd")'' ''Add reverb'' = ''s("bd".room(0.5).size(0.8)'' \<and>
   \<not> v_valid (validateCode (modifyCode ''s("bd")'' ''Add reverb''))\<close>
proof -
  have v: \<open>v_valid (validateCode ''s("bd")'')\<close> by (simp add: validateCode_def)
  have m: \<open>modifyCode ''s("bd")'' ''Add reverb'' = ''s("bd".room(0.5).size(0.8)''\<close>
    by (simp add: modifyCode_def modify_rules_def mod_rule_def extend_code_def strip_close_def
                  trim_def is_ws_def to_lower_def lower_char_def)
  show ?thesis
    using modifyCode_breaks_valid_code [OF v, of \<open>''Add reverb''\<close>] v m by simp
qed

theorem stackPatterns_valid_witness:
  "v_valid (validateCode ''s(a)'') \<and> v_valid (validateCode ''n(b)'') \<and>
   v_valid (validateCode (stackPatterns ''s(a)'' ''n(b)'')) \<and>
   v_valid (validateCode ''stack(s(a)).slow(2)'') \<and>
   stackPatterns ''stack(s(a)).slow(2)'' ''n(b)'' = ''stack('' @ ''s(a)'' @ '').'' @ ''slow'' @ ''('' @ ''2'' @ [CHR '','', nl, CHR '' '', CHR '' ''] @ ''n(b)'' @ [nl, CHR '')''] \<and>
   v_valid (validateCode (stackPatterns ''stack(s(a)).slow(2)'' ''n(b)''))"
proof -
  have a: "v_valid (validateCode ''s(a)'')" "v_valid (validateCode ''n(b)'')"
    "v_valid (validateCode ''stack(s(a)).slow(2)'')"
    by (simp_all add: validateCode_def)
  have 1: "v_valid (validateCode (stackPatterns ''s(a)'' ''n(b)''))"
    using conjunct1 [OF stackPatterns_valid [OF a(1,2), of "''s(a)''" "''slow''" "''2''"]] by simp
  have 2: "stackPatterns ''stack(s(a)).slow(2)'' ''n(b)'' = ''stack('' @ ''s(a)'' @ '').'' @ ''slow'' @ ''('' @ ''2'' @ [CHR '','', nl, CHR '' '', CHR '' ''] @ ''n(b)'' @ [nl, CHR '')''] \<and>
      v_valid (validateCode (stackPatterns ''stack(s(a)).slow(2)'' ''n(b)''))"
    by (rule mp [OF conjunct2 [OF stackPatterns_valid [OF a(3,2), of "''s(a)''" "''slow''" "''2''"]]]) simp_all
  show ?thesis using a 1 2 by blast
qed

theorem history_refines_unbounded_witness:
  "length (a_history (init_state None)) \<le> 50 \<and>
   a_history (set_codes ''t'' [''a'', [], ''b'', ''c''] (init_state None)) = [''a'', ''b'']"
proof -
  have "length (a_history (init_state None)) \<le> 50" by (simp add: init_state_def)
  moreover have "lastn 50 (a_history (init_state None) @
                   pushed (a_currentCode (init_state None)) [''a'', [], ''b'', ''c'']) = [''a'', ''b'']"
    by (simp add: init_state_def pushed_def lastn_def)
  ultimately show ?thesis using history_refines_unbounded [of "init_state None" "''t''"] by simp
qed

theorem undo_after_setCode_witness:
  "fst (undo (setCode ''t'' ''s2'' (setCode ''t'' ''s1'' (init_state None)))) = Some ''s1'' \<and>
   a_history (snd (undo (setCode ''t'' ''s2'' (setCode ''t'' ''s1'' (init_state None))))) = []"
proof -
  have "a_history (setCode ''t'' ''s1'' (init_state None)) = []"
    by (simp add: setCode_def init_state_def)
  then show ?thesis
    using undo_after_setCode [of "setCode ''t'' ''s1'' (init_state None)" "''t''" "''s2''"] by simp
qed

theorem setTempo_records_bpm_witness:
  "\<exists>a'. control_setTempo (\<lambda>_. ''140'') cfg0 ''t'' 140 \<lparr>app_sys = s_ready, app_st = init_state None\<rparr> =
      (Inr (ControlTempo True 140 (7 / 12) ''Tempo set to 140 BPM''), a') \<and>
    a_currentBpm (app_st a') = Some 140"
  using setTempo_records_bpm [of "\<lparr>app_sys = s_ready, app_st = init_state None\<rparr>" 1
                                 "\<lambda>_. ''140''" cfg0 "''t''" 140] s_ready_facts
  by auto

lemmas witness_data = int_str_def st_c3_def fs0_def ps0_def setCode_def init_state_def
  env_default_bpm_def int_or_def show_int_def show_nat.simps digit_chars_def

theorem extractCode_roundtrip_witness:
  "extractCode (createPatternFile int_str ''t0'' ''beat'' ''note(c3)'' (Some 120) ''calm'' [''house'']) =
     ''note(c3)''"
  using extractCode_roundtrip [of "''beat''" "''t0''" int_str "Some 120" "''calm''" "[''house'']" "''note(c3)''"]
  by (simp add: witness_data js_num_str_def code_line_def trim_def is_ws_def trimmed_def)

theorem extractMetadata_roundtrip_witness:
  "extractMetadata (createPatternFile int_str ''t0'' ''beat'' ''note(c3)'' (Some 120) ''calm'' [''house'', ''dark'']) =
     \<lparr>md_name = ''beat'', md_created = ''t0'', md_modified = ''t0'', md_bpm = Some 120,
      md_description = ''calm'', md_tags = [''house'', ''dark'']\<rparr>"
  using extractMetadata_roundtrip [of "''beat''" "''t0''" "''calm''" "[''house'', ''dark'']" int_str 120 "''note(c3)''"]
  by (simp add: witness_data trimmed_def is_ws_def)

theorem extractMetadata_lossy_witness:
  "md_tags (extractMetadata (createPatternFile (\<lambda>_. ''120.5'') ''t0'' ''beat'' ''note(c3)'' (Some (241 / 2))
     ''calm'' [])) = [[]] \<and>
   md_bpm (extractMetadata (createPatternFile (\<lambda>_. ''120.5'') ''t0'' ''beat'' ''note(c3)'' (Some (241 / 2))
     ''calm'' [])) = Some 120"
  using extractMetadata_lossy [of "\<lambda>_. ''120.5''" "''t0''" "''beat''" "Some (241 / 2)" "''calm''"
          "[]" "''note(c3)''" 120 "''5''"]
  by (simp add: witness_data header_lines_def js_num_str_def)

theorem description_newline_injects_code_witness:
  "extractCode (createPatternFile int_str ''t0'' ''beat'' ''note(c3)'' (Some 120) (''calm'' @ nl # ''s(hh)'') [''house'']) =
     ''s(hh)'' @ nl # ''note(c3)''"
  using description_newline_injects_code [of "''beat''" "''t0''" int_str "Some 120" "''calm''" "''s(hh)''"
          "[''house'']" "''note(c3)''"]
  by (simp add: witness_data js_num_str_def extractCode_def code_line_def trim_def is_ws_def)

lemma ps0_facts:
  "fs_writable (ps_fs ps0)" "a_currentCode (app_st ps0) = ''note(c3)''" "a_currentBpm (app_st ps0) = Some 120"
  "app_sys ps0 = s_ready" "fs_files (ps_fs ps0) = []" "fs_subdirs (ps_fs ps0) = []"
  by (simp_all add: ps0_def st_c3_def fs0_def setCode_def init_state_def env_default_bpm_def int_or_def)

theorem run_tool_wf_witness:
  "pstate_wf ps0 \<and>
   pstate_wf (snd (run_tool \<lparr>te_cfg = cfg0, te_dir = ''/p'', te_now = ''t0'', te_num_str = int_str,
                              te_date_ms = (\<lambda>_. 0)\<rparr> (TSave ''beat'' [] []) ps0))"
proof -
  have wf: "pstate_wf ps0"
    using s_ready_facts ps0_facts by (simp add: pstate_wf_def sess_wf_def ps0_def st_c3_def setCode_def
                                               init_state_def history_limit_def fs_names_distinct_def fs0_def)
  show ?thesis using run_tool_wf [OF wf] wf by simp
qed

theorem save_then_load_witness:
  "\<exists>r p2 p3. savePattern int_str ''/p'' ''t0'' ''beat'' ''calm'' [''house''] ps0 = (Inr r, p2) \<and>
     loadPattern cfg0 ''/p'' ''t1'' ''beat'' p2 =
       (Inr (LoadResult True ''beat'' ''note(c3)'' (Some 120) ''calm'' [''house''] True
               (''Pattern '' @ [dq] @ ''beat'' @ [dq] @ '' loaded and playing'')), p3) \<and>
     a_currentCode (app_st p3) = ''note(c3)'' \<and> a_currentBpm (app_st p3) = Some 120 \<and>
     a_isPlaying (app_st p3) \<and> editor_text (page_dom (s_world (app_sys p3)) 1) = ''note(c3)''"
  using save_then_load [of ps0 "''note(c3)''" 120 int_str "''beat''" "''t0''" "''calm''" "[''house'']" 1
          "''/p''" cfg0 "''t1''"] ps0_facts s_ready_facts
  by (simp add: witness_data site_dom_def code_line_def trim_def is_ws_def trimmed_def)

theorem save_overwrites_same_sanitized_witness:
  "sanitize ''My Beat'' = sanitize ''my-beat'' \<and>
   (\<exists>r p'. savePattern int_str ''/p'' ''t0'' ''my-beat'' [] [] ps0 = (Inr r, p') \<and>
      map_of (fs_files (ps_fs p')) (pattern_filename ''My Beat'') =
        Some (createPatternFile int_str ''t0'' ''my-beat'' ''note(c3)'' (Some 120) [] []))"
proof -
  have san: "sanitize ''My Beat'' = sanitize ''my-beat''"
    by (simp add: sanitize_def safe_char_def to_lower_def lower_char_def)
  obtain r p' where run: "savePattern int_str ''/p'' ''t0'' ''my-beat'' [] [] ps0 = (Inr r, p')"
    using savePattern_run [of ps0 "''note(c3)''" "''my-beat''" int_str "''/p''" "''t0''" "[]" "[]"] ps0_facts
    by auto
  show ?thesis
    using san run save_overwrites_same_sanitized [OF san run] ps0_facts by auto
qed

theorem load_missing_not_found_witness:
  "loadPattern cfg0 ''/p'' ''t1'' ''beat'' ps0 =
     (Inl (Error (''Pattern '' @ [dq] @ ''beat'' @ [dq] @ '' not found'')),
      ps0\<lparr>ps_fs := fs0\<lparr>fs_dir := True\<rparr>\<rparr>)"
  using load_missing_not_found [of ps0 "''beat''" cfg0 "''/p''" "''t1''"] ps0_facts
  by (simp add: not_found_def ps0_def)

theorem listPatterns_result_witness:
  "fs_names_distinct fs_dir1 \<and>
   listPatterns (\<lambda>d. if d = ''2'' then 2 else 1) ''/p'' ps_dir =
     (Inr (ListResult True 2 [pattern_entry_of ''a.strudel'' ''# Modified: 2'', pattern_entry_of ''b.strudel'' ''# Modified: 1'']
             ''Found 2 saved patterns''), ps_dir)"
proof -
  have d: "fs_names_distinct (ps_fs ps_dir)" by (simp add: ps_dir_def fs_dir1_def fs_names_distinct_def)
  have e: "entry_date (pattern_entry_of ''a.strudel'' ''# Modified: 2'') = ''2''"
    "entry_date (pattern_entry_of ''b.strudel'' ''# Modified: 1'') = ''1''"
    by (simp_all add: entry_date_def pattern_entry_of_def extractMetadata_def meta_line_def field_after_def
                      default_metadata_def trim_def is_ws_def Let_def)
  have "ps_dir\<lparr>ps_fs := (ps_fs ps_dir)\<lparr>fs_dir := True\<rparr>\<rparr> = ps_dir" by (simp add: ps_dir_def fs_dir1_def)
  then show ?thesis
    using listPatterns_result [OF _ d, of "\<lambda>d. if d = ''2'' then 2 else 1" "''/p''"] e d
    by (simp add: ps_dir_def fs_dir1_def Let_def show_nat.simps ends_with_def digit_chars_def)
qed

theorem save_then_list_witness:
  "\<exists>r p'. savePattern int_str ''/p'' ''t0'' ''a'' [] [] ps_dir = (Inr r, p') \<and>
     (\<exists>es. fst (listPatterns (\<lambda>_. 0) ''/p'' p') =
            Inr (ListResult True (length es) es (''Found '' @ show_nat (length es) @ '' saved patterns'')) \<and>
          mset (map pe_filename es) = {#''a.strudel'', ''b.strudel''#})"
proof -
  have fn: "pattern_filename ''a'' = ''a.strudel''"
    by (simp add: pattern_filename_def sanitize_def safe_char_def to_lower_def lower_char_def)
  obtain r p' where run: "savePattern int_str ''/p'' ''t0'' ''a'' [] [] ps_dir = (Inr r, p')"
    using savePattern_run [of ps_dir "''note(c3)''" "''a''" int_str "''/p''" "''t0''" "[]" "[]"] ps0_facts fn
    by (auto simp: ps_dir_def fs_dir1_def)
  have d: "fs_names_distinct (ps_fs ps_dir)" by (simp add: ps_dir_def fs_dir1_def fs_names_distinct_def)
  show ?thesis
    using run save_then_list [OF run d, of "\<lambda>_. 0"] fn
    by (auto simp: ps_dir_def fs_dir1_def ends_with_def)
qed

theorem deletePattern_outcome_witness:
  "fst (deletePattern ''/p'' ''old'' ps_dir) = Inl (eisdir (''unlink '' @ sq ''/p/old.strudel'')) \<and>
   fst (deletePattern ''/p'' ''c'' ps_dir) = Inl (not_found ''c'') \<and>
   fst (deletePattern ''/p'' ''a'' ps_dir) = Inr (DeleteResult True ''a'' (''Pattern '' @ [dq] @ ''a'' @ [dq] @ '' deleted'')) \<and>
   fst (loadPattern cfg0 ''/p'' ''t1'' ''a'' (snd (deletePattern ''/p'' ''a'' ps_dir))) = Inl (not_found ''a'')"
proof -
  have fn: "pattern_filename ''old'' = ''old.strudel''" "pattern_filename ''c'' = ''c.strudel''"
    "pattern_filename ''a'' = ''a.strudel''"
    by (simp_all add: pattern_filename_def sanitize_def safe_char_def to_lower_def lower_char_def)
  have ok: "fs_dir (ps_fs ps_dir) \<or> fs_writable (ps_fs ps_dir)" by (simp add: ps_dir_def fs_dir1_def)
  note o = deletePattern_outcome [OF ok]
  have 1: "fst (deletePattern ''/p'' ''old'' ps_dir) = Inl (eisdir (''unlink '' @ sq ''/p/old.strudel''))"
    using conjunct1 [OF o [of "''/p''" "''old''" cfg0 "''t1''"]] fn
    by (simp add: ps_dir_def fs_dir1_def path_join_def Let_def)
  have 2: "fst (deletePattern ''/p'' ''c'' ps_dir) = Inl (not_found ''c'')"
    using conjunct1 [OF o [of "''/p''" "''c''" cfg0 "''t1''"]] fn by (simp add: ps_dir_def fs_dir1_def Let_def)
  have 3: "fst (deletePattern ''/p'' ''a'' ps_dir) =
      Inr (DeleteResult True ''a'' (''Pattern '' @ [dq] @ ''a'' @ [dq] @ '' deleted''))"
    using conjunct1 [OF o [of "''/p''" "''a''" cfg0 "''t1''"]] fn by (simp add: ps_dir_def fs_dir1_def Let_def)
  have 4: "fst (loadPattern cfg0 ''/p'' ''t1'' ''a'' (snd (deletePattern ''/p'' ''a'' ps_dir))) = Inl (not_found ''a'')"
    using conjunct2 [OF o [of "''/p''" "''a''" cfg0 "''t1''"]] 3 by simp
  show ?thesis using 1 2 3 4 by blast
qed

theorem handle_call_answers_witness:
  "(\<exists>txt. handle_call int_str ''strudel_set_tempo'' (Some [(''bpm'', JNum 140)]) = CallResult txt False \<and>
          str_includes txt ''not yet implemented'') \<and>
   handle_call int_str ''strudel_set_tempo'' (Some [(''bpm'', JNum 140)]) =
     CallResult ''Tempo control not yet implemented. Would set to: 140 BPM'' False \<and>
   handle_call int_str ''strudel_play'' None = CallResult ''Error: Unknown tool: strudel_play'' True"
proof -
  note h = handle_call_answers [of int_str "''strudel_play''" None]
  have m: "tools ! 2 \<in> set list_tools" by (simp add: list_tools_def tools_def)
  have n: "tool_name (tools ! 2) = ''strudel_set_tempo''" by (simp add: tools_def)
  have "\<exists>txt. handle_call int_str ''strudel_set_tempo'' (Some [(''bpm'', JNum 140)]) = CallResult txt False \<and>
          str_includes txt ''not yet implemented''"
    using bspec [OF conjunct1 [OF h] m] n by simp
  moreover have "handle_call int_str ''strudel_set_tempo'' (Some [(''bpm'', JNum 140)]) =
     CallResult ''Tempo control not yet implemented. Would set to: 140 BPM'' False"
    by (simp add: handle_call_def call_body_def arg_text_def witness_data)
  moreover have "handle_call int_str ''strudel_play'' None = CallResult ''Error: Unknown tool: strudel_play'' True"
    using conjunct2 [OF h] by (simp add: list_tools_def tools_def)
  ultimately show ?thesis by blast
qed

theorem concurrent_cold_starts_leak_witness:
  "\<exists>s'. sched cfg0 [True, False, True, False, True, False, True, False, True, False, True, False]
          (LStart, LStart, init_sys w_ok) =
        (LDone (Inr (Some 1, Some 3)), LDone (Inr (Some 1, Some 3)), s') \<and>
        0 \<in> set (w_browsers (s_world s')) \<and> s_browser s' = Some 1"
  using concurrent_cold_starts_leak [of "init_sys w_ok" 0 cfg0]
  by (simp add: init_sys_def w_ok_def site_dom_def)

theorem concurrent_launch_mismatched_page_witness:
  "\<exists>s'. sched cfg0 [True, False, True, False, False, True, True, True, True, False, False, False]
          (LStart, LStart, init_sys w_ok) =
        (LDone (Inr (Some 1, Some 2)), LDone (Inr (Some 1, Some 2)), s') \<and>
        map_option pg_owner (w_pages (s_world s') 2) = Some 0 \<and> \<not> sess_wf s' \<and>
        s_browser (snd (closeBrowser s')) = None \<and> s_page (snd (closeBrowser s')) = None \<and>
        page_live (s_world (snd (closeBrowser s'))) 2"
  using concurrent_launch_mismatched_page [of "init_sys w_ok" 0 cfg0]
  by (simp add: init_sys_def w_ok_def site_dom_def numeral_2_eq_2)

theorem launchBrowser_idempotent_witness:
  "launchBrowser cfg0 (init_sys w_ok) = (Inr (0, 1), s_ready) \<and>
   (\<exists>s2. launchBrowser cfg0 s_ready = (Inr (0, 1), s2) \<and> s_browser s2 = Some 0 \<and> s_page s2 = Some 1 \<and>
         w_browsers (s_world s2) = [0] \<and> w_next (s_world s2) = 2)"
  using launchBrowser_idempotent [OF s_ready_launch] s_ready_launch s_ready_facts by simp

end
